theory Spec2Isabelle
  imports Complex_Main
begin

section \<open>Time model\<close>

text \<open>
  The SLA engine works on naive Python \<^verbatim>\<open>datetime\<close> values.  An instant is modelled as
  the number of microseconds since 0001-01-01T00:00:00 (the resolution of
  \<^verbatim>\<open>datetime\<close>), a calendar date as its proleptic Gregorian ordinal
  (\<^verbatim>\<open>date.toordinal()\<close>, 0001-01-01 is day 1 and a Monday), a time of day as
  microseconds since midnight.  Hours are Python floats in the source; the model
  computes them as exact reals, so binary rounding error of float arithmetic is
  not represented.
\<close>

type_synonym datetime = int
type_synonym pydate = int
type_synonym pytime = int

datatype py_error = OverflowError | TypeError

definition US_PER_DAY :: int where
  "US_PER_DAY = 86400000000"

definition MAXORDINAL :: pydate where
  \<comment> \<open>\<^verbatim>\<open>date.max.toordinal()\<close>, 9999-12-31\<close>
  "MAXORDINAL = 3652059"

definition date_of :: "datetime \<Rightarrow> pydate" where
  "date_of t = t div US_PER_DAY + 1"

definition time_of :: "datetime \<Rightarrow> pytime" where
  "time_of t = t mod US_PER_DAY"

definition combine :: "pydate \<Rightarrow> pytime \<Rightarrow> datetime" where
  "combine d tm = (d - 1) * US_PER_DAY + tm"

definition weekday :: "pydate \<Rightarrow> int" where
  \<comment> \<open>\<^verbatim>\<open>date.weekday()\<close>: Monday is 0, Sunday is 6\<close>
  "weekday d = (d + 6) mod 7"

definition mk_time :: "int \<Rightarrow> int \<Rightarrow> pytime" where
  \<comment> \<open>\<^verbatim>\<open>time(h, m)\<close>\<close>
  "mk_time h m = (h * 3600 + m * 60) * 1000000"

definition is_leap :: "int \<Rightarrow> bool" where
  "is_leap y = (y mod 4 = 0 \<and> (y mod 100 \<noteq> 0 \<or> y mod 400 = 0))"

definition days_before_year :: "int \<Rightarrow> int" where
  "days_before_year year = (let y = year - 1 in y * 365 + y div 4 - y div 100 + y div 400)"

definition days_before_month :: "int \<Rightarrow> int \<Rightarrow> int" where
  "days_before_month year month =
     ([0, 0, 31, 59, 90, 120, 151, 181, 212, 243, 273, 304, 334] ! nat month)
     + (if month > 2 \<and> is_leap year then 1 else 0)"

definition ymd2ord :: "int \<Rightarrow> int \<Rightarrow> int \<Rightarrow> pydate" where
  "ymd2ord year month day = days_before_year year + days_before_month year month + day"

definition mk_datetime :: "int \<Rightarrow> int \<Rightarrow> int \<Rightarrow> int \<Rightarrow> int \<Rightarrow> int \<Rightarrow> datetime" where
  \<comment> \<open>\<^verbatim>\<open>datetime(year, month, day, hour, minute, second)\<close> for a valid calendar date\<close>
  "mk_datetime year month day h m s =
     combine (ymd2ord year month day) ((h * 3600 + m * 60 + s) * 1000000)"

definition total_hours :: "int \<Rightarrow> real" where
  \<comment> \<open>\<^verbatim>\<open>delta.total_seconds() / 3600\<close> for a timedelta of the given microseconds\<close>
  "total_hours us = real_of_int us / 3600000000"

definition round_half_even :: "real \<Rightarrow> int" where
  "round_half_even x =
     (let f = \<lfloor>x\<rfloor>; d = x - real_of_int f
      in if d < 1 / 2 then f else if d > 1 / 2 then f + 1
         else if even f then f else f + 1)"

definition py_round :: "real \<Rightarrow> nat \<Rightarrow> real" where
  \<comment> \<open>\<^verbatim>\<open>round(x, n)\<close>: to the nearest multiple of \<open>10\<^sup>-\<^sup>n\<close>, ties to even\<close>
  "py_round x n = real_of_int (round_half_even (x * 10 ^ n)) / 10 ^ n"

section \<open>modules/sla/metrics.py: the working-time accumulator\<close>

definition SLA_DATA_INICIO :: datetime where
  "SLA_DATA_INICIO = mk_datetime 2026 2 16 0 0 0"

definition HORA_INICIO :: pytime where
  "HORA_INICIO = mk_time 8 0"

definition HORA_FIM :: pytime where
  "HORA_FIM = mk_time 18 0"

definition eh_dia_util_metrics :: "pydate \<Rightarrow> bool" where
  \<comment> \<open>\<^verbatim>\<open>_eh_dia_util\<close> of metrics.py: weekdays only, no holiday lookup\<close>
  "eh_dia_util_metrics d = (weekday d < 5)"

definition horas_dia :: "datetime \<Rightarrow> datetime \<Rightarrow> pydate \<Rightarrow> real \<Rightarrow> real" where
  \<comment> \<open>the body of the \<^verbatim>\<open>while\<close> loop of \<^verbatim>\<open>_horas_uteis\<close>: the new value of \<^verbatim>\<open>total\<close>\<close>
  "horas_dia inicio fim current tot =
     (if eh_dia_util_metrics current then
        (let j_ini = max (combine current HORA_INICIO) inicio;
             j_fim = min (combine current HORA_FIM) fim
         in if j_ini < j_fim then tot + total_hours (j_fim - j_ini) else tot)
      else tot)"

function horas_uteis_loop :: "datetime \<Rightarrow> datetime \<Rightarrow> pydate \<Rightarrow> real \<Rightarrow> py_error + real" where
  "horas_uteis_loop inicio fim current tot =
     (if current \<le> date_of fim then
        (if current + 1 > MAXORDINAL then Inl OverflowError
         else horas_uteis_loop inicio fim (current + 1) (horas_dia inicio fim current tot))
      else Inr tot)"
  by pat_completeness auto
termination
  by (relation "measure (\<lambda>(inicio, fim, current, tot). nat (date_of fim + 1 - current))") auto

declare horas_uteis_loop.simps [simp del]

definition horas_uteis_n :: "nat \<Rightarrow> datetime option \<Rightarrow> datetime option \<Rightarrow> py_error + real" where
  \<comment> \<open>\<^verbatim>\<open>_horas_uteis\<close> with the number of decimals of the final \<^verbatim>\<open>round\<close> as a parameter\<close>
  "horas_uteis_n n inicio fim =
     (case inicio of None \<Rightarrow> Inr 0 | Some i \<Rightarrow>
      (case fim of None \<Rightarrow> Inr 0 | Some f \<Rightarrow>
        (let i = (if i < SLA_DATA_INICIO then SLA_DATA_INICIO else i)
         in if i \<ge> f then Inr 0
            else (case horas_uteis_loop i f (date_of i) 0 of
                    Inl e \<Rightarrow> Inl e
                  | Inr tot \<Rightarrow> Inr (py_round tot n)))))"

definition horas_uteis :: "datetime option \<Rightarrow> datetime option \<Rightarrow> py_error + real" where
  \<comment> \<open>\<^verbatim>\<open>_horas_uteis\<close> of modules/sla/metrics.py: \<^verbatim>\<open>round(total, 4)\<close>\<close>
  "horas_uteis = horas_uteis_n 4"

definition ti_horas_uteis :: "datetime option \<Rightarrow> datetime option \<Rightarrow> py_error + real" where
  \<comment> \<open>\<^verbatim>\<open>_horas_uteis\<close> of ti/services/metrics.py: the same code with \<^verbatim>\<open>round(total, 2)\<close>\<close>
  "ti_horas_uteis = horas_uteis_n 2"

section \<open>modules/sla/metrics.py: pauses and the per-ticket evaluation\<close>

text \<open>
  \<^verbatim>\<open>datetime.utcnow()\<close> is the parameter \<open>now\<close>: one evaluation reads the clock several
  times, the model uses one instant for all of them.
\<close>

fun pausas_loop ::
  "datetime \<Rightarrow> datetime \<Rightarrow> datetime \<Rightarrow> (datetime \<times> datetime option) list \<Rightarrow> real \<Rightarrow> py_error + real" where
  "pausas_loop now inicio fim [] pausado = Inr pausado"
| "pausas_loop now inicio fim ((p_ini, p_fim) # pausas) pausado =
     (let p_fim_real = (case p_fim of Some t \<Rightarrow> t | None \<Rightarrow> now);
          i2 = max p_ini inicio;
          f2 = min p_fim_real fim
      in if i2 < f2
         then (case horas_uteis (Some i2) (Some f2) of
                 Inl e \<Rightarrow> Inl e
               | Inr h \<Rightarrow> pausas_loop now inicio fim pausas (pausado + h))
         else pausas_loop now inicio fim pausas pausado)"

definition horas_uteis_com_pausas ::
  "datetime \<Rightarrow> datetime \<Rightarrow> datetime \<Rightarrow> (datetime \<times> datetime option) list \<Rightarrow> py_error + (real \<times> real)" where
  "horas_uteis_com_pausas now inicio fim pausas =
     (case horas_uteis (Some inicio) (Some fim) of
        Inl e \<Rightarrow> Inl e
      | Inr bruto \<Rightarrow>
          (case pausas_loop now inicio fim pausas 0 of
             Inl e \<Rightarrow> Inl e
           | Inr pausado \<Rightarrow> Inr (py_round (max 0 (bruto - pausado)) 4, py_round pausado 4)))"

text \<open>
  Strings are byte lists in UTF-8.  \<^verbatim>\<open>str.lower()\<close> is a library function that lowers
  every cased character of Unicode; the functions that call it take it as their first
  argument \<open>lower\<close>, and what is proved of them holds whatever function that is.
  \<open>ascii_lower\<close> is \<^verbatim>\<open>str.lower()\<close> on ASCII strings, the letters A to Z lowered and every
  other byte kept; the examples, whose priorities are ASCII, are evaluated with it.
\<close>

definition char_lower :: "char \<Rightarrow> char" where
  "char_lower c =
     (case map_of (zip ''ABCDEFGHIJKLMNOPQRSTUVWXYZ'' ''abcdefghijklmnopqrstuvwxyz'') c of
        Some l \<Rightarrow> l
      | None \<Rightarrow> c)"

definition ascii_lower :: "string \<Rightarrow> string" where
  "ascii_lower s = map char_lower s"

definition str_or :: "string option \<Rightarrow> string \<Rightarrow> string" where
  \<comment> \<open>\<^verbatim>\<open>x or default\<close> for an optional string: \<^verbatim>\<open>None\<close> and the empty string are falsy\<close>
  "str_or x dflt = (case x of None \<Rightarrow> dflt | Some v \<Rightarrow> if v = [] then dflt else v)"

definition Concluido :: string where
  \<comment> \<open>the status spelled with i-acute, bytes C3 AD\<close>
  "Concluido = ''Conclu'' @ [CHR 0xC3, CHR 0xAD] @ ''do''"

definition STATUS_PAUSADOS :: "string list" where
  "STATUS_PAUSADOS = [''Aguardando'']"

definition STATUS_ATIVOS :: "string list" where
  "STATUS_ATIVOS = [''Aberto'', ''Em atendimento'']"

definition STATUS_FINAIS :: "string list" where
  "STATUS_FINAIS = [Concluido, ''Expirado'']"

record chamado =
  ch_id :: int
  ch_codigo :: string
  ch_prioridade :: "string option"
  ch_status :: "string option"
  data_abertura :: "datetime option"
  data_primeira_resposta :: "datetime option"
  data_conclusao :: "datetime option"
  cancelado_em :: "datetime option"
  deletado_em :: "datetime option"

record configuracao_sla =
  cfg_prioridade :: string
  tempo_resposta_horas :: real
  tempo_resolucao_horas :: real
  percentual_risco :: "real option"
  cfg_ativo :: bool

record sla_pausa =
  pausa_chamado_id :: int
  pausa_inicio :: datetime
  pausa_fim :: "datetime option"
  duracao_horas :: real
  pausa_tipo :: string
  status_pausante :: "string option"
  motivo :: "string option"

record banco =
  chamados :: "chamado list"
  configuracoes :: "configuracao_sla list"
  sla_pausas :: "sla_pausa list"

record cfg_dict =
  resposta :: real
  resolucao :: real
  risco :: "real option"

definition configs_of :: "(string \<Rightarrow> string) \<Rightarrow> banco \<Rightarrow> (string \<rightharpoonup> cfg_dict)" where
  \<comment> \<open>\<^verbatim>\<open>ServicoMetricasSLA._configs\<close>: a later row with the same lowered priority wins\<close>
  "configs_of lower db =
     fold (\<lambda>c m. m(lower (cfg_prioridade c) \<mapsto>
                     \<lparr>resposta = tempo_resposta_horas c,
                      resolucao = tempo_resolucao_horas c,
                      risco = percentual_risco c\<rparr>))
          (filter cfg_ativo (configuracoes db)) Map.empty"

definition pausas_of :: "banco \<Rightarrow> int \<Rightarrow> (datetime \<times> datetime option) list" where
  \<comment> \<open>\<^verbatim>\<open>ServicoMetricasSLA._pausas\<close>\<close>
  "pausas_of db chamado_id =
     map (\<lambda>p. (pausa_inicio p, pausa_fim p))
         (filter (\<lambda>p. pausa_chamado_id p = chamado_id) (sla_pausas db))"

record sla_result =
  r_chamado_id :: int
  r_codigo :: string
  r_prioridade :: "string option"
  r_status :: string
  pausado :: bool
  ativo :: bool
  resolucao_trabalhado_horas :: real
  resolucao_pausado_horas :: real
  resolucao_limite_horas :: real
  percentual_resolucao :: real
  resolucao_em_dia :: bool
  resolucao_em_risco :: bool
  resolucao_vencida :: bool
  resposta_trabalhado_horas :: real
  resposta_pausado_horas :: real
  resposta_limite_horas :: real
  percentual_resposta :: real
  resposta_em_dia :: bool
  resposta_em_risco :: bool
  resposta_vencida :: bool

definition percentual :: "real \<Rightarrow> real \<Rightarrow> real" where
  \<comment> \<open>\<^verbatim>\<open>round(trab / lim * 100, 1) if lim > 0 else 0\<close>\<close>
  "percentual trab limite = (if limite > 0 then py_round (trab / limite * 100) 1 else 0)"

definition calcular_sla_chamado ::
  "(string \<Rightarrow> string) \<Rightarrow> banco \<Rightarrow> datetime \<Rightarrow> chamado \<Rightarrow> py_error + sla_result option" where
  "calcular_sla_chamado lower db now c =
     (case data_abertura c of
        None \<Rightarrow> Inr None
      | Some abertura \<Rightarrow>
        if abertura < SLA_DATA_INICIO then Inr None
        else
          (let configs = configs_of lower db;
               key = lower (str_or (ch_prioridade c) ''normal'')
           in case (case configs key of Some v \<Rightarrow> Some v | None \<Rightarrow> configs ''normal'') of
                None \<Rightarrow> Inr None
              | Some cfg \<Rightarrow>
                (let lim_resp = resposta cfg;
                     lim_res = resolucao cfg;
                     pausas = pausas_of db (ch_id c);
                     status = str_or (ch_status c) ''Aberto'';
                     final = (status \<in> set STATUS_FINAIS);
                     data_ref = (if final
                                 then (case data_conclusao c of
                                         Some t \<Rightarrow> t
                                       | None \<Rightarrow> (case cancelado_em c of Some t \<Rightarrow> t | None \<Rightarrow> now))
                                 else now)
                 in case horas_uteis_com_pausas now abertura data_ref pausas of
                      Inl e \<Rightarrow> Inl e
                    | Inr (res_trab, res_paus) \<Rightarrow>
                      (let pct_res = percentual res_trab lim_res;
                           res_venc = (res_trab \<ge> lim_res \<and> \<not> final)
                       in case risco cfg of
                            None \<Rightarrow> Inl TypeError
                          | Some pct_risco \<Rightarrow>
                            (let res_risco = (pct_res \<ge> pct_risco \<and> \<not> res_venc \<and> \<not> final)
                             in case (case data_primeira_resposta c of
                                        Some primeira \<Rightarrow> horas_uteis_com_pausas now abertura primeira pausas
                                      | None \<Rightarrow> horas_uteis_com_pausas now abertura data_ref pausas) of
                                  Inl e \<Rightarrow> Inl e
                                | Inr (resp_trab, resp_paus) \<Rightarrow>
                                  (let pct_resp = percentual resp_trab lim_resp;
                                       resp_venc = (if data_primeira_resposta c \<noteq> None
                                                    then resp_trab > lim_resp
                                                    else resp_trab \<ge> lim_resp \<and> \<not> final);
                                       resp_risco = (if data_primeira_resposta c \<noteq> None
                                                     then False
                                                     else pct_resp \<ge> pct_risco \<and> \<not> resp_venc \<and> \<not> final)
                                   in Inr (Some
                                        \<lparr>r_chamado_id = ch_id c,
                                         r_codigo = ch_codigo c,
                                         r_prioridade = ch_prioridade c,
                                         r_status = status,
                                         pausado = (status \<in> set STATUS_PAUSADOS),
                                         ativo = (status \<in> set STATUS_ATIVOS),
                                         resolucao_trabalhado_horas = res_trab,
                                         resolucao_pausado_horas = res_paus,
                                         resolucao_limite_horas = lim_res,
                                         percentual_resolucao = pct_res,
                                         resolucao_em_dia = (\<not> res_venc \<and> \<not> res_risco),
                                         resolucao_em_risco = res_risco,
                                         resolucao_vencida = res_venc,
                                         resposta_trabalhado_horas = resp_trab,
                                         resposta_pausado_horas = resp_paus,
                                         resposta_limite_horas = lim_resp,
                                         percentual_resposta = pct_resp,
                                         resposta_em_dia = (\<not> resp_venc \<and> \<not> resp_risco),
                                         resposta_em_risco = resp_risco,
                                         resposta_vencida = resp_venc\<rparr>)))))))"

section \<open>modules/sla/metrics.py: the dashboard\<close>

datatype formatado = Traco | HorasMin int int | SoHoras int | SoMin int

definition formatar :: "real \<Rightarrow> formatado" where
  \<comment> \<open>\<^verbatim>\<open>_formatar\<close>; the value stands for the string the f-string renders\<close>
  "formatar horas =
     (if horas \<le> 0 then Traco
      else (let h = \<lfloor>horas\<rfloor>; m = \<lfloor>(horas - real_of_int h) * 60\<rfloor>
            in if h > 0 \<and> m > 0 then HorasMin h m
               else if h > 0 then SoHoras h
               else SoMin m))"

definition selecionar_chamados :: "banco \<Rightarrow> datetime \<Rightarrow> datetime \<Rightarrow> chamado list" where
  \<comment> \<open>the population query; a comparison with \<^verbatim>\<open>NULL\<close> does not select the row\<close>
  "selecionar_chamados db data_inicio data_fim =
     filter (\<lambda>c. case data_abertura c of
                   None \<Rightarrow> False
                 | Some abertura \<Rightarrow>
                     abertura \<ge> SLA_DATA_INICIO \<and> deletado_em c = None \<and>
                     (case ch_status c of
                        None \<Rightarrow> False
                      | Some st \<Rightarrow>
                          st \<in> set (STATUS_ATIVOS @ STATUS_PAUSADOS) \<or>
                          (st \<in> set STATUS_FINAIS \<and> abertura \<ge> data_inicio \<and> abertura \<le> data_fim)))
            (chamados db)"

record acumulador =
  l_em_risco :: "sla_result list"
  l_vencidos :: "sla_result list"
  l_pausados :: "sla_result list"
  l_processados :: "sla_result list"
  soma_resp :: real
  soma_res :: real
  cnt_resp :: real
  cnt_res :: real

definition acumulador_inicial :: acumulador where
  "acumulador_inicial =
     \<lparr>l_em_risco = [], l_vencidos = [], l_pausados = [], l_processados = [],
      soma_resp = 0, soma_res = 0, cnt_resp = 0, cnt_res = 0\<rparr>"

definition classificar :: "sla_result \<Rightarrow> acumulador \<Rightarrow> acumulador" where
  \<comment> \<open>the \<^verbatim>\<open>if / elif / elif\<close> chain that fills the three lists\<close>
  "classificar s acc =
     (if pausado s then acc\<lparr>l_pausados := l_pausados acc @ [s]\<rparr>
      else if resolucao_vencida s then acc\<lparr>l_vencidos := l_vencidos acc @ [s]\<rparr>
      else if resolucao_em_risco s then acc\<lparr>l_em_risco := l_em_risco acc @ [s]\<rparr>
      else acc)"

definition somar_resposta :: "chamado \<Rightarrow> sla_result \<Rightarrow> acumulador \<Rightarrow> acumulador" where
  \<comment> \<open>the response average, with the wall-clock fallback; a ticket that has a result has
      an opening time, so the last case is never taken inside the loop\<close>
  "somar_resposta c s acc =
     (case data_primeira_resposta c of
        None \<Rightarrow> acc
      | Some primeira \<Rightarrow>
          if resposta_trabalhado_horas s > 0
          then acc\<lparr>soma_resp := soma_resp acc + resposta_trabalhado_horas s,
                   cnt_resp := cnt_resp acc + 1\<rparr>
          else (case data_abertura c of
                  Some abertura \<Rightarrow>
                    (let horas_resp = max (total_hours (primeira - abertura)) (17 / 1000)
                     in acc\<lparr>soma_resp := soma_resp acc + horas_resp,
                             cnt_resp := cnt_resp acc + 1\<rparr>)
                | None \<Rightarrow> acc))"

definition somar_resolucao :: "chamado \<Rightarrow> sla_result \<Rightarrow> acumulador \<Rightarrow> acumulador" where
  "somar_resolucao c s acc =
     (if ch_status c = Some Concluido
      then (let horas_res = resolucao_trabalhado_horas s;
                horas_res = (case (data_conclusao c, data_abertura c) of
                               (Some conclusao, Some abertura) \<Rightarrow>
                                 if horas_res \<le> 0
                                 then max (total_hours (conclusao - abertura)) (17 / 1000)
                                 else horas_res
                             | _ \<Rightarrow> horas_res)
            in if horas_res > 0
               then acc\<lparr>soma_res := soma_res acc + horas_res, cnt_res := cnt_res acc + 1\<rparr>
               else acc)
      else acc)"

definition acumular :: "chamado \<Rightarrow> sla_result \<Rightarrow> acumulador \<Rightarrow> acumulador" where
  \<comment> \<open>one round of the loop over the selected tickets, for a ticket with a result\<close>
  "acumular c s acc =
     somar_resolucao c s
       (somar_resposta c s
          (classificar s (acc\<lparr>l_processados := l_processados acc @ [s]\<rparr>)))"

fun dashboard_loop ::
  "(string \<Rightarrow> string) \<Rightarrow> banco \<Rightarrow> datetime \<Rightarrow> chamado list \<Rightarrow> acumulador \<Rightarrow> py_error + acumulador" where
  "dashboard_loop lower db now [] acc = Inr acc"
| "dashboard_loop lower db now (c # cs) acc =
     (case calcular_sla_chamado lower db now c of
        Inl e \<Rightarrow> Inl e
      | Inr None \<Rightarrow> dashboard_loop lower db now cs acc
      | Inr (Some s) \<Rightarrow> dashboard_loop lower db now cs (acumular c s acc))"

record prio_stats =
  pp_prioridade :: string
  pp_total :: int
  pp_em_risco :: int
  pp_vencidos :: int
  pp_pausados :: int

definition prio_contar :: "sla_result \<Rightarrow> prio_stats \<Rightarrow> prio_stats" where
  \<comment> \<open>the four updates of one entry of \<^verbatim>\<open>prio_map\<close>: three independent \<^verbatim>\<open>if\<close>s\<close>
  "prio_contar s v =
     (let v = v\<lparr>pp_total := pp_total v + 1\<rparr>;
          v = (if pausado s then v\<lparr>pp_pausados := pp_pausados v + 1\<rparr> else v);
          v = (if resolucao_em_risco s then v\<lparr>pp_em_risco := pp_em_risco v + 1\<rparr> else v);
          v = (if resolucao_vencida s then v\<lparr>pp_vencidos := pp_vencidos v + 1\<rparr> else v)
      in v)"

fun prio_loop :: "sla_result list \<Rightarrow> (string \<times> prio_stats) list \<Rightarrow> (string \<times> prio_stats) list" where
  \<comment> \<open>\<^verbatim>\<open>prio_map\<close> as an association list in insertion order\<close>
  "prio_loop [] prio_map = prio_map"
| "prio_loop (s # ss) prio_map =
     (let p = str_or (r_prioridade s) ''Normal'';
          prio_map = (if p \<notin> fst ` set prio_map
                      then prio_map @ [(p, \<lparr>pp_prioridade = p, pp_total = 0, pp_em_risco = 0,
                                              pp_vencidos = 0, pp_pausados = 0\<rparr>)]
                      else prio_map)
      in prio_loop ss (map (\<lambda>(k, v). if k = p then (k, prio_contar s v) else (k, v)) prio_map))"

definition pct_de :: "int \<Rightarrow> int \<Rightarrow> real" where
  \<comment> \<open>\<^verbatim>\<open>round(n / total * 100, 1) if total > 0 else 0\<close>\<close>
  "pct_de n tot = (if tot > 0 then py_round (real_of_int n / real_of_int tot * 100) 1 else 0)"

record prio_saida =
  ps_stats :: prio_stats
  ps_percentual_em_risco :: real
  ps_percentual_vencidos :: real

record dashboard =
  total_chamados :: int
  chamados_abertos :: int
  chamados_em_risco :: int
  chamados_vencidos :: int
  chamados_pausados :: int
  percentual_cumprimento :: real
  percentual_em_risco :: real
  percentual_vencidos :: real
  tempo_medio_resposta_horas :: real
  tempo_medio_resolucao_horas :: real
  tempo_medio_resposta_formatado :: formatado
  tempo_medio_resolucao_formatado :: formatado
  por_prioridade :: "prio_saida list"
  lista_em_risco :: "sla_result list"
  lista_vencidos :: "sla_result list"
  lista_pausados :: "sla_result list"
  periodo_inicio :: datetime
  periodo_fim :: datetime
  sla_data_inicio :: datetime
  ultima_atualizacao :: datetime

definition montar_dashboard ::
  "datetime \<Rightarrow> datetime \<Rightarrow> datetime \<Rightarrow> chamado list \<Rightarrow> acumulador \<Rightarrow> dashboard" where
  \<comment> \<open>everything \<^verbatim>\<open>obter_metricas_dashboard\<close> does after its loop over the tickets\<close>
  "montar_dashboard now data_inicio data_fim selecionados acc =
     (let tot = int (length (l_processados acc));
          em_dia = tot - int (length (l_em_risco acc)) - int (length (l_vencidos acc));
          med_resp = (if cnt_resp acc > 0 then soma_resp acc / cnt_resp acc else 0);
          med_res = (if cnt_res acc > 0 then soma_res acc / cnt_res acc else 0)
      in \<lparr>total_chamados = tot,
          chamados_abertos =
            int (length (filter (\<lambda>c. case ch_status c of
                                        None \<Rightarrow> False
                                      | Some st \<Rightarrow> st \<in> set (STATUS_ATIVOS @ STATUS_PAUSADOS))
                                selecionados)),
          chamados_em_risco = int (length (l_em_risco acc)),
          chamados_vencidos = int (length (l_vencidos acc)),
          chamados_pausados = int (length (l_pausados acc)),
          percentual_cumprimento = pct_de em_dia tot,
          percentual_em_risco = pct_de (int (length (l_em_risco acc))) tot,
          percentual_vencidos = pct_de (int (length (l_vencidos acc))) tot,
          tempo_medio_resposta_horas = py_round med_resp 2,
          tempo_medio_resolucao_horas = py_round med_res 2,
          tempo_medio_resposta_formatado = formatar med_resp,
          tempo_medio_resolucao_formatado = formatar med_res,
          por_prioridade =
            map (\<lambda>(k, v). \<lparr>ps_stats = v,
                            ps_percentual_em_risco = pct_de (pp_em_risco v) (pp_total v),
                            ps_percentual_vencidos = pct_de (pp_vencidos v) (pp_total v)\<rparr>)
                (prio_loop (l_processados acc) []),
          lista_em_risco = take 50 (l_em_risco acc),
          lista_vencidos = take 50 (l_vencidos acc),
          lista_pausados = take 50 (l_pausados acc),
          periodo_inicio = data_inicio,
          periodo_fim = data_fim,
          sla_data_inicio = SLA_DATA_INICIO,
          ultima_atualizacao = now\<rparr>)"

definition obter_metricas_dashboard ::
  "(string \<Rightarrow> string) \<Rightarrow> banco \<Rightarrow> datetime \<Rightarrow> datetime option \<Rightarrow> datetime option \<Rightarrow> py_error + dashboard" where
  \<comment> \<open>the period bounds are naive instants, \<^verbatim>\<open>_normalizar_datetime\<close> leaves them as they are;
      \<^verbatim>\<open>data_fim - timedelta(days=30)\<close> raises below \<^verbatim>\<open>datetime.min\<close>\<close>
  "obter_metricas_dashboard lower db now data_inicio data_fim =
     (let data_fim = (case data_fim of None \<Rightarrow> now | Some t \<Rightarrow> t)
      in case (case data_inicio of
                 None \<Rightarrow> if data_fim - 30 * US_PER_DAY < 0 then Inl OverflowError
                          else Inr (max (data_fim - 30 * US_PER_DAY) SLA_DATA_INICIO)
               | Some t \<Rightarrow> Inr (max t SLA_DATA_INICIO)) of
           Inl e \<Rightarrow> Inl e
         | Inr data_inicio \<Rightarrow>
             (let selecionados = selecionar_chamados db data_inicio data_fim
              in case dashboard_loop lower db now selecionados acumulador_inicial of
                   Inl e \<Rightarrow> Inl e
                 | Inr acc \<Rightarrow> Inr (montar_dashboard now data_inicio data_fim selecionados acc)))"

section \<open>modules/sla/calculator.py: calendar with holidays and the accumulator\<close>

text \<open>
  The legacy calculator reads holidays and business hours from the database and
  caches them in the calculator object.  The rows are records with the columns
  the code reads; a \<^verbatim>\<open>NULL\<close> in \<^verbatim>\<open>ativo\<close> fails the filter \<^verbatim>\<open>ativo == True\<close> and is
  modelled as \<open>False\<close>.
\<close>

record feriado =
  fer_data :: pydate
  fer_ativo :: bool

record horario_comercial =
  dia_semana :: int
  hora_inicio :: pytime
  hora_fim :: pytime
  hc_ativo :: bool

definition year_of :: "pydate \<Rightarrow> int" where
  \<comment> \<open>\<^verbatim>\<open>date.year\<close>, as \<^verbatim>\<open>_ord2ymd\<close> of the standard library computes it\<close>
  "year_of ordinal =
     (let n = ordinal - 1;
          n400 = n div 146097; n = n mod 146097;
          n100 = n div 36524; n = n mod 36524;
          n4 = n div 1461; n = n mod 1461;
          n1 = n div 365;
          year = n400 * 400 + 1 + n100 * 100 + n4 * 4 + n1
      in if n1 = 4 \<or> n100 = 4 then year - 1 else year)"

record calculador =
  db_feriados :: "feriado list"
  db_horarios :: "horario_comercial list"
  cache_feriados :: "int \<rightharpoonup> pydate list"
  cache_horarios :: "(int \<rightharpoonup> pytime \<times> pytime) option"

definition novo_calculador :: "feriado list \<Rightarrow> horario_comercial list \<Rightarrow> calculador" where
  \<comment> \<open>\<^verbatim>\<open>CalculadorSLA.__init__\<close>: both caches start empty\<close>
  "novo_calculador fs hs =
     \<lparr>db_feriados = fs, db_horarios = hs, cache_feriados = Map.empty, cache_horarios = None\<rparr>"

definition query_feriados :: "feriado list \<Rightarrow> int \<Rightarrow> pydate list" where
  "query_feriados fs ano = map fer_data (filter (\<lambda>f. fer_ativo f \<and> year_of (fer_data f) = ano) fs)"

definition carregar_feriados :: "calculador \<Rightarrow> int \<Rightarrow> pydate list \<times> calculador" where
  "carregar_feriados c ano =
     (case cache_feriados c ano of
        Some l \<Rightarrow> (l, c)
      | None \<Rightarrow>
          (let feriados_list = query_feriados (db_feriados c) ano
           in (feriados_list, c\<lparr>cache_feriados := (cache_feriados c)(ano \<mapsto> feriados_list)\<rparr>)))"

definition janela_padrao :: "pytime \<times> pytime" where
  "janela_padrao = (mk_time 8 0, mk_time 18 0)"

definition query_horarios :: "horario_comercial list \<Rightarrow> (int \<rightharpoonup> pytime \<times> pytime)" where
  \<comment> \<open>the dictionary built by \<^verbatim>\<open>_carregar_horarios_comerciais\<close>; it is empty exactly when
      the query returned no row\<close>
  "query_horarios hs =
     (let horarios_db = filter hc_ativo hs;
          horarios = fold (\<lambda>h m. m(dia_semana h \<mapsto> (hora_inicio h, hora_fim h))) horarios_db Map.empty
      in if horarios_db = [] then fold (\<lambda>dia m. m(dia \<mapsto> janela_padrao)) [0, 1, 2, 3, 4] horarios
         else horarios)"

definition carregar_horarios_comerciais :: "calculador \<Rightarrow> (int \<rightharpoonup> pytime \<times> pytime) \<times> calculador" where
  "carregar_horarios_comerciais c =
     (case cache_horarios c of
        Some h \<Rightarrow> (h, c)
      | None \<Rightarrow>
          (let horarios = query_horarios (db_horarios c)
           in (horarios, c\<lparr>cache_horarios := Some horarios\<rparr>)))"

definition eh_dia_util :: "calculador \<Rightarrow> pydate \<Rightarrow> bool \<times> calculador" where
  "eh_dia_util c data' =
     (if weekday data' \<ge> 5 then (False, c)
      else (let (feriados, c') = carregar_feriados c (year_of data')
            in (data' \<notin> set feriados, c')))"

definition obter_horario_comercial :: "calculador \<Rightarrow> pydate \<Rightarrow> (pytime \<times> pytime) option \<times> calculador" where
  "obter_horario_comercial c data' =
     (let (util, c1) = eh_dia_util c data'
      in if \<not> util then (None, c1)
         else (let (horarios, c2) = carregar_horarios_comerciais c1
               in (Some (case horarios (weekday data') of
                           Some janela \<Rightarrow> janela
                         | None \<Rightarrow> janela_padrao), c2)))"

definition horas_do_dia ::
  "datetime \<Rightarrow> datetime \<Rightarrow> pydate \<Rightarrow> pytime \<Rightarrow> (pytime \<times> pytime) option \<Rightarrow> real \<Rightarrow> real" where
  \<comment> \<open>the body of the \<^verbatim>\<open>while\<close> loop of \<^verbatim>\<open>calcular_horas_uteis\<close> once the day's window is
      known: the new value of \<^verbatim>\<open>total_horas\<close>\<close>
  "horas_do_dia data_inicio data_fim current_date current_time horario tot =
     (case horario of
        None \<Rightarrow> tot
      | Some (hora_inicio_comercial, hora_fim_comercial) \<Rightarrow>
          (let tempo_inicio = (if current_date = date_of data_inicio
                               then max current_time hora_inicio_comercial
                               else hora_inicio_comercial);
               tempo_fim = (if current_date = date_of data_fim
                            then min (time_of data_fim) hora_fim_comercial
                            else hora_fim_comercial)
           in if tempo_inicio < tempo_fim
              then tot + total_hours (combine current_date tempo_fim - combine current_date tempo_inicio)
              else tot))"

function calcular_horas_uteis_loop ::
  "calculador \<Rightarrow> datetime \<Rightarrow> datetime \<Rightarrow> pydate \<Rightarrow> pytime \<Rightarrow> real \<Rightarrow> (py_error + real) \<times> calculador" where
  "calcular_horas_uteis_loop c data_inicio data_fim current_date current_time tot =
     (if current_date \<le> date_of data_fim then
        (let (horario, c1) = obter_horario_comercial c current_date;
             tot1 = horas_do_dia data_inicio data_fim current_date current_time horario tot
         in if current_date + 1 > MAXORDINAL then (Inl OverflowError, c1)
            else calcular_horas_uteis_loop c1 data_inicio data_fim (current_date + 1) (mk_time 0 0) tot1)
      else (Inr tot, c))"
  by pat_completeness auto
termination
  by (relation "measure (\<lambda>(c, data_inicio, data_fim, current_date, current_time, tot).
        nat (date_of data_fim + 1 - current_date))") auto

declare calcular_horas_uteis_loop.simps [simp del]

definition calcular_horas_uteis :: "calculador \<Rightarrow> datetime \<Rightarrow> datetime \<Rightarrow> (py_error + real) \<times> calculador" where
  "calcular_horas_uteis c data_inicio data_fim =
     (if data_inicio \<ge> data_fim then (Inr 0, c)
      else calcular_horas_uteis_loop c data_inicio data_fim
             (date_of data_inicio) (time_of data_inicio) 0)"

section \<open>modules/sla/calculator.py: pauses and the per-ticket evaluation\<close>

definition Em_analise :: string where
  \<comment> \<open>the status spelled with a-acute, bytes C3 A1\<close>
  "Em_analise = ''Em an'' @ [CHR 0xC3, CHR 0xA1] @ ''lise''"

definition STATUS_PAUSA :: "string list" where
  "STATUS_PAUSA = [''Aguardando'', Em_analise]"

definition STATUS_CONTA :: "string list" where
  "STATUS_CONTA = [''Aberto'', ''Em atendimento'']"

definition STATUS_FINAL :: "string list" where
  "STATUS_FINAL = [Concluido, ''Expirado'']"

definition pausa_aberta :: "int \<Rightarrow> sla_pausa \<Rightarrow> bool" where
  \<comment> \<open>the filter \<^verbatim>\<open>chamado_id == chamado_id and fim IS NULL\<close>\<close>
  "pausa_aberta chamado_id p = (pausa_chamado_id p = chamado_id \<and> pausa_fim p = None)"

definition pausar_automaticamente ::
  "sla_pausa list \<Rightarrow> int \<Rightarrow> string \<Rightarrow> datetime \<Rightarrow> sla_pausa option \<times> sla_pausa list" where
  \<comment> \<open>the table of pauses is passed in and returned; \<^verbatim>\<open>.first()\<close> is the first matching row\<close>
  "pausar_automaticamente tabela chamado_id status_atual data_mudanca =
     (if status_atual \<notin> set STATUS_PAUSA then (None, tabela)
      else (case find (pausa_aberta chamado_id) tabela of
              Some pausa_ativa \<Rightarrow> (Some pausa_ativa, tabela)
            | None \<Rightarrow>
                (let pausa = \<lparr>pausa_chamado_id = chamado_id,
                              pausa_inicio = data_mudanca,
                              pausa_fim = None,
                              duracao_horas = 0,
                              pausa_tipo = ''status'',
                              status_pausante = Some status_atual,
                              motivo = Some (''Pausa autom'' @ [CHR 0xC3, CHR 0xA1] @
                                             ''tica - Status: '' @ status_atual)\<rparr>
                 in (Some pausa, tabela @ [pausa]))))"

fun fechar_primeira :: "int \<Rightarrow> datetime \<Rightarrow> sla_pausa list \<Rightarrow> sla_pausa list" where
  \<comment> \<open>sets \<^verbatim>\<open>fim\<close> and \<^verbatim>\<open>duracao_horas\<close> of the first open pause of the ticket\<close>
  "fechar_primeira chamado_id data_mudanca [] = []"
| "fechar_primeira chamado_id data_mudanca (p # ps) =
     (if pausa_aberta chamado_id p
      then p\<lparr>pausa_fim := Some data_mudanca,
              duracao_horas := total_hours (data_mudanca - pausa_inicio p)\<rparr> # ps
      else p # fechar_primeira chamado_id data_mudanca ps)"

definition retomar_automaticamente ::
  "sla_pausa list \<Rightarrow> int \<Rightarrow> string \<Rightarrow> datetime \<Rightarrow> bool \<times> sla_pausa list" where
  "retomar_automaticamente tabela chamado_id status_atual data_mudanca =
     (if status_atual \<in> set STATUS_PAUSA then (False, tabela)
      else (case find (pausa_aberta chamado_id) tabela of
              None \<Rightarrow> (False, tabela)
            | Some pausa_ativa \<Rightarrow> (True, fechar_primeira chamado_id data_mudanca tabela)))"

definition calcular_tempo_pausado :: "sla_pausa list \<Rightarrow> int \<Rightarrow> real" where
  \<comment> \<open>wall-clock hours of the closed pauses; a zero duration is falsy and skipped\<close>
  "calcular_tempo_pausado tabela chamado_id =
     sum_list (map duracao_horas
       (filter (\<lambda>p. duracao_horas p \<noteq> 0)
          (filter (\<lambda>p. pausa_chamado_id p = chamado_id \<and> pausa_fim p \<noteq> None) tabela)))"

definition obter_configuracao_sla :: "configuracao_sla list \<Rightarrow> string option \<Rightarrow> configuracao_sla option" where
  "obter_configuracao_sla configs prioridade =
     (case prioridade of
        None \<Rightarrow> None
      | Some p \<Rightarrow> find (\<lambda>k. cfg_prioridade k = p \<and> cfg_ativo k) configs)"

record resultado_sla =
  tempo_resposta_limite_horas :: real
  tempo_resposta_decorrido_horas :: real
  tempo_resposta_pausado_horas :: real
  c_percentual_resposta :: real
  c_resposta_em_risco :: bool
  c_resposta_vencida :: bool
  c_resposta_em_dia :: bool
  tempo_resolucao_limite_horas :: real
  tempo_resolucao_decorrido_horas :: real
  tempo_resolucao_pausado_horas :: real
  c_percentual_resolucao :: real
  c_resolucao_em_risco :: bool
  c_resolucao_vencida :: bool
  c_resolucao_em_dia :: bool
  c_pausado :: bool
  c_ativo :: bool

definition criar_resultado_vazio :: resultado_sla where
  "criar_resultado_vazio =
     \<lparr>tempo_resposta_limite_horas = 0,
      tempo_resposta_decorrido_horas = 0,
      tempo_resposta_pausado_horas = 0,
      c_percentual_resposta = 0,
      c_resposta_em_risco = False,
      c_resposta_vencida = False,
      c_resposta_em_dia = True,
      tempo_resolucao_limite_horas = 0,
      tempo_resolucao_decorrido_horas = 0,
      tempo_resolucao_pausado_horas = 0,
      c_percentual_resolucao = 0,
      c_resolucao_em_risco = False,
      c_resolucao_vencida = False,
      c_resolucao_em_dia = True,
      c_pausado = False,
      c_ativo = False\<rparr>"

definition status_em :: "string option \<Rightarrow> string list \<Rightarrow> bool" where
  \<comment> \<open>\<^verbatim>\<open>chamado.status in S\<close> for a nullable status\<close>
  "status_em st S = (case st of None \<Rightarrow> False | Some v \<Rightarrow> v \<in> set S)"

record bloco =
  b_decorrido :: real
  b_pausado :: real
  b_percentual :: real
  b_em_risco :: bool
  b_vencida :: bool
  b_em_dia :: bool

definition percentual_bruto :: "real \<Rightarrow> real \<Rightarrow> real" where
  \<comment> \<open>\<^verbatim>\<open>(efetivo / limite * 100) if limite > 0 else 0\<close>\<close>
  "percentual_bruto efetivo limite = (if limite > 0 then efetivo / limite * 100 else 0)"

definition bloco_resposta ::
  "calculador \<Rightarrow> configuracao_sla \<Rightarrow> sla_pausa list \<Rightarrow> chamado \<Rightarrow> datetime \<Rightarrow>
     (py_error + bloco) \<times> calculador" where
  \<comment> \<open>the section of \<^verbatim>\<open>calcular_sla\<close> that computes the response clock; comparing with a
      \<^verbatim>\<open>None\<close> opening time or a \<^verbatim>\<open>None\<close> risk percentage raises \<^verbatim>\<open>TypeError\<close>\<close>
  "bloco_resposta c config tabela chamado data_ref =
     (if data_primeira_resposta chamado \<noteq> None
      then (Inr \<lparr>b_decorrido = 0, b_pausado = 0, b_percentual = 0,
                 b_em_risco = False, b_vencida = False, b_em_dia = True\<rparr>, c)
      else (case data_abertura chamado of
              None \<Rightarrow> (Inl TypeError, c)
            | Some abertura \<Rightarrow>
                (let (r, c1) = calcular_horas_uteis c abertura data_ref
                 in case r of
                      Inl e \<Rightarrow> (Inl e, c1)
                    | Inr tempo_resposta_decorrido \<Rightarrow>
                        (let tempo_resposta_pausado = calcular_tempo_pausado tabela (ch_id chamado);
                             tempo_efetivo = max 0 (tempo_resposta_decorrido - tempo_resposta_pausado);
                             percentual_resposta =
                               percentual_bruto tempo_efetivo (tempo_resposta_horas config);
                             resposta_vencida = (tempo_efetivo \<ge> tempo_resposta_horas config)
                         in case percentual_risco config of
                              None \<Rightarrow> (Inl TypeError, c1)
                            | Some pct \<Rightarrow>
                                (let resposta_em_risco =
                                       (percentual_resposta \<ge> pct \<and> \<not> resposta_vencida)
                                 in (Inr \<lparr>b_decorrido = tempo_resposta_decorrido,
                                          b_pausado = tempo_resposta_pausado,
                                          b_percentual = percentual_resposta,
                                          b_em_risco = resposta_em_risco,
                                          b_vencida = resposta_vencida,
                                          b_em_dia = (\<not> resposta_vencida \<and> \<not> resposta_em_risco)\<rparr>,
                                     c1))))))"

definition bloco_resolucao ::
  "calculador \<Rightarrow> configuracao_sla \<Rightarrow> sla_pausa list \<Rightarrow> chamado \<Rightarrow> datetime \<Rightarrow> bool \<Rightarrow>
     (py_error + bloco) \<times> calculador" where
  \<comment> \<open>the section that computes the resolution clock; \<open>final\<close> is
      \<^verbatim>\<open>chamado.status in STATUS_FINAL\<close>\<close>
  "bloco_resolucao c config tabela chamado data_ref final =
     (case data_abertura chamado of
        None \<Rightarrow> (Inl TypeError, c)
      | Some abertura \<Rightarrow>
          (let (r, c1) = calcular_horas_uteis c abertura data_ref
           in case r of
                Inl e \<Rightarrow> (Inl e, c1)
              | Inr tempo_resolucao_decorrido \<Rightarrow>
                  (let tempo_resolucao_pausado = calcular_tempo_pausado tabela (ch_id chamado);
                       tempo_efetivo_resolucao =
                         max 0 (tempo_resolucao_decorrido - tempo_resolucao_pausado);
                       percentual_resolucao =
                         percentual_bruto tempo_efetivo_resolucao (tempo_resolucao_horas config)
                   in if final
                      then (Inr \<lparr>b_decorrido = tempo_resolucao_decorrido,
                                 b_pausado = tempo_resolucao_pausado,
                                 b_percentual = percentual_resolucao,
                                 b_em_risco = False, b_vencida = False, b_em_dia = True\<rparr>, c1)
                      else (let resolucao_vencida =
                                  (tempo_efetivo_resolucao \<ge> tempo_resolucao_horas config)
                            in case percentual_risco config of
                                 None \<Rightarrow> (Inl TypeError, c1)
                               | Some pct \<Rightarrow>
                                   (let resolucao_em_risco =
                                          (percentual_resolucao \<ge> pct \<and> \<not> resolucao_vencida)
                                    in (Inr \<lparr>b_decorrido = tempo_resolucao_decorrido,
                                             b_pausado = tempo_resolucao_pausado,
                                             b_percentual = percentual_resolucao,
                                             b_em_risco = resolucao_em_risco,
                                             b_vencida = resolucao_vencida,
                                             b_em_dia = (\<not> resolucao_vencida \<and> \<not> resolucao_em_risco)\<rparr>,
                                        c1))))))"

definition calcular_sla ::
  "calculador \<Rightarrow> configuracao_sla list \<Rightarrow> sla_pausa list \<Rightarrow> datetime \<Rightarrow> chamado \<Rightarrow>
     (py_error + resultado_sla) \<times> calculador" where
  "calcular_sla c configs tabela now chamado =
     (case obter_configuracao_sla configs (ch_prioridade chamado) of
        None \<Rightarrow> (Inr criar_resultado_vazio, c)
      | Some config \<Rightarrow>
        (let final = status_em (ch_status chamado) STATUS_FINAL;
             data_ref = (if final
                         then (case data_conclusao chamado of
                                 Some t \<Rightarrow> t
                               | None \<Rightarrow> (case cancelado_em chamado of Some t \<Rightarrow> t | None \<Rightarrow> now))
                         else now);
             (r1, c1) = bloco_resposta c config tabela chamado data_ref
         in case r1 of
              Inl e \<Rightarrow> (Inl e, c1)
            | Inr resp \<Rightarrow>
                (let (r2, c2) = bloco_resolucao c1 config tabela chamado data_ref final
                 in case r2 of
                      Inl e \<Rightarrow> (Inl e, c2)
                    | Inr res \<Rightarrow>
                        (Inr \<lparr>tempo_resposta_limite_horas = tempo_resposta_horas config,
                              tempo_resposta_decorrido_horas = py_round (b_decorrido resp) 2,
                              tempo_resposta_pausado_horas = py_round (b_pausado resp) 2,
                              c_percentual_resposta = py_round (b_percentual resp) 2,
                              c_resposta_em_risco = b_em_risco resp,
                              c_resposta_vencida = b_vencida resp,
                              c_resposta_em_dia = b_em_dia resp,
                              tempo_resolucao_limite_horas = tempo_resolucao_horas config,
                              tempo_resolucao_decorrido_horas = py_round (b_decorrido res) 2,
                              tempo_resolucao_pausado_horas = py_round (b_pausado res) 2,
                              c_percentual_resolucao = py_round (b_percentual res) 2,
                              c_resolucao_em_risco = b_em_risco res,
                              c_resolucao_vencida = b_vencida res,
                              c_resolucao_em_dia = b_em_dia res,
                              c_pausado = status_em (ch_status chamado) STATUS_PAUSA,
                              c_ativo = status_em (ch_status chamado) STATUS_CONTA\<rparr>,
                         c2))))"

section \<open>modules/sla/service.py: the pause operation of the running service\<close>

definition pausar_sla_chamado ::
  "sla_pausa list \<Rightarrow> datetime \<Rightarrow> int \<Rightarrow> string \<Rightarrow> bool \<times> sla_pausa list" where
  \<comment> \<open>called by the ticket update and by the manual endpoint; \<open>now\<close> is \<^verbatim>\<open>datetime.utcnow()\<close>\<close>
  "pausar_sla_chamado tabela now chamado_id status =
     (if status \<in> set [''Aguardando'']
      then (case find (pausa_aberta chamado_id) tabela of
              None \<Rightarrow>
                (True, tabela @ [\<lparr>pausa_chamado_id = chamado_id,
                                  pausa_inicio = now,
                                  pausa_fim = None,
                                  duracao_horas = 0,
                                  pausa_tipo = ''status'',
                                  status_pausante = Some status,
                                  motivo = Some (''Pausa autom'' @ [CHR 0xC3, CHR 0xA1] @
                                                 ''tica - '' @ status)\<rparr>])
            | Some ativa \<Rightarrow> (False, tabela))
      else (let pausas = filter (pausa_aberta chamado_id) tabela
            in (pausas \<noteq> [],
                map (\<lambda>p. if pausa_aberta chamado_id p
                         then p\<lparr>pausa_fim := Some now,
                                 duracao_horas := total_hours (now - pausa_inicio p)\<rparr>
                         else p) tabela)))"

datatype operacao =
    PausarAutomaticamente int string datetime
  | RetomarAutomaticamente int string datetime
  | PausarSlaChamado int string datetime

fun executar :: "operacao \<Rightarrow> sla_pausa list \<Rightarrow> sla_pausa list" where
  "executar (PausarAutomaticamente i st t) tabela = snd (pausar_automaticamente tabela i st t)"
| "executar (RetomarAutomaticamente i st t) tabela = snd (retomar_automaticamente tabela i st t)"
| "executar (PausarSlaChamado i st t) tabela = snd (pausar_sla_chamado tabela t i st)"

definition abertas :: "int \<Rightarrow> sla_pausa list \<Rightarrow> sla_pausa list" where
  "abertas chamado_id tabela = filter (pausa_aberta chamado_id) tabela"

section \<open>Predicates of the statements and example data\<close>

definition antes_do_corte :: "chamado \<Rightarrow> bool" where
  \<comment> \<open>the ticket has an opening time, and it lies before the cutover epoch\<close>
  "antes_do_corte c = (case data_abertura c of None \<Rightarrow> False | Some a \<Rightarrow> a < SLA_DATA_INICIO)"

definition no_maximo_uma :: "int \<Rightarrow> sla_pausa list \<Rightarrow> bool" where
  \<comment> \<open>the ticket has at most one pause with \<^verbatim>\<open>fim IS NULL\<close>\<close>
  "no_maximo_uma i t = (length (abertas i t) \<le> 1)"

definition cfg_alta :: configuracao_sla where
  "cfg_alta = \<lparr>cfg_prioridade = ''Alta'', tempo_resposta_horas = 2, tempo_resolucao_horas = 8,
     percentual_risco = Some 80, cfg_ativo = True\<rparr>"


definition chamado_aberto :: chamado where
  \<comment> \<open>opened on Monday 2026-03-02 at 09:00\<close>
  "chamado_aberto = \<lparr>ch_id = 1, ch_codigo = ''EVQ-0001'', ch_prioridade = Some ''Alta'',
     ch_status = Some ''Aberto'', data_abertura = Some (mk_datetime 2026 3 2 9 0 0),
     data_primeira_resposta = None, data_conclusao = None, cancelado_em = None,
     deletado_em = None\<rparr>"

definition chamado_antigo :: chamado where
  \<comment> \<open>opened on Friday 2026-02-13, before the epoch\<close>
  "chamado_antigo = \<lparr>ch_id = 2, ch_codigo = ''EVQ-0002'', ch_prioridade = Some ''Alta'',
     ch_status = Some ''Aberto'', data_abertura = Some (mk_datetime 2026 2 13 9 0 0),
     data_primeira_resposta = None, data_conclusao = None, cancelado_em = None,
     deletado_em = None\<rparr>"

definition banco_exemplo :: banco where
  "banco_exemplo = \<lparr>chamados = [chamado_antigo, chamado_aberto], configuracoes = [cfg_alta],
     sla_pausas = []\<rparr>"


definition pausa_exemplo :: sla_pausa where
  "pausa_exemplo = \<lparr>pausa_chamado_id = 1, pausa_inicio = mk_datetime 2026 3 2 10 0 0,
     pausa_fim = None, duracao_horas = 0, pausa_tipo = ''status'',
     status_pausante = Some ''Aguardando'', motivo = None\<rparr>"

definition exatamente_um :: "bool \<Rightarrow> bool \<Rightarrow> bool \<Rightarrow> bool" where
  "exatamente_um a b c = ((a \<and> \<not> b \<and> \<not> c) \<or> (\<not> a \<and> b \<and> \<not> c) \<or> (\<not> a \<and> \<not> b \<and> c))"

definition config_do_chamado :: "(string \<Rightarrow> string) \<Rightarrow> banco \<Rightarrow> chamado \<Rightarrow> cfg_dict option" where
  \<comment> \<open>the configuration \<^verbatim>\<open>calcular_sla_chamado\<close> looks up:
      \<^verbatim>\<open>configs.get(key) or configs.get("normal")\<close>\<close>
  "config_do_chamado lower db c =
     (case configs_of lower db (lower (str_or (ch_prioridade c) ''normal'')) of
        Some v \<Rightarrow> Some v
      | None \<Rightarrow> configs_of lower db ''normal'')"

definition chamado_concluido :: chamado where
  \<comment> \<open>opened Monday 2026-03-02 09:00, answered 13:00, concluded 15:00\<close>
  "chamado_concluido = \<lparr>ch_id = 3, ch_codigo = ''EVQ-0003'', ch_prioridade = Some ''Alta'',
     ch_status = Some Concluido, data_abertura = Some (mk_datetime 2026 3 2 9 0 0),
     data_primeira_resposta = Some (mk_datetime 2026 3 2 13 0 0),
     data_conclusao = Some (mk_datetime 2026 3 2 15 0 0), cancelado_em = None,
     deletado_em = None\<rparr>"

definition banco_concluido :: banco where
  "banco_concluido = \<lparr>chamados = [chamado_concluido], configuracoes = [cfg_alta], sla_pausas = []\<rparr>"

definition resultado_aberto :: sla_result where
  \<comment> \<open>the evaluation of \<open>chamado_aberto\<close> on Monday 2026-03-02 at 16:00\<close>
  "resultado_aberto =
     \<lparr>r_chamado_id = 1, r_codigo = ''EVQ-0001'', r_prioridade = Some ''Alta'',
      r_status = ''Aberto'', pausado = False, ativo = True,
      resolucao_trabalhado_horas = 7, resolucao_pausado_horas = 0, resolucao_limite_horas = 8,
      percentual_resolucao = 175 / 2, resolucao_em_dia = False,
      resolucao_em_risco = True, resolucao_vencida = False,
      resposta_trabalhado_horas = 7, resposta_pausado_horas = 0,
      resposta_limite_horas = 2, percentual_resposta = 350,
      resposta_em_dia = False, resposta_em_risco = False, resposta_vencida = True\<rparr>"

definition cache_ok :: "calculador \<Rightarrow> bool" where
  \<comment> \<open>what the calculator has cached is what the database holds; true of a new calculator
      and as long as the tables are not edited behind a live cache\<close>
  "cache_ok c =
     ((\<forall>ano l. cache_feriados c ano = Some l \<longrightarrow> l = query_feriados (db_feriados c) ano) \<and>
      (\<forall>h. cache_horarios c = Some h \<longrightarrow> h = query_horarios (db_horarios c)))"

definition feriados_ativos :: "calculador \<Rightarrow> pydate set" where
  \<comment> \<open>the dates of the holiday rows marked active\<close>
  "feriados_ativos c = set (map fer_data (filter fer_ativo (db_feriados c)))"

definition dia_util :: "calculador \<Rightarrow> pydate \<Rightarrow> bool" where
  "dia_util c d = (weekday d < 5 \<and> d \<notin> feriados_ativos c)"

definition janela_do_dia :: "calculador \<Rightarrow> pydate \<Rightarrow> (pytime \<times> pytime) option" where
  \<comment> \<open>the window \<^verbatim>\<open>obter_horario_comercial\<close> yields when its caches agree with the database\<close>
  "janela_do_dia c d =
     (if dia_util c d
      then Some (case query_horarios (db_horarios c) (weekday d) of
                   Some janela \<Rightarrow> janela
                 | None \<Rightarrow> janela_padrao)
      else None)"

definition calc_tiradentes :: calculador where
  \<comment> \<open>a new calculator over a holiday table with Tuesday 2026-04-21\<close>
  "calc_tiradentes = novo_calculador [\<lparr>fer_data = ymd2ord 2026 4 21, fer_ativo = True\<rparr>] []"

definition calc_feriado_segunda :: calculador where
  \<comment> \<open>a new calculator over a holiday table with Monday 2026-03-09\<close>
  "calc_feriado_segunda = novo_calculador [\<lparr>fer_data = ymd2ord 2026 3 9, fer_ativo = True\<rparr>] []"

definition horas_valor :: "datetime \<Rightarrow> datetime \<Rightarrow> real" where
  \<comment> \<open>the value \<^verbatim>\<open>_horas_uteis\<close> returns, 0 where it raises\<close>
  "horas_valor i f = (case horas_uteis (Some i) (Some f) of Inr h \<Rightarrow> h | Inl e \<Rightarrow> 0)"

definition pausa_horas :: "datetime \<Rightarrow> datetime \<Rightarrow> datetime \<Rightarrow> datetime \<times> datetime option \<Rightarrow> real" where
  \<comment> \<open>the business hours of the intersection of one pause with the interval from
      \<open>inicio\<close> to \<open>fim\<close>; an open pause ends at \<open>now\<close>\<close>
  "pausa_horas now inicio fim p =
     (let i2 = max (fst p) inicio;
          f2 = min (case snd p of Some t \<Rightarrow> t | None \<Rightarrow> now) fim
      in if i2 < f2 then horas_valor i2 f2 else 0)"

definition multiplo4 :: "real \<Rightarrow> bool" where
  \<comment> \<open>a number with at most four decimals\<close>
  "multiplo4 x = (\<exists>k::int. x = real_of_int k / 10 ^ 4)"

definition baldes_ok :: "acumulador \<Rightarrow> bool" where
  \<comment> \<open>each of the three lists holds the processed results of its bucket, in order\<close>
  "baldes_ok acc =
     (l_pausados acc = filter pausado (l_processados acc) \<and>
      l_vencidos acc = filter (\<lambda>s. \<not> pausado s \<and> resolucao_vencida s) (l_processados acc) \<and>
      l_em_risco acc =
        filter (\<lambda>s. \<not> pausado s \<and> \<not> resolucao_vencida s \<and> resolucao_em_risco s) (l_processados acc))"

definition chamado_respondido :: chamado where
  \<comment> \<open>opened Monday 2026-03-02 09:00, answered 10:30, still in progress\<close>
  "chamado_respondido = \<lparr>ch_id = 4, ch_codigo = ''EVQ-0004'', ch_prioridade = Some ''Alta'',
     ch_status = Some ''Em atendimento'', data_abertura = Some (mk_datetime 2026 3 2 9 0 0),
     data_primeira_resposta = Some (mk_datetime 2026 3 2 10 30 0),
     data_conclusao = None, cancelado_em = None, deletado_em = None\<rparr>"

definition pausa_do_respondido :: sla_pausa where
  \<comment> \<open>a pause of that ticket opened at 10:00 and never closed\<close>
  "pausa_do_respondido = \<lparr>pausa_chamado_id = 4, pausa_inicio = mk_datetime 2026 3 2 10 0 0,
     pausa_fim = None, duracao_horas = 0, pausa_tipo = ''status'',
     status_pausante = Some ''Aguardando'', motivo = None\<rparr>"

definition banco_respondido :: banco where
  "banco_respondido = \<lparr>chamados = [chamado_respondido], configuracoes = [cfg_alta],
     sla_pausas = [pausa_do_respondido]\<rparr>"

definition chamado_aguardando :: chamado where
  \<comment> \<open>opened Monday 2026-03-02 08:00, never answered, in the pausing status\<close>
  "chamado_aguardando = \<lparr>ch_id = 5, ch_codigo = ''EVQ-0005'', ch_prioridade = Some ''Alta'',
     ch_status = Some ''Aguardando'', data_abertura = Some (mk_datetime 2026 3 2 8 0 0),
     data_primeira_resposta = None,
     data_conclusao = None, cancelado_em = None, deletado_em = None\<rparr>"

definition banco_aguardando :: banco where
  "banco_aguardando = \<lparr>chamados = [chamado_aguardando], configuracoes = [cfg_alta],
     sla_pausas = []\<rparr>"

definition resultado_aguardando :: sla_result where
  \<comment> \<open>the evaluation of \<open>chamado_aguardando\<close> on Tuesday 2026-03-03 at 18:00\<close>
  "resultado_aguardando =
     \<lparr>r_chamado_id = 5, r_codigo = ''EVQ-0005'', r_prioridade = Some ''Alta'',
      r_status = ''Aguardando'', pausado = True, ativo = False,
      resolucao_trabalhado_horas = 20, resolucao_pausado_horas = 0,
      resolucao_limite_horas = 8, percentual_resolucao = 250,
      resolucao_em_dia = False, resolucao_em_risco = False,
      resolucao_vencida = True, resposta_trabalhado_horas = 20,
      resposta_pausado_horas = 0, resposta_limite_horas = 2,
      percentual_resposta = 1000, resposta_em_dia = False,
      resposta_em_risco = False, resposta_vencida = True\<rparr>"

definition acumulador_aguardando :: acumulador where
  "acumulador_aguardando =
     \<lparr>l_em_risco = [], l_vencidos = [], l_pausados = [resultado_aguardando],
      l_processados = [resultado_aguardando],
      soma_resp = 0, soma_res = 0, cnt_resp = 0, cnt_res = 0\<rparr>"

definition efetivo :: "bloco \<Rightarrow> real" where
  \<comment> \<open>the worked hours of a clock of \<^verbatim>\<open>calcular_sla\<close>: elapsed minus paused, floored at 0\<close>
  "efetivo b = max 0 (b_decorrido b - b_pausado b)"

definition bloco_classificado :: "bool \<Rightarrow> real \<Rightarrow> real option \<Rightarrow> bloco \<Rightarrow> bool" where
  \<comment> \<open>a clock of \<^verbatim>\<open>calcular_sla\<close> whose flags are decided only when \<open>medido\<close> holds\<close>
  "bloco_classificado medido limite pct b =
     (b_percentual b = percentual_bruto (efetivo b) limite \<and>
      b_vencida b = (medido \<and> limite \<le> efetivo b) \<and>
      b_em_risco b = (medido \<and> \<not> b_vencida b \<and>
                        (case pct of Some p \<Rightarrow> p \<le> b_percentual b | None \<Rightarrow> False)) \<and>
      b_em_dia b = (\<not> b_vencida b \<and> \<not> b_em_risco b))"

definition chamado_sem_resposta :: chamado where
  \<comment> \<open>opened Monday 2026-03-02 09:00, concluded 15:00, no first response recorded\<close>
  "chamado_sem_resposta = \<lparr>ch_id = 6, ch_codigo = ''EVQ-0006'', ch_prioridade = Some ''Alta'',
     ch_status = Some Concluido, data_abertura = Some (mk_datetime 2026 3 2 9 0 0),
     data_primeira_resposta = None,
     data_conclusao = Some (mk_datetime 2026 3 2 15 0 0), cancelado_em = None,
     deletado_em = None\<rparr>"

definition resultado_aberto_calc :: resultado_sla where
  \<comment> \<open>what \<^verbatim>\<open>calcular_sla\<close> reports for \<open>chamado_aberto\<close> on Monday 2026-03-02 at 16:00\<close>
  "resultado_aberto_calc =
     \<lparr>tempo_resposta_limite_horas = 2, tempo_resposta_decorrido_horas = 7,
      tempo_resposta_pausado_horas = 0, c_percentual_resposta = 350,
      c_resposta_em_risco = False, c_resposta_vencida = True, c_resposta_em_dia = False,
      tempo_resolucao_limite_horas = 8, tempo_resolucao_decorrido_horas = 7,
      tempo_resolucao_pausado_horas = 0, c_percentual_resolucao = 175 / 2,
      c_resolucao_em_risco = True, c_resolucao_vencida = False, c_resolucao_em_dia = False,
      c_pausado = False, c_ativo = True\<rparr>"

fun evolui ::
  "datetime \<Rightarrow> (datetime \<times> datetime option) list \<Rightarrow> (datetime \<times> datetime option) list \<Rightarrow> bool" where
  \<comment> \<open>the pauses of a ticket at two evaluations made after its first response at \<open>fr\<close>:
      in between, an open pause may have been closed at or after \<open>fr\<close>, and pauses that
      start at or after \<open>fr\<close> may have been added\<close>
  "evolui fr [] qs = list_all (\<lambda>q. fr \<le> fst q) qs"
| "evolui fr (p # ps) [] = False"
| "evolui fr (p # ps) (q # qs) =
     (fst q = fst p \<and>
      (snd q = snd p \<or> (snd p = None \<and> (case snd q of Some t \<Rightarrow> fr \<le> t | None \<Rightarrow> False))) \<and>
      evolui fr ps qs)"

definition resultado_respondido :: "real \<Rightarrow> real \<Rightarrow> real \<Rightarrow> sla_result" where
  \<comment> \<open>the evaluations of \<open>chamado_respondido\<close>; they differ in the resolution clock\<close>
  "resultado_respondido trab paus pct =
     \<lparr>r_chamado_id = 4, r_codigo = ''EVQ-0004'', r_prioridade = Some ''Alta'',
      r_status = ''Em atendimento'', pausado = False, ativo = True,
      resolucao_trabalhado_horas = trab, resolucao_pausado_horas = paus,
      resolucao_limite_horas = 8,
      percentual_resolucao = pct, resolucao_em_dia = True,
      resolucao_em_risco = False, resolucao_vencida = False,
      resposta_trabalhado_horas = 1, resposta_pausado_horas = 1 / 2,
      resposta_limite_horas = 2, percentual_resposta = 50,
      resposta_em_dia = True, resposta_em_risco = False, resposta_vencida = False\<rparr>"

definition resultado_respondido_calc :: resultado_sla where
  \<comment> \<open>what \<^verbatim>\<open>calcular_sla\<close> reports for \<open>chamado_respondido\<close> on Monday 2026-03-02 at 12:00\<close>
  "resultado_respondido_calc =
     \<lparr>tempo_resposta_limite_horas = 2, tempo_resposta_decorrido_horas = 0,
      tempo_resposta_pausado_horas = 0, c_percentual_resposta = 0,
      c_resposta_em_risco = False, c_resposta_vencida = False, c_resposta_em_dia = True,
      tempo_resolucao_limite_horas = 8, tempo_resolucao_decorrido_horas = 3,
      tempo_resolucao_pausado_horas = 0, c_percentual_resolucao = 75 / 2,
      c_resolucao_em_risco = False, c_resolucao_vencida = False, c_resolucao_em_dia = True,
      c_pausado = False, c_ativo = True\<rparr>"

definition banco_respondido_depois :: banco where
  \<comment> \<open>\<open>banco_respondido\<close> a day later: the pause was closed on Tuesday at 09:00 and a new
      one was opened at 10:00\<close>
  "banco_respondido_depois = \<lparr>chamados = [chamado_respondido], configuracoes = [cfg_alta],
     sla_pausas =
       [pausa_do_respondido\<lparr>pausa_fim := Some (mk_datetime 2026 3 3 9 0 0), duracao_horas := 23\<rparr>,
        pausa_do_respondido\<lparr>pausa_inicio := mk_datetime 2026 3 3 10 0 0\<rparr>]\<rparr>"

definition prioridade_de :: "sla_result \<Rightarrow> string" where
  \<comment> \<open>the key of a result in \<^verbatim>\<open>prio_map\<close>\<close>
  "prioridade_de s = str_or (r_prioridade s) ''Normal''"

fun primeiras :: "string list \<Rightarrow> string list" where
  \<comment> \<open>the distinct elements of a list, in the order of their first occurrence\<close>
  "primeiras [] = []"
| "primeiras (x # xs) = x # filter (\<lambda>y. y \<noteq> x) (primeiras xs)"

definition contar :: "string \<Rightarrow> (sla_result \<Rightarrow> bool) \<Rightarrow> sla_result list \<Rightarrow> int" where
  \<comment> \<open>how many results of priority \<open>p\<close> satisfy \<open>P\<close>\<close>
  "contar p P xs = int (length (filter (\<lambda>s. prioridade_de s = p \<and> P s) xs))"

definition prio_esperado :: "sla_result list \<Rightarrow> string \<Rightarrow> prio_saida" where
  \<comment> \<open>the entry of priority \<open>p\<close>: four counts taken independently of one another\<close>
  "prio_esperado xs p =
     \<lparr>ps_stats = \<lparr>pp_prioridade = p,
                  pp_total = contar p (\<lambda>s. True) xs,
                  pp_em_risco = contar p resolucao_em_risco xs,
                  pp_vencidos = contar p resolucao_vencida xs,
                  pp_pausados = contar p pausado xs\<rparr>,
      ps_percentual_em_risco = pct_de (contar p resolucao_em_risco xs) (contar p (\<lambda>s. True) xs),
      ps_percentual_vencidos = pct_de (contar p resolucao_vencida xs) (contar p (\<lambda>s. True) xs)\<rparr>"

definition prio_somar :: "sla_result list \<Rightarrow> string \<Rightarrow> prio_stats \<Rightarrow> prio_stats" where
  \<comment> \<open>the entry \<open>v\<close> of priority \<open>p\<close> after the results \<open>xs\<close> were counted\<close>
  "prio_somar xs p v =
     v\<lparr>pp_total := pp_total v + contar p (\<lambda>s. True) xs,
       pp_em_risco := pp_em_risco v + contar p resolucao_em_risco xs,
       pp_vencidos := pp_vencidos v + contar p resolucao_vencida xs,
       pp_pausados := pp_pausados v + contar p pausado xs\<rparr>"

definition resultados :: "(string \<Rightarrow> string) \<Rightarrow> banco \<Rightarrow> datetime \<Rightarrow> chamado list \<Rightarrow> sla_result list" where
  \<comment> \<open>the results of the tickets that have one, in the order of the tickets\<close>
  "resultados lower db now cs =
     List.map_filter (\<lambda>c. case calcular_sla_chamado lower db now c of
                               Inr (Some s) \<Rightarrow> Some s
                             | _ \<Rightarrow> None) cs"

definition prio_zero :: "string \<Rightarrow> prio_stats" where
  "prio_zero p = \<lparr>pp_prioridade = p, pp_total = 0, pp_em_risco = 0, pp_vencidos = 0, pp_pausados = 0\<rparr>"

definition fim_real :: "datetime \<Rightarrow> datetime \<times> datetime option \<Rightarrow> datetime" where
  \<comment> \<open>\<^verbatim>\<open>p_fim or datetime.utcnow()\<close>: the end of a pause, the clock for an open one\<close>
  "fim_real now p = (case snd p of Some t \<Rightarrow> t | None \<Rightarrow> now)"

definition disjuntas :: "datetime \<Rightarrow> datetime \<times> datetime option \<Rightarrow> datetime \<times> datetime option \<Rightarrow> bool" where
  \<comment> \<open>two pauses have no instant in common: one of them is empty or ends before the
      other starts\<close>
  "disjuntas now p q =
     (fim_real now p \<le> fst p \<or> fim_real now q \<le> fst q \<or>
      fim_real now p \<le> fst q \<or> fim_real now q \<le> fst p)"

fun sem_sobreposicao :: "datetime \<Rightarrow> (datetime \<times> datetime option) list \<Rightarrow> bool" where
  \<comment> \<open>no two pauses of the list overlap\<close>
  "sem_sobreposicao now [] = True"
| "sem_sobreposicao now (p # ps) = (list_all (disjuntas now p) ps \<and> sem_sobreposicao now ps)"

definition janela :: "pydate \<Rightarrow> datetime set" where
  \<comment> \<open>the microseconds of the business window of a date; none on Saturday and Sunday\<close>
  "janela d =
     (if eh_dia_util_metrics d then {combine d HORA_INICIO ..< combine d HORA_FIM} else {})"

definition trecho :: "datetime \<Rightarrow> datetime \<Rightarrow> datetime \<Rightarrow> datetime \<times> datetime option \<Rightarrow> datetime set" where
  \<comment> \<open>the microseconds of a pause that \<^verbatim>\<open>_horas_uteis\<close> is asked to count: those inside the
      interval and not before the cutover epoch\<close>
  "trecho now inicio fim p =
     {max (max (fst p) inicio) SLA_DATA_INICIO ..< min (fim_real now p) fim}"

definition medida :: "pydate set \<Rightarrow> datetime set \<Rightarrow> nat" where
  \<comment> \<open>the business microseconds of a set of instants, over the dates \<open>D\<close>\<close>
  "medida D A = (\<Sum>d\<in>D. card (A \<inter> janela d))"

definition chamado_sexta :: chamado where
  \<comment> \<open>opened on Friday 2026-03-06 at 17:00, still open\<close>
  "chamado_sexta = \<lparr>ch_id = 7, ch_codigo = ''EVQ-0007'', ch_prioridade = Some ''Alta'',
     ch_status = Some ''Aberto'', data_abertura = Some (mk_datetime 2026 3 6 17 0 0),
     data_primeira_resposta = None, data_conclusao = None, cancelado_em = None,
     deletado_em = None\<rparr>"

definition pausa_fim_de_semana :: sla_pausa where
  \<comment> \<open>a pause of that ticket from Friday 17:30 to Monday 08:30, closed by
      \<^verbatim>\<open>retomar_automaticamente\<close>: 63 hours on the wall clock, one business hour\<close>
  "pausa_fim_de_semana = \<lparr>pausa_chamado_id = 7, pausa_inicio = mk_datetime 2026 3 6 17 30 0,
     pausa_fim = Some (mk_datetime 2026 3 9 8 30 0), duracao_horas = 63, pausa_tipo = ''status'',
     status_pausante = Some ''Aguardando'', motivo = None\<rparr>"

section \<open>Basic facts of the time model\<close>

lemma SLA_DATA_INICIO_val: "SLA_DATA_INICIO = 63906796800000000"
  by (simp add: SLA_DATA_INICIO_def mk_datetime_def combine_def ymd2ord_def days_before_year_def
      days_before_month_def is_leap_def US_PER_DAY_def)

lemmas time_eval = mk_datetime_def combine_def ymd2ord_def days_before_year_def
  days_before_month_def is_leap_def US_PER_DAY_def date_of_def time_of_def MAXORDINAL_def
  weekday_def mk_time_def total_hours_def py_round_def round_half_even_def SLA_DATA_INICIO_val

lemmas metrics_eval = horas_uteis_def ti_horas_uteis_def horas_uteis_n_def horas_uteis_loop.simps
  horas_dia_def eh_dia_util_metrics_def HORA_INICIO_def HORA_FIM_def

lemma round_half_even_close: "\<bar>real_of_int (round_half_even y) - y\<bar> \<le> 1 / 2"
  unfolding round_half_even_def Let_def
  by (auto simp: abs_le_iff)

lemma py_round_close: "\<bar>py_round x n - x\<bar> \<le> 1 / (2 * 10 ^ n)"
proof -
  define p :: real where "p = 10 ^ n"
  have p: "0 < p" by (simp add: p_def)
  have "py_round x n - x = (real_of_int (round_half_even (x * p)) - x * p) / p"
    using p by (simp add: py_round_def p_def field_simps)
  then have "\<bar>py_round x n - x\<bar> = \<bar>real_of_int (round_half_even (x * p)) - x * p\<bar> / p"
    using p by (simp add: abs_divide)
  also have "\<dots> \<le> (1 / 2) / p"
    using p by (intro divide_right_mono round_half_even_close) simp
  finally show ?thesis by (simp add: p_def)
qed

lemma py_round_zero: "py_round 0 n = 0"
  by (simp add: py_round_def round_half_even_def)

lemmas calc_eval = calcular_horas_uteis_def calcular_horas_uteis_loop.simps obter_horario_comercial_def
  eh_dia_util_def carregar_feriados_def carregar_horarios_comerciais_def query_feriados_def
  query_horarios_def year_of_def horas_do_dia_def novo_calculador_def janela_padrao_def

lemmas calc_sla_eval = calcular_sla_def bloco_resposta_def bloco_resolucao_def
  obter_configuracao_sla_def calcular_tempo_pausado_def percentual_bruto_def

section \<open>The cutover clamp inside the accumulator\<close>

text \<open>
  C10.  Both copies of \<^verbatim>\<open>_horas_uteis\<close> (modules/sla/metrics.py and
  ti/services/metrics.py) replace a start instant earlier than the cutover epoch
  2026-02-16 00:00 by the epoch itself: for every end instant the result, error or
  value, is the one obtained from the epoch.
\<close>

theorem horas_uteis_clamps_to_cutover:
  "inicio < SLA_DATA_INICIO \<Longrightarrow>
     horas_uteis (Some inicio) fim = horas_uteis (Some SLA_DATA_INICIO) fim \<and>
     ti_horas_uteis (Some inicio) fim = ti_horas_uteis (Some SLA_DATA_INICIO) fim"
  by (simp add: horas_uteis_def ti_horas_uteis_def horas_uteis_n_def)

text \<open>
  Friday 2026-02-13 09:00 lies before the epoch; measured up to Monday 2026-02-16 10:00
  only the two hours of Monday count, Friday's nine business hours are dropped.
\<close>

theorem horas_uteis_clamps_to_cutover_witness:
  "mk_datetime 2026 2 13 9 0 0 < SLA_DATA_INICIO \<and>
   horas_uteis (Some (mk_datetime 2026 2 13 9 0 0)) (Some (mk_datetime 2026 2 16 10 0 0)) = Inr 2 \<and>
   ti_horas_uteis (Some (mk_datetime 2026 2 13 9 0 0)) (Some (mk_datetime 2026 2 16 10 0 0)) = Inr 2"
proof -
  have h: "mk_datetime 2026 2 13 9 0 0 < SLA_DATA_INICIO"
    by (simp add: time_eval)
  have a: "horas_uteis (Some SLA_DATA_INICIO) (Some (mk_datetime 2026 2 16 10 0 0)) = Inr 2"
    by (simp add: metrics_eval time_eval)
  have b: "ti_horas_uteis (Some SLA_DATA_INICIO) (Some (mk_datetime 2026 2 16 10 0 0)) = Inr 2"
    by (simp add: metrics_eval time_eval)
  from horas_uteis_clamps_to_cutover [OF h, of "Some (mk_datetime 2026 2 16 10 0 0)"] h a b
  show ?thesis by simp
qed

section \<open>Missing configuration\<close>




lemmas string_eval = ascii_lower_def char_lower_def str_or_def STATUS_FINAIS_def STATUS_ATIVOS_def
  STATUS_PAUSADOS_def STATUS_PAUSA_def STATUS_CONTA_def STATUS_FINAL_def Concluido_def
  Em_analise_def status_em_def





section \<open>Cutover exclusion\<close>

lemma configs_of_chamados_upd: "configs_of lower (db\<lparr>chamados := cs\<rparr>) = configs_of lower db"
  by (simp add: configs_of_def)

lemma pausas_of_chamados_upd: "pausas_of (db\<lparr>chamados := cs\<rparr>) = pausas_of db"
  by (simp add: pausas_of_def fun_eq_iff)

lemma calcular_sla_chamado_chamados_upd:
  "calcular_sla_chamado lower (db\<lparr>chamados := cs\<rparr>) now c = calcular_sla_chamado lower db now c"
  unfolding calcular_sla_chamado_def configs_of_chamados_upd pausas_of_chamados_upd ..

lemma dashboard_loop_chamados_upd:
  "dashboard_loop lower (db\<lparr>chamados := cs\<rparr>) now xs acc = dashboard_loop lower db now xs acc"
  by (induction xs arbitrary: acc)
     (simp_all add: calcular_sla_chamado_chamados_upd split: sum.split option.split)

lemma selecionar_sem_antigos:
  "selecionar_chamados (db\<lparr>chamados := filter (\<lambda>c. \<not> antes_do_corte c) (chamados db)\<rparr>) di df
     = selecionar_chamados db di df"
  unfolding selecionar_chamados_def
  by (auto simp: antes_do_corte_def intro!: filter_cong split: option.splits)

text \<open>
  C2.  A ticket opened strictly before the epoch gets \<^verbatim>\<open>None\<close> from the per-ticket
  evaluation; the population query of the dashboard selects no such ticket; and the
  whole dashboard, every count, list and average of it, is the one computed from
  the database with those tickets deleted, whatever the period and the clock.
\<close>

theorem corte_exclui_antigos:
  "(\<forall>(c::chamado) a. data_abertura c = Some a \<and> a < SLA_DATA_INICIO \<longrightarrow>
        calcular_sla_chamado lower db now c = Inr None) \<and>
   (\<forall>c\<in>set (selecionar_chamados db di df). \<not> antes_do_corte c) \<and>
   obter_metricas_dashboard lower
       (db\<lparr>chamados := filter (\<lambda>c. \<not> antes_do_corte c) (chamados db)\<rparr>) now data_inicio data_fim
     = obter_metricas_dashboard lower db now data_inicio data_fim"
proof (intro conjI allI impI ballI)
  fix c :: chamado and a
  assume "data_abertura c = Some a \<and> a < SLA_DATA_INICIO"
  then show "calcular_sla_chamado lower db now c = Inr None"
    by (simp add: calcular_sla_chamado_def)
next
  fix c assume "c \<in> set (selecionar_chamados db di df)"
  then show "\<not> antes_do_corte c"
    by (auto simp: selecionar_chamados_def antes_do_corte_def split: option.splits)
next
  show "obter_metricas_dashboard lower
          (db\<lparr>chamados := filter (\<lambda>c. \<not> antes_do_corte c) (chamados db)\<rparr>) now data_inicio data_fim
        = obter_metricas_dashboard lower db now data_inicio data_fim"
    unfolding obter_metricas_dashboard_def selecionar_sem_antigos dashboard_loop_chamados_upd ..
qed

text \<open>
  The ticket of Friday 2026-02-13 in a database that also holds a ticket of March:
  it has no evaluation, the query does not select it, and the dashboard of the
  default period is the dashboard of the database without it.
\<close>

theorem corte_exclui_antigos_witness:
  "data_abertura chamado_antigo = Some (mk_datetime 2026 2 13 9 0 0) \<and>
   mk_datetime 2026 2 13 9 0 0 < SLA_DATA_INICIO \<and>
   calcular_sla_chamado ascii_lower banco_exemplo (mk_datetime 2026 3 2 12 0 0) chamado_antigo = Inr None \<and>
   chamado_antigo \<notin> set (selecionar_chamados banco_exemplo SLA_DATA_INICIO (mk_datetime 2026 3 2 12 0 0)) \<and>
   obter_metricas_dashboard ascii_lower (banco_exemplo\<lparr>chamados := [chamado_aberto]\<rparr>)
       (mk_datetime 2026 3 2 12 0 0) None None
     = obter_metricas_dashboard ascii_lower banco_exemplo (mk_datetime 2026 3 2 12 0 0) None None"
proof -
  have a: "data_abertura chamado_antigo = Some (mk_datetime 2026 2 13 9 0 0)"
    by (simp add: chamado_antigo_def)
  have b: "mk_datetime 2026 2 13 9 0 0 < SLA_DATA_INICIO"
    by (simp add: time_eval)
  have c: "antes_do_corte chamado_antigo"
    using b by (simp add: antes_do_corte_def a)
  have d: "\<not> antes_do_corte chamado_aberto"
    by (simp add: antes_do_corte_def chamado_aberto_def time_eval)
  have e: "filter (\<lambda>c. \<not> antes_do_corte c) (chamados banco_exemplo) = [chamado_aberto]"
    using c d by (simp add: banco_exemplo_def)
  note t = corte_exclui_antigos [of ascii_lower banco_exemplo "mk_datetime 2026 3 2 12 0 0"
      SLA_DATA_INICIO "mk_datetime 2026 3 2 12 0 0" None None]
  from t a b have "calcular_sla_chamado ascii_lower banco_exemplo (mk_datetime 2026 3 2 12 0 0) chamado_antigo = Inr None"
    by blast
  moreover from t c have "chamado_antigo \<notin> set (selecionar_chamados banco_exemplo SLA_DATA_INICIO
      (mk_datetime 2026 3 2 12 0 0))"
    by blast
  moreover from t e have "obter_metricas_dashboard ascii_lower (banco_exemplo\<lparr>chamados := [chamado_aberto]\<rparr>)
       (mk_datetime 2026 3 2 12 0 0) None None
     = obter_metricas_dashboard ascii_lower banco_exemplo (mk_datetime 2026 3 2 12 0 0) None None"
    by simp
  ultimately show ?thesis using a b by blast
qed

section \<open>At most one open pause per ticket\<close>

lemma find_abertas: "find (pausa_aberta i) t = None \<longleftrightarrow> abertas i t = []"
  by (induction t) (auto simp: abertas_def)

lemma find_hd_abertas: "abertas i t \<noteq> [] \<Longrightarrow> find (pausa_aberta i) t = Some (hd (abertas i t))"
  by (induction t) (auto simp: abertas_def)

lemma abertas_fechar_primeira:
  "length (abertas i (fechar_primeira j d t)) \<le> length (abertas i t)"
  by (induction t) (auto simp: abertas_def pausa_aberta_def)

lemma abertas_fechar_todas:
  "length (abertas i (map (\<lambda>p. if pausa_aberta j p
                               then p\<lparr>pausa_fim := Some n, duracao_horas := h p\<rparr> else p) t))
     \<le> length (abertas i t)"
  by (induction t) (auto simp: abertas_def pausa_aberta_def)

lemma uma_pausar_automaticamente:
  "no_maximo_uma i t \<Longrightarrow> no_maximo_uma i (snd (pausar_automaticamente t j st d))"
  unfolding no_maximo_uma_def
  by (cases "i = j")
     (auto simp: pausar_automaticamente_def find_abertas Let_def abertas_def pausa_aberta_def
           split: option.splits)

lemma uma_retomar_automaticamente:
  "no_maximo_uma i t \<Longrightarrow> no_maximo_uma i (snd (retomar_automaticamente t j st d))"
  unfolding no_maximo_uma_def
  using abertas_fechar_primeira [of i j d t]
  by (auto simp: retomar_automaticamente_def split: option.splits)

lemma uma_pausar_sla_chamado:
  "no_maximo_uma i t \<Longrightarrow> no_maximo_uma i (snd (pausar_sla_chamado t n j st))"
  unfolding no_maximo_uma_def
  using abertas_fechar_todas [where i = i and j = j and n = n and t = t
          and h = "\<lambda>p. total_hours (n - pausa_inicio p)"]
  by (cases "i = j")
     (auto simp: pausar_sla_chamado_def find_abertas Let_def abertas_def pausa_aberta_def
           split: option.splits)

lemma uma_executar: "no_maximo_uma i t \<Longrightarrow> no_maximo_uma i (executar op t)"
  by (cases op)
     (simp_all add: uma_pausar_automaticamente uma_retomar_automaticamente uma_pausar_sla_chamado)

lemma uma_fold_executar: "no_maximo_uma i t \<Longrightarrow> no_maximo_uma i (fold executar ops t)"
  by (induction ops arbitrary: t) (simp_all add: uma_executar)

text \<open>
  C8.  From a table in which the ticket has no open pause, every sequence of
  \<^verbatim>\<open>pausar_automaticamente\<close>, \<^verbatim>\<open>retomar_automaticamente\<close> (calculator) and
  \<^verbatim>\<open>pausar_sla_chamado\<close> (the service operation behind both the status change and the
  manual endpoint), on any tickets and in any order, leaves the ticket with at most
  one open pause.  Opening is a no-op when an open pause exists: the calculator
  returns the existing row, the service reports that nothing changed, and the table
  is the same.
\<close>

theorem uma_pausa_aberta:
  "abertas i t = [] \<Longrightarrow>
     no_maximo_uma i (fold executar ops t) \<and>
     (\<forall>u st d. abertas i u \<noteq> [] \<and> st \<in> set STATUS_PAUSA \<longrightarrow>
        pausar_automaticamente u i st d = (Some (hd (abertas i u)), u)) \<and>
     (\<forall>u n. abertas i u \<noteq> [] \<longrightarrow> pausar_sla_chamado u n i ''Aguardando'' = (False, u))"
proof (intro conjI allI impI)
  assume "abertas i t = []"
  then have "no_maximo_uma i t" by (simp add: no_maximo_uma_def)
  then show "no_maximo_uma i (fold executar ops t)" by (rule uma_fold_executar)
next
  fix u st d assume "abertas i u \<noteq> [] \<and> st \<in> set STATUS_PAUSA"
  then show "pausar_automaticamente u i st d = (Some (hd (abertas i u)), u)"
    by (simp add: pausar_automaticamente_def find_hd_abertas)
next
  fix u n assume "abertas i u \<noteq> []"
  then show "pausar_sla_chamado u n i ''Aguardando'' = (False, u)"
    by (simp add: pausar_sla_chamado_def find_hd_abertas)
qed

text \<open>
  Ticket 1, from the empty table: paused twice by the service, paused by the
  calculator, resumed, paused again: one open pause at most.  On a table holding the
  open pause of the example, both operations return it unchanged.
\<close>

theorem uma_pausa_aberta_witness:
  "abertas 1 [] = [] \<and>
   no_maximo_uma 1 (fold executar
     [PausarSlaChamado 1 ''Aguardando'' (mk_datetime 2026 3 2 10 0 0),
      PausarSlaChamado 1 ''Aguardando'' (mk_datetime 2026 3 2 10 5 0),
      PausarAutomaticamente 1 Em_analise (mk_datetime 2026 3 2 10 10 0),
      RetomarAutomaticamente 1 ''Aberto'' (mk_datetime 2026 3 2 11 0 0),
      PausarAutomaticamente 1 ''Aguardando'' (mk_datetime 2026 3 2 12 0 0)] []) \<and>
   abertas 1 [pausa_exemplo] \<noteq> [] \<and> ''Aguardando'' \<in> set STATUS_PAUSA \<and>
   pausar_automaticamente [pausa_exemplo] 1 ''Aguardando'' (mk_datetime 2026 3 2 11 0 0)
     = (Some pausa_exemplo, [pausa_exemplo]) \<and>
   pausar_sla_chamado [pausa_exemplo] (mk_datetime 2026 3 2 11 0 0) 1 ''Aguardando''
     = (False, [pausa_exemplo])"
proof -
  have a: "abertas 1 [] = []" by (simp add: abertas_def)
  have b: "abertas 1 [pausa_exemplo] = [pausa_exemplo]"
    by (simp add: abertas_def pausa_aberta_def pausa_exemplo_def)
  have c: "''Aguardando'' \<in> set STATUS_PAUSA" by (simp add: STATUS_PAUSA_def)
  note t = uma_pausa_aberta [OF a]
  have "no_maximo_uma 1 (fold executar
     [PausarSlaChamado 1 ''Aguardando'' (mk_datetime 2026 3 2 10 0 0),
      PausarSlaChamado 1 ''Aguardando'' (mk_datetime 2026 3 2 10 5 0),
      PausarAutomaticamente 1 Em_analise (mk_datetime 2026 3 2 10 10 0),
      RetomarAutomaticamente 1 ''Aberto'' (mk_datetime 2026 3 2 11 0 0),
      PausarAutomaticamente 1 ''Aguardando'' (mk_datetime 2026 3 2 12 0 0)] [])"
    using t by blast
  moreover have "pausar_automaticamente [pausa_exemplo] 1 ''Aguardando'' (mk_datetime 2026 3 2 11 0 0)
     = (Some pausa_exemplo, [pausa_exemplo])"
    using t b c by (metis list.sel(1) not_Cons_self2)
  moreover have "pausar_sla_chamado [pausa_exemplo] (mk_datetime 2026 3 2 11 0 0) 1 ''Aguardando''
     = (False, [pausa_exemplo])"
    using t b by (metis not_Cons_self2)
  ultimately show ?thesis using a b c by simp
qed

section \<open>Classification of the two clocks\<close>

lemma round_half_even_ge_floor: "\<lfloor>x\<rfloor> \<le> round_half_even x"
  by (simp add: round_half_even_def Let_def)

lemma py_round_ge:
  assumes "real_of_int k \<le> x * 10 ^ n"
  shows "real_of_int k / 10 ^ n \<le> py_round x n"
proof -
  have "k \<le> \<lfloor>x * 10 ^ n\<rfloor>" using assms by (simp add: le_floor_iff)
  also have "\<dots> \<le> round_half_even (x * 10 ^ n)" by (rule round_half_even_ge_floor)
  finally have "real_of_int k \<le> real_of_int (round_half_even (x * 10 ^ n))" by simp
  then show ?thesis by (simp add: py_round_def divide_right_mono)
qed

lemma percentual_ge_100:
  assumes "0 < limite" "limite \<le> trab"
  shows "100 \<le> percentual trab limite"
proof -
  have "1 \<le> trab / limite" using assms by simp
  then have "real_of_int 1000 \<le> trab / limite * 100 * 10 ^ 1" by simp
  from py_round_ge [OF this] show ?thesis using assms by (simp add: percentual_def)
qed

lemma calcular_sla_chamado_SomeD:
  assumes "calcular_sla_chamado lower db now c = Inr (Some r)"
  obtains abertura cfg pct_risco where
    "data_abertura c = Some abertura" "SLA_DATA_INICIO \<le> abertura"
    "config_do_chamado lower db c = Some cfg" "risco cfg = Some pct_risco"
    "r_status r = str_or (ch_status c) ''Aberto''"
    "resolucao_limite_horas r = resolucao cfg"
    "percentual_resolucao r = percentual (resolucao_trabalhado_horas r) (resolucao cfg)"
    "resolucao_vencida r =
       (resolucao cfg \<le> resolucao_trabalhado_horas r \<and> r_status r \<notin> set STATUS_FINAIS)"
    "resolucao_em_risco r =
       (pct_risco \<le> percentual_resolucao r \<and> \<not> resolucao_vencida r \<and> r_status r \<notin> set STATUS_FINAIS)"
    "resolucao_em_dia r = (\<not> resolucao_vencida r \<and> \<not> resolucao_em_risco r)"
    "resposta_limite_horas r = resposta cfg"
    "percentual_resposta r = percentual (resposta_trabalhado_horas r) (resposta cfg)"
    "resposta_vencida r =
       (if data_primeira_resposta c \<noteq> None then resposta cfg < resposta_trabalhado_horas r
        else resposta cfg \<le> resposta_trabalhado_horas r \<and> r_status r \<notin> set STATUS_FINAIS)"
    "resposta_em_risco r =
       (data_primeira_resposta c = None \<and> pct_risco \<le> percentual_resposta r
        \<and> \<not> resposta_vencida r \<and> r_status r \<notin> set STATUS_FINAIS)"
    "resposta_em_dia r = (\<not> resposta_vencida r \<and> \<not> resposta_em_risco r)"
  using assms
  unfolding calcular_sla_chamado_def config_do_chamado_def Let_def
  by (auto split: option.splits sum.splits prod.splits if_splits)

lemma bloco_resposta_flags:
  "bloco_resposta calc config tabela c data_ref = (Inr b, calc') \<Longrightarrow>
     exatamente_um (b_em_dia b) (b_em_risco b) (b_vencida b)"
  unfolding bloco_resposta_def Let_def exatamente_um_def
  by (auto split: option.splits sum.splits prod.splits if_splits)

lemma bloco_resolucao_flags:
  "bloco_resolucao calc config tabela c data_ref final = (Inr b, calc') \<Longrightarrow>
     exatamente_um (b_em_dia b) (b_em_risco b) (b_vencida b) \<and>
     (final \<longrightarrow> \<not> b_vencida b \<and> \<not> b_em_risco b)"
  unfolding bloco_resolucao_def Let_def exatamente_um_def
  by (auto split: option.splits sum.splits prod.splits if_splits)

lemma calcular_sla_flags:
  assumes "calcular_sla calc configs tabela now c = (Inr r, calc')"
  shows "exatamente_um (c_resolucao_em_dia r) (c_resolucao_em_risco r) (c_resolucao_vencida r) \<and>
         exatamente_um (c_resposta_em_dia r) (c_resposta_em_risco r) (c_resposta_vencida r) \<and>
         (status_em (ch_status c) STATUS_FINAL \<longrightarrow>
            \<not> c_resolucao_vencida r \<and> \<not> c_resolucao_em_risco r)"
proof (cases "obter_configuracao_sla configs (ch_prioridade c)")
  case None
  with assms have "r = criar_resultado_vazio" by (simp add: calcular_sla_def)
  then show ?thesis by (simp add: criar_resultado_vazio_def exatamente_um_def)
next
  case (Some config)
  with assms show ?thesis
    unfolding calcular_sla_def Let_def
    by (auto split: sum.splits prod.splits dest!: bloco_resposta_flags bloco_resolucao_flags)
qed

lemmas sla_eval = calcular_sla_chamado_def configs_of_def pausas_of_def horas_uteis_com_pausas_def
  percentual_def

lemma bloco_resposta_classificado:
  "bloco_resposta calc config tabela c data_ref = (Inr b, calc') \<Longrightarrow>
     bloco_classificado (data_primeira_resposta c = None)
       (tempo_resposta_horas config) (percentual_risco config) b"
  unfolding bloco_resposta_def Let_def bloco_classificado_def efetivo_def
  by (auto simp: percentual_bruto_def split: option.splits sum.splits prod.splits if_splits)

lemma bloco_resolucao_classificado:
  "bloco_resolucao calc config tabela c data_ref final = (Inr b, calc') \<Longrightarrow>
     bloco_classificado (\<not> final)
       (tempo_resolucao_horas config) (percentual_risco config) b"
  unfolding bloco_resolucao_def Let_def bloco_classificado_def efetivo_def
  by (auto split: option.splits sum.splits prod.splits if_splits)

lemma calcular_sla_blocos:
  assumes "calcular_sla calc configs tabela now c = (Inr r, calc')"
    and "obter_configuracao_sla configs (ch_prioridade c) = Some config"
  obtains data_ref resp calc1 res where
    "bloco_resposta calc config tabela c data_ref = (Inr resp, calc1)"
    "bloco_resolucao calc1 config tabela c data_ref (status_em (ch_status c) STATUS_FINAL)
       = (Inr res, calc')"
    "tempo_resposta_limite_horas r = tempo_resposta_horas config"
    "c_percentual_resposta r = py_round (b_percentual resp) 2"
    "c_resposta_em_dia r = b_em_dia resp"
    "c_resposta_em_risco r = b_em_risco resp"
    "c_resposta_vencida r = b_vencida resp"
    "tempo_resolucao_limite_horas r = tempo_resolucao_horas config"
    "c_percentual_resolucao r = py_round (b_percentual res) 2"
    "c_resolucao_em_dia r = b_em_dia res"
    "c_resolucao_em_risco r = b_em_risco res"
    "c_resolucao_vencida r = b_vencida res"
  using assms
  unfolding calcular_sla_def Let_def
  by (auto split: sum.splits prod.splits)

lemma percentual_bruto_ge_100:
  assumes "0 < limite" "limite \<le> e"
  shows "100 \<le> py_round (percentual_bruto e limite) 2"
proof -
  have "1 \<le> e / limite" using assms by simp
  then have "real_of_int 10000 \<le> e / limite * 100 * 10 ^ 2" by simp
  from py_round_ge [OF this] show ?thesis using assms by (simp add: percentual_bruto_def)
qed

lemma py_round_2_ge: "x - 1 / 200 \<le> py_round x 2"
proof -
  from py_round_close [of x 2] have "\<bar>py_round x 2 - x\<bar> \<le> 1 / 200" by simp
  then show ?thesis by linarith
qed

lemma calcular_sla_classificado:
  assumes "calcular_sla calc configs tabela now c = (Inr r', calc')"
    and "obter_configuracao_sla configs (ch_prioridade c) = Some config"
  shows "\<exists>data_ref resp calc1 res.
           bloco_resposta calc config tabela c data_ref = (Inr resp, calc1) \<and>
           bloco_resolucao calc1 config tabela c data_ref
               (status_em (ch_status c) STATUS_FINAL) = (Inr res, calc') \<and>
           c_resposta_em_dia r' = b_em_dia resp \<and>
           c_resposta_em_risco r' = b_em_risco resp \<and>
           c_resposta_vencida r' = b_vencida resp \<and>
           c_percentual_resposta r' = py_round (b_percentual resp) 2 \<and>
           c_resolucao_em_dia r' = b_em_dia res \<and>
           c_resolucao_em_risco r' = b_em_risco res \<and>
           c_resolucao_vencida r' = b_vencida res \<and>
           c_percentual_resolucao r' = py_round (b_percentual res) 2 \<and>
           bloco_classificado (data_primeira_resposta c = None)
             (tempo_resposta_horas config) (percentual_risco config) resp \<and>
           bloco_classificado (\<not> status_em (ch_status c) STATUS_FINAL)
             (tempo_resolucao_horas config) (percentual_risco config) res \<and>
           (c_resposta_vencida r' \<longrightarrow>
              tempo_resposta_horas config \<le> efetivo resp \<and>
              (0 < tempo_resposta_horas config \<longrightarrow> 100 \<le> c_percentual_resposta r')) \<and>
           (c_resolucao_vencida r' \<longrightarrow>
              tempo_resolucao_horas config \<le> efetivo res \<and>
              (0 < tempo_resolucao_horas config \<longrightarrow> 100 \<le> c_percentual_resolucao r')) \<and>
           (c_resposta_em_risco r' \<longrightarrow>
              \<not> c_resposta_vencida r' \<and>
              (\<exists>pct. percentual_risco config = Some pct \<and> pct \<le> b_percentual resp \<and>
                     pct - 1 / 200 \<le> c_percentual_resposta r')) \<and>
           (c_resolucao_em_risco r' \<longrightarrow>
              \<not> c_resolucao_vencida r' \<and>
              (\<exists>pct. percentual_risco config = Some pct \<and> pct \<le> b_percentual res \<and>
                     pct - 1 / 200 \<le> c_percentual_resolucao r'))"
proof -
  from assms obtain data_ref resp calc1 res where b:
    "bloco_resposta calc config tabela c data_ref = (Inr resp, calc1)"
    "bloco_resolucao calc1 config tabela c data_ref (status_em (ch_status c) STATUS_FINAL)
       = (Inr res, calc')"
    "tempo_resposta_limite_horas r' = tempo_resposta_horas config"
    "c_percentual_resposta r' = py_round (b_percentual resp) 2"
    "c_resposta_em_dia r' = b_em_dia resp"
    "c_resposta_em_risco r' = b_em_risco resp"
    "c_resposta_vencida r' = b_vencida resp"
    "tempo_resolucao_limite_horas r' = tempo_resolucao_horas config"
    "c_percentual_resolucao r' = py_round (b_percentual res) 2"
    "c_resolucao_em_dia r' = b_em_dia res"
    "c_resolucao_em_risco r' = b_em_risco res"
    "c_resolucao_vencida r' = b_vencida res"
    by (rule calcular_sla_blocos)
  note k1 = bloco_resposta_classificado [OF b(1)]
  note k2 = bloco_resolucao_classificado [OF b(2)]
  have v1: "c_resposta_vencida r' \<longrightarrow>
              tempo_resposta_horas config \<le> efetivo resp \<and>
              (0 < tempo_resposta_horas config \<longrightarrow> 100 \<le> c_percentual_resposta r')"
    using k1 percentual_bruto_ge_100 [of "tempo_resposta_horas config" "efetivo resp"]
    by (auto simp: bloco_classificado_def b(4,7))
  have v2: "c_resolucao_vencida r' \<longrightarrow>
              tempo_resolucao_horas config \<le> efetivo res \<and>
              (0 < tempo_resolucao_horas config \<longrightarrow> 100 \<le> c_percentual_resolucao r')"
    using k2 percentual_bruto_ge_100 [of "tempo_resolucao_horas config" "efetivo res"]
    by (auto simp: bloco_classificado_def b(9,12))
  have r1: "\<And>pct. pct \<le> b_percentual resp \<Longrightarrow> pct - 1 / 200 \<le> py_round (b_percentual resp) 2"
    using py_round_2_ge [of "b_percentual resp"] by linarith
  have r2: "\<And>pct. pct \<le> b_percentual res \<Longrightarrow> pct - 1 / 200 \<le> py_round (b_percentual res) 2"
    using py_round_2_ge [of "b_percentual res"] by linarith
  have v3: "c_resposta_em_risco r' \<longrightarrow>
              \<not> c_resposta_vencida r' \<and>
              (\<exists>pct. percentual_risco config = Some pct \<and> pct \<le> b_percentual resp \<and>
                     pct - 1 / 200 \<le> c_percentual_resposta r')"
    using k1 r1 by (auto simp: bloco_classificado_def b(4,6,7) split: option.splits)
  have v4: "c_resolucao_em_risco r' \<longrightarrow>
              \<not> c_resolucao_vencida r' \<and>
              (\<exists>pct. percentual_risco config = Some pct \<and> pct \<le> b_percentual res \<and>
                     pct - 1 / 200 \<le> c_percentual_resolucao r')"
    using k2 r2 by (auto simp: bloco_classificado_def b(9,11,12) split: option.splits)
  show ?thesis
    using b(1,2,4,5,6,7,9,10,11,12) k1 k2 v1 v2 v3 v4
    by (intro exI [of _ data_ref] exI [of _ resp] exI [of _ calc1] exI [of _ res] conjI)
qed

lemma calcular_sla_chamado_classificado:
  assumes "calcular_sla_chamado lower db now c = Inr (Some r)"
  shows "exatamente_um (resolucao_em_dia r) (resolucao_em_risco r) (resolucao_vencida r) \<and>
         exatamente_um (resposta_em_dia r) (resposta_em_risco r) (resposta_vencida r) \<and>
         (resolucao_vencida r \<longrightarrow>
            resolucao_limite_horas r \<le> resolucao_trabalhado_horas r \<and>
            (0 < resolucao_limite_horas r \<longrightarrow> 100 \<le> percentual_resolucao r)) \<and>
         (resposta_vencida r \<longrightarrow>
            resposta_limite_horas r \<le> resposta_trabalhado_horas r \<and>
            (0 < resposta_limite_horas r \<longrightarrow> 100 \<le> percentual_resposta r)) \<and>
         (\<exists>cfg pct. config_do_chamado lower db c = Some cfg \<and> risco cfg = Some pct \<and>
            (resolucao_em_risco r \<longrightarrow> pct \<le> percentual_resolucao r \<and> \<not> resolucao_vencida r) \<and>
            (resposta_em_risco r \<longrightarrow> pct \<le> percentual_resposta r \<and> \<not> resposta_vencida r)) \<and>
         (r_status r \<in> set STATUS_FINAIS \<longrightarrow>
            \<not> resolucao_vencida r \<and> \<not> resolucao_em_risco r \<and> \<not> resposta_em_risco r \<and>
            (resposta_vencida r \<longleftrightarrow>
               data_primeira_resposta c \<noteq> None \<and>
               resposta_limite_horas r < resposta_trabalhado_horas r))"
proof -
  from assms obtain abertura cfg pct_risco where f:
    "config_do_chamado lower db c = Some cfg" "risco cfg = Some pct_risco"
    "resolucao_limite_horas r = resolucao cfg"
    "percentual_resolucao r = percentual (resolucao_trabalhado_horas r) (resolucao cfg)"
    "resolucao_vencida r =
       (resolucao cfg \<le> resolucao_trabalhado_horas r \<and> r_status r \<notin> set STATUS_FINAIS)"
    "resolucao_em_risco r =
       (pct_risco \<le> percentual_resolucao r \<and> \<not> resolucao_vencida r \<and> r_status r \<notin> set STATUS_FINAIS)"
    "resolucao_em_dia r = (\<not> resolucao_vencida r \<and> \<not> resolucao_em_risco r)"
    "resposta_limite_horas r = resposta cfg"
    "percentual_resposta r = percentual (resposta_trabalhado_horas r) (resposta cfg)"
    "resposta_vencida r =
       (if data_primeira_resposta c \<noteq> None then resposta cfg < resposta_trabalhado_horas r
        else resposta cfg \<le> resposta_trabalhado_horas r \<and> r_status r \<notin> set STATUS_FINAIS)"
    "resposta_em_risco r =
       (data_primeira_resposta c = None \<and> pct_risco \<le> percentual_resposta r
        \<and> \<not> resposta_vencida r \<and> r_status r \<notin> set STATUS_FINAIS)"
    "resposta_em_dia r = (\<not> resposta_vencida r \<and> \<not> resposta_em_risco r)"
    by (rule calcular_sla_chamado_SomeD)
  have a1: "exatamente_um (resolucao_em_dia r) (resolucao_em_risco r) (resolucao_vencida r)"
    unfolding exatamente_um_def f(7) using f(6) by blast
  have a2: "exatamente_um (resposta_em_dia r) (resposta_em_risco r) (resposta_vencida r)"
    unfolding exatamente_um_def f(12) using f(11) by blast
  have a3: "resolucao_vencida r \<longrightarrow>
            resolucao_limite_horas r \<le> resolucao_trabalhado_horas r \<and>
            (0 < resolucao_limite_horas r \<longrightarrow> 100 \<le> percentual_resolucao r)"
    using f(3,4,5) by (auto intro: percentual_ge_100)
  have a4: "resposta_vencida r \<longrightarrow>
            resposta_limite_horas r \<le> resposta_trabalhado_horas r \<and>
            (0 < resposta_limite_horas r \<longrightarrow> 100 \<le> percentual_resposta r)"
    using f(8,9,10) by (auto intro: percentual_ge_100 split: if_splits)
  have a5: "\<exists>cfg pct. config_do_chamado lower db c = Some cfg \<and> risco cfg = Some pct \<and>
            (resolucao_em_risco r \<longrightarrow> pct \<le> percentual_resolucao r \<and> \<not> resolucao_vencida r) \<and>
            (resposta_em_risco r \<longrightarrow> pct \<le> percentual_resposta r \<and> \<not> resposta_vencida r)"
    using f(1,2,6,11) by blast
  have a6: "r_status r \<in> set STATUS_FINAIS \<longrightarrow>
            \<not> resolucao_vencida r \<and> \<not> resolucao_em_risco r \<and> \<not> resposta_em_risco r \<and>
            (resposta_vencida r \<longleftrightarrow>
               data_primeira_resposta c \<noteq> None \<and>
               resposta_limite_horas r < resposta_trabalhado_horas r)"
    using f(5,6,8,10,11) by auto
  show ?thesis using a1 a2 a3 a4 a5 a6 by (intro conjI)
qed

text \<open>
  C3, as the code has it, evaluator by evaluator.

  For every result of \<^verbatim>\<open>calcular_sla_chamado\<close>: on each clock exactly one of on-time,
  at-risk, breached holds; breached implies worked hours at or above the limit, and a
  percentage of at least 100 when the limit is positive (with a limit of zero or less
  the percentage is reported as 0); at-risk implies a percentage at or above the
  configured threshold and not breached.  A ticket in a final status is never
  resolution-breached, resolution-at-risk or response-at-risk; it is response-breached
  exactly when it has a recorded first response whose worked hours exceed the response
  limit.

  For every result of the legacy \<^verbatim>\<open>calcular_sla\<close>: on each clock exactly one flag holds,
  and a ticket in a final status is never resolution-breached or resolution-at-risk.
  When a configuration is found, the result comes from the two blocks of the function.
  The resolution clock is classified only in a status that is not final.  The response
  clock is classified only while the ticket has no first response, and there is no
  test of the status: a ticket in a final status that was never answered is
  response-breached as soon as its worked hours reach the limit, and an answered ticket
  is never response-breached.  On a classified clock, breached is worked hours (elapsed
  minus paused, floored at 0) at or above the limit, and then the reported percentage
  is at least 100 when the limit is positive; at-risk is not breached with the
  percentage at or above the threshold, the reported percentage, rounded to two
  decimals, being at most 0.005 below it.
\<close>

theorem classificacao_exclusiva:
  "(\<forall>r. calcular_sla_chamado lower db now c = Inr (Some r) \<longrightarrow>
      exatamente_um (resolucao_em_dia r) (resolucao_em_risco r) (resolucao_vencida r) \<and>
      exatamente_um (resposta_em_dia r) (resposta_em_risco r) (resposta_vencida r) \<and>
      (resolucao_vencida r \<longrightarrow>
         resolucao_limite_horas r \<le> resolucao_trabalhado_horas r \<and>
         (0 < resolucao_limite_horas r \<longrightarrow> 100 \<le> percentual_resolucao r)) \<and>
      (resposta_vencida r \<longrightarrow>
         resposta_limite_horas r \<le> resposta_trabalhado_horas r \<and>
         (0 < resposta_limite_horas r \<longrightarrow> 100 \<le> percentual_resposta r)) \<and>
      (\<exists>cfg pct. config_do_chamado lower db c = Some cfg \<and> risco cfg = Some pct \<and>
         (resolucao_em_risco r \<longrightarrow> pct \<le> percentual_resolucao r \<and> \<not> resolucao_vencida r) \<and>
         (resposta_em_risco r \<longrightarrow> pct \<le> percentual_resposta r \<and> \<not> resposta_vencida r)) \<and>
      (r_status r \<in> set STATUS_FINAIS \<longrightarrow>
         \<not> resolucao_vencida r \<and> \<not> resolucao_em_risco r \<and> \<not> resposta_em_risco r \<and>
         (resposta_vencida r \<longleftrightarrow>
            data_primeira_resposta c \<noteq> None \<and>
            resposta_limite_horas r < resposta_trabalhado_horas r))) \<and>
   (\<forall>calc configs tabela r' calc'.
      calcular_sla calc configs tabela now c = (Inr r', calc') \<longrightarrow>
        exatamente_um (c_resolucao_em_dia r') (c_resolucao_em_risco r') (c_resolucao_vencida r') \<and>
        exatamente_um (c_resposta_em_dia r') (c_resposta_em_risco r') (c_resposta_vencida r') \<and>
        (status_em (ch_status c) STATUS_FINAL \<longrightarrow>
           \<not> c_resolucao_vencida r' \<and> \<not> c_resolucao_em_risco r')) \<and>
   (\<forall>calc configs tabela config r' calc'.
      calcular_sla calc configs tabela now c = (Inr r', calc') \<and>
      obter_configuracao_sla configs (ch_prioridade c) = Some config \<longrightarrow>
        (\<exists>data_ref resp calc1 res.
           bloco_resposta calc config tabela c data_ref = (Inr resp, calc1) \<and>
           bloco_resolucao calc1 config tabela c data_ref
               (status_em (ch_status c) STATUS_FINAL) = (Inr res, calc') \<and>
           c_resposta_em_dia r' = b_em_dia resp \<and>
           c_resposta_em_risco r' = b_em_risco resp \<and>
           c_resposta_vencida r' = b_vencida resp \<and>
           c_percentual_resposta r' = py_round (b_percentual resp) 2 \<and>
           c_resolucao_em_dia r' = b_em_dia res \<and>
           c_resolucao_em_risco r' = b_em_risco res \<and>
           c_resolucao_vencida r' = b_vencida res \<and>
           c_percentual_resolucao r' = py_round (b_percentual res) 2 \<and>
           bloco_classificado (data_primeira_resposta c = None)
             (tempo_resposta_horas config) (percentual_risco config) resp \<and>
           bloco_classificado (\<not> status_em (ch_status c) STATUS_FINAL)
             (tempo_resolucao_horas config) (percentual_risco config) res \<and>
           (c_resposta_vencida r' \<longrightarrow>
              tempo_resposta_horas config \<le> efetivo resp \<and>
              (0 < tempo_resposta_horas config \<longrightarrow> 100 \<le> c_percentual_resposta r')) \<and>
           (c_resolucao_vencida r' \<longrightarrow>
              tempo_resolucao_horas config \<le> efetivo res \<and>
              (0 < tempo_resolucao_horas config \<longrightarrow> 100 \<le> c_percentual_resolucao r')) \<and>
           (c_resposta_em_risco r' \<longrightarrow>
              \<not> c_resposta_vencida r' \<and>
              (\<exists>pct. percentual_risco config = Some pct \<and> pct \<le> b_percentual resp \<and>
                     pct - 1 / 200 \<le> c_percentual_resposta r')) \<and>
           (c_resolucao_em_risco r' \<longrightarrow>
              \<not> c_resolucao_vencida r' \<and>
              (\<exists>pct. percentual_risco config = Some pct \<and> pct \<le> b_percentual res \<and>
                     pct - 1 / 200 \<le> c_percentual_resolucao r'))))"
  apply (intro conjI)
    apply (intro allI impI, erule calcular_sla_chamado_classificado)
   apply (intro allI impI, erule calcular_sla_flags)
  apply (intro allI impI, elim conjE, erule (1) calcular_sla_classificado)
  done

lemma calc_aberto:
  "fst (calcular_sla (novo_calculador [] []) [cfg_alta] [] (mk_datetime 2026 3 2 16 0 0)
          chamado_aberto) = Inr resultado_aberto_calc"
  by (simp add: calc_sla_eval calc_eval cfg_alta_def chamado_aberto_def resultado_aberto_calc_def
        time_eval string_eval Let_def)


text \<open>
  The open ticket of priority "Alta" (response 2 h, resolution 8 h, risk 80 percent),
  evaluated seven business hours after it was opened.  Both evaluators report the
  resolution at risk with 87.5 percent and the response breached with 350 percent.
\<close>

theorem classificacao_exclusiva_witness:
  "calcular_sla_chamado ascii_lower banco_exemplo (mk_datetime 2026 3 2 16 0 0) chamado_aberto
     = Inr (Some resultado_aberto) \<and>
   exatamente_um (resolucao_em_dia resultado_aberto) (resolucao_em_risco resultado_aberto)
     (resolucao_vencida resultado_aberto) \<and>
   exatamente_um (resposta_em_dia resultado_aberto) (resposta_em_risco resultado_aberto)
     (resposta_vencida resultado_aberto) \<and>
   resolucao_em_risco resultado_aberto \<and> 80 \<le> percentual_resolucao resultado_aberto \<and>
   resposta_vencida resultado_aberto \<and>
   resposta_limite_horas resultado_aberto \<le> resposta_trabalhado_horas resultado_aberto \<and>
   100 \<le> percentual_resposta resultado_aberto \<and>
   fst (calcular_sla (novo_calculador [] []) [cfg_alta] [] (mk_datetime 2026 3 2 16 0 0)
          chamado_aberto) = Inr resultado_aberto_calc \<and>
   obter_configuracao_sla [cfg_alta] (ch_prioridade chamado_aberto) = Some cfg_alta \<and>
   exatamente_um (c_resolucao_em_dia resultado_aberto_calc)
     (c_resolucao_em_risco resultado_aberto_calc) (c_resolucao_vencida resultado_aberto_calc) \<and>
   exatamente_um (c_resposta_em_dia resultado_aberto_calc)
     (c_resposta_em_risco resultado_aberto_calc) (c_resposta_vencida resultado_aberto_calc) \<and>
   c_resposta_vencida resultado_aberto_calc \<and>
   100 \<le> c_percentual_resposta resultado_aberto_calc \<and>
   c_resolucao_em_risco resultado_aberto_calc \<and>
   \<not> c_resolucao_vencida resultado_aberto_calc \<and>
   80 - 1 / 200 \<le> c_percentual_resolucao resultado_aberto_calc"
proof -
  let ?now = "mk_datetime 2026 3 2 16 0 0"
  have h: "calcular_sla_chamado ascii_lower banco_exemplo ?now chamado_aberto
             = Inr (Some resultado_aberto)"
    by (simp add: sla_eval banco_exemplo_def chamado_aberto_def cfg_alta_def resultado_aberto_def
          metrics_eval time_eval string_eval)
  have v: "resolucao_em_risco resultado_aberto" "resposta_vencida resultado_aberto"
    "80 \<le> percentual_resolucao resultado_aberto" "0 < resposta_limite_horas resultado_aberto"
    by (simp_all add: resultado_aberto_def)
  have k: "calcular_sla (novo_calculador [] []) [cfg_alta] [] ?now chamado_aberto
             = (Inr resultado_aberto_calc,
                snd (calcular_sla (novo_calculador [] []) [cfg_alta] [] ?now chamado_aberto))"
    using calc_aberto by (metis prod.collapse)
  have g: "obter_configuracao_sla [cfg_alta] (ch_prioridade chamado_aberto) = Some cfg_alta"
    by (simp add: obter_configuracao_sla_def cfg_alta_def chamado_aberto_def)
  have w: "c_resposta_vencida resultado_aberto_calc" "c_resolucao_em_risco resultado_aberto_calc"
    "0 < tempo_resposta_horas cfg_alta" "percentual_risco cfg_alta = Some 80"
    by (simp_all add: resultado_aberto_calc_def cfg_alta_def)
  note t = classificacao_exclusiva [where lower = ascii_lower and db = banco_exemplo
      and now = ?now and c = chamado_aberto]
  note t1 = t [THEN conjunct1, rule_format, OF h]
  note t2 = t [THEN conjunct2, THEN conjunct1, rule_format, OF k]
  note t3 = t [THEN conjunct2, THEN conjunct2, rule_format, OF conjI [OF k g]]
  from t3 w have c: "100 \<le> c_percentual_resposta resultado_aberto_calc"
    "\<not> c_resolucao_vencida resultado_aberto_calc"
    "80 - 1 / 200 \<le> c_percentual_resolucao resultado_aberto_calc"
    by auto
  from t1 t2 c h v w g calc_aberto show ?thesis by simp
qed

text \<open>
  The claim as written (a final ticket is never marked breached on either clock)
  fails on the response clock of both evaluators.  In the metrics service the ticket
  concluded on 2026-03-02 whose first response came after four business hours, against
  a limit of two, is reported \<^verbatim>\<open>resposta_vencida\<close> in status Concluido.  In the
  calculator the ticket concluded after six business hours with no first response
  recorded is reported \<^verbatim>\<open>resposta_vencida\<close> in status Concluido.
\<close>

theorem classificacao_exclusiva_counterexample:
  "calcular_sla_chamado ascii_lower banco_concluido (mk_datetime 2026 3 3 10 0 0) chamado_concluido =
     Inr (Some \<lparr>r_chamado_id = 3, r_codigo = ''EVQ-0003'', r_prioridade = Some ''Alta'',
          r_status = Concluido, pausado = False, ativo = False,
          resolucao_trabalhado_horas = 6, resolucao_pausado_horas = 0, resolucao_limite_horas = 8,
          percentual_resolucao = 75, resolucao_em_dia = True,
          resolucao_em_risco = False, resolucao_vencida = False,
          resposta_trabalhado_horas = 4, resposta_pausado_horas = 0,
          resposta_limite_horas = 2, percentual_resposta = 200,
          resposta_em_dia = False, resposta_em_risco = False, resposta_vencida = True\<rparr>) \<and>
   status_em (ch_status chamado_sem_resposta) STATUS_FINAL \<and>
   fst (calcular_sla (novo_calculador [] []) [cfg_alta] [] (mk_datetime 2026 3 3 10 0 0)
          chamado_sem_resposta) =
     Inr \<lparr>tempo_resposta_limite_horas = 2, tempo_resposta_decorrido_horas = 6,
          tempo_resposta_pausado_horas = 0, c_percentual_resposta = 300,
          c_resposta_em_risco = False, c_resposta_vencida = True, c_resposta_em_dia = False,
          tempo_resolucao_limite_horas = 8, tempo_resolucao_decorrido_horas = 6,
          tempo_resolucao_pausado_horas = 0, c_percentual_resolucao = 75,
          c_resolucao_em_risco = False, c_resolucao_vencida = False, c_resolucao_em_dia = True,
          c_pausado = False, c_ativo = False\<rparr>"
proof -
  have "calcular_sla_chamado ascii_lower banco_concluido (mk_datetime 2026 3 3 10 0 0) chamado_concluido =
     Inr (Some \<lparr>r_chamado_id = 3, r_codigo = ''EVQ-0003'', r_prioridade = Some ''Alta'',
          r_status = Concluido, pausado = False, ativo = False,
          resolucao_trabalhado_horas = 6, resolucao_pausado_horas = 0, resolucao_limite_horas = 8,
          percentual_resolucao = 75, resolucao_em_dia = True,
          resolucao_em_risco = False, resolucao_vencida = False,
          resposta_trabalhado_horas = 4, resposta_pausado_horas = 0,
          resposta_limite_horas = 2, percentual_resposta = 200,
          resposta_em_dia = False, resposta_em_risco = False, resposta_vencida = True\<rparr>)"
    by (simp add: sla_eval banco_concluido_def chamado_concluido_def cfg_alta_def
          metrics_eval time_eval string_eval)
  moreover have "status_em (ch_status chamado_sem_resposta) STATUS_FINAL"
    by (simp add: chamado_sem_resposta_def string_eval)
  moreover have "fst (calcular_sla (novo_calculador [] []) [cfg_alta] [] (mk_datetime 2026 3 3 10 0 0)
          chamado_sem_resposta) =
     Inr \<lparr>tempo_resposta_limite_horas = 2, tempo_resposta_decorrido_horas = 6,
          tempo_resposta_pausado_horas = 0, c_percentual_resposta = 300,
          c_resposta_em_risco = False, c_resposta_vencida = True, c_resposta_em_dia = False,
          tempo_resolucao_limite_horas = 8, tempo_resolucao_decorrido_horas = 6,
          tempo_resolucao_pausado_horas = 0, c_percentual_resolucao = 75,
          c_resolucao_em_risco = False, c_resolucao_vencida = False, c_resolucao_em_dia = True,
          c_pausado = False, c_ativo = False\<rparr>"
    by (simp add: calc_sla_eval calc_eval cfg_alta_def chamado_sem_resposta_def
          time_eval string_eval Let_def)
  ultimately show ?thesis by (intro conjI)
qed

section \<open>The accumulators as sums over the days\<close>

lemma horas_dia_add: "horas_dia inicio fim d tot = tot + horas_dia inicio fim d 0"
  by (simp add: horas_dia_def Let_def)

lemma horas_uteis_loop_sum:
  "date_of fim < MAXORDINAL \<Longrightarrow>
   horas_uteis_loop inicio fim current tot =
     Inr (tot + (\<Sum>d = current..date_of fim. horas_dia inicio fim d 0))"
proof (induction inicio fim current tot rule: horas_uteis_loop.induct)
  case (1 inicio fim current tot)
  show ?case
  proof (cases "current \<le> date_of fim")
    case True
    with "1.prems" have le: "\<not> current + 1 > MAXORDINAL" by simp
    have split: "{current..date_of fim} = insert current {current + 1..date_of fim}"
      using True by auto
    have "horas_uteis_loop inicio fim current tot =
          horas_uteis_loop inicio fim (current + 1) (horas_dia inicio fim current tot)"
      using True le by (subst horas_uteis_loop.simps) simp
    also have "\<dots> = Inr (horas_dia inicio fim current tot +
                 (\<Sum>d = current + 1..date_of fim. horas_dia inicio fim d 0))"
      using "1.IH" [OF True le "1.prems"] .
    also have "\<dots> = Inr (tot + (\<Sum>d = current..date_of fim. horas_dia inicio fim d 0))"
      by (subst horas_dia_add) (simp add: split)
    finally show ?thesis .
  next
    case False
    then show ?thesis by (subst horas_uteis_loop.simps) simp
  qed
qed

lemma carregar_feriados_ok:
  assumes "cache_ok c"
  shows "fst (carregar_feriados c ano) = query_feriados (db_feriados c) ano"
    and "cache_ok (snd (carregar_feriados c ano))"
    and "db_feriados (snd (carregar_feriados c ano)) = db_feriados c"
    and "db_horarios (snd (carregar_feriados c ano)) = db_horarios c"
  using assms by (auto simp: carregar_feriados_def cache_ok_def Let_def split: option.splits)

lemma carregar_horarios_ok:
  assumes "cache_ok c"
  shows "fst (carregar_horarios_comerciais c) = query_horarios (db_horarios c)"
    and "cache_ok (snd (carregar_horarios_comerciais c))"
    and "db_feriados (snd (carregar_horarios_comerciais c)) = db_feriados c"
    and "db_horarios (snd (carregar_horarios_comerciais c)) = db_horarios c"
  using assms by (auto simp: carregar_horarios_comerciais_def cache_ok_def Let_def split: option.splits)

lemma year_filter:
  "d \<in> set (query_feriados fs (year_of d)) \<longleftrightarrow> d \<in> set (map fer_data (filter fer_ativo fs))"
  by (auto simp: query_feriados_def)

lemma eh_dia_util_ok:
  assumes "cache_ok c"
  shows "fst (eh_dia_util c d) = dia_util c d"
    and "cache_ok (snd (eh_dia_util c d))"
    and "db_feriados (snd (eh_dia_util c d)) = db_feriados c"
    and "db_horarios (snd (eh_dia_util c d)) = db_horarios c"
  using carregar_feriados_ok [OF assms, of "year_of d"] assms
  by (auto simp: eh_dia_util_def dia_util_def feriados_ativos_def year_filter split: prod.splits)

lemma obter_horario_comercial_ok:
  assumes "cache_ok c"
  shows "fst (obter_horario_comercial c d) = janela_do_dia c d"
    and "cache_ok (snd (obter_horario_comercial c d))"
    and "db_feriados (snd (obter_horario_comercial c d)) = db_feriados c"
    and "db_horarios (snd (obter_horario_comercial c d)) = db_horarios c"
proof -
  obtain u c1 where e: "eh_dia_util c d = (u, c1)" by (cases "eh_dia_util c d")
  from eh_dia_util_ok [OF assms, of d] e
  have u: "u = dia_util c d" and c1: "cache_ok c1" "db_feriados c1 = db_feriados c"
    "db_horarios c1 = db_horarios c" by simp_all
  obtain h c2 where k: "carregar_horarios_comerciais c1 = (h, c2)"
    by (cases "carregar_horarios_comerciais c1")
  from carregar_horarios_ok [OF c1(1)] k c1
  have h: "h = query_horarios (db_horarios c)" and c2: "cache_ok c2" "db_feriados c2 = db_feriados c"
    "db_horarios c2 = db_horarios c" by simp_all
  show "fst (obter_horario_comercial c d) = janela_do_dia c d"
    by (simp add: obter_horario_comercial_def e k u h janela_do_dia_def)
  show "cache_ok (snd (obter_horario_comercial c d))"
    by (simp add: obter_horario_comercial_def e k c1 c2)
  show "db_feriados (snd (obter_horario_comercial c d)) = db_feriados c"
    by (simp add: obter_horario_comercial_def e k c1 c2)
  show "db_horarios (snd (obter_horario_comercial c d)) = db_horarios c"
    by (simp add: obter_horario_comercial_def e k c1 c2)
qed

lemma janela_do_dia_cong:
  "db_feriados c' = db_feriados c \<Longrightarrow> db_horarios c' = db_horarios c \<Longrightarrow>
     janela_do_dia c' d = janela_do_dia c d"
  by (simp add: janela_do_dia_def dia_util_def feriados_ativos_def)

lemma horas_do_dia_add:
  "horas_do_dia di df d ct w tot = tot + horas_do_dia di df d ct w 0"
  by (simp add: horas_do_dia_def Let_def split: option.split prod.split)

lemma horas_do_dia_time:
  "d \<noteq> date_of di \<Longrightarrow> horas_do_dia di df d ct w tot = horas_do_dia di df d ct' w tot"
  by (simp add: horas_do_dia_def Let_def split: option.split prod.split)

lemma calcular_horas_uteis_loop_sum:
  assumes "cache_ok c" "date_of df < MAXORDINAL" "date_of di \<le> cur"
    "cur = date_of di \<longrightarrow> ct = time_of di"
  shows "fst (calcular_horas_uteis_loop c di df cur ct tot) =
           Inr (tot + (\<Sum>d = cur..date_of df. horas_do_dia di df d (time_of di) (janela_do_dia c d) 0))
         \<and> cache_ok (snd (calcular_horas_uteis_loop c di df cur ct tot))
         \<and> db_feriados (snd (calcular_horas_uteis_loop c di df cur ct tot)) = db_feriados c
         \<and> db_horarios (snd (calcular_horas_uteis_loop c di df cur ct tot)) = db_horarios c"
  using assms
proof (induction c di df cur ct tot rule: calcular_horas_uteis_loop.induct)
  case (1 c di df cur ct tot)
  show ?case
  proof (cases "cur \<le> date_of df")
    case False
    then show ?thesis using "1.prems" by (subst (1 2 3 4) calcular_horas_uteis_loop.simps) simp
  next
    case True
    obtain w c1 where o: "obter_horario_comercial c cur = (w, c1)"
      by (cases "obter_horario_comercial c cur")
    from obter_horario_comercial_ok [OF "1.prems"(1), of cur] o
    have w: "w = janela_do_dia c cur" and c1: "cache_ok c1" "db_feriados c1 = db_feriados c"
      "db_horarios c1 = db_horarios c" by simp_all
    from True "1.prems" have le: "\<not> cur + 1 > MAXORDINAL" by simp
    let ?t1 = "horas_do_dia di df cur ct w tot"
    have step: "calcular_horas_uteis_loop c di df cur ct tot =
                calcular_horas_uteis_loop c1 di df (cur + 1) (mk_time 0 0) ?t1"
      using True le o by (subst calcular_horas_uteis_loop.simps) (simp add: Let_def)
    have ih: "fst (calcular_horas_uteis_loop c1 di df (cur + 1) (mk_time 0 0) ?t1) =
           Inr (?t1 + (\<Sum>d = cur + 1..date_of df. horas_do_dia di df d (time_of di) (janela_do_dia c1 d) 0))
         \<and> cache_ok (snd (calcular_horas_uteis_loop c1 di df (cur + 1) (mk_time 0 0) ?t1))
         \<and> db_feriados (snd (calcular_horas_uteis_loop c1 di df (cur + 1) (mk_time 0 0) ?t1)) = db_feriados c1
         \<and> db_horarios (snd (calcular_horas_uteis_loop c1 di df (cur + 1) (mk_time 0 0) ?t1)) = db_horarios c1"
      using "1.prems"
      by (intro "1.IH" [OF True refl o [symmetric] refl le c1(1)]) simp_all
    have jc: "\<And>d. janela_do_dia c1 d = janela_do_dia c d"
      using c1 by (intro janela_do_dia_cong)
    have t1: "?t1 = tot + horas_do_dia di df cur (time_of di) (janela_do_dia c cur) 0"
    proof (cases "cur = date_of di")
      case True
      with "1.prems" show ?thesis by (subst horas_do_dia_add) (simp add: w)
    next
      case False
      then show ?thesis
        by (subst horas_do_dia_add) (simp add: w horas_do_dia_time [of cur di df ct _ _ "time_of di"])
    qed
    have split: "{cur..date_of df} = insert cur {cur + 1..date_of df}"
      using True by auto
    show ?thesis
      unfolding step using ih by (simp add: jc t1 c1 split)
  qed
qed

lemma combine_date_time: "combine (date_of t) (time_of t) = t"
  by (simp add: combine_def date_of_def time_of_def US_PER_DAY_def)

lemma sum_restrict:
  fixes g :: "int \<Rightarrow> real"
  assumes "\<And>d. \<not> P d \<Longrightarrow> g d = 0"
  shows "(\<Sum>d = a..b. g d) = (\<Sum>d\<in>{d \<in> {a..b}. P d}. g d)"
proof -
  have "(\<Sum>d = a..b. g d) = (\<Sum>d = a..b. if P d then g d else 0)"
    using assms by (intro sum.cong) auto
  also have "\<dots> = (\<Sum>d\<in>{d \<in> {a..b}. P d}. g d)"
    by (rule sum.inter_filter [symmetric]) simp
  finally show ?thesis .
qed

lemma horas_dia_fim_de_semana: "5 \<le> weekday d \<Longrightarrow> horas_dia inicio fim d tot = tot"
  by (simp add: horas_dia_def eh_dia_util_metrics_def)

lemma janela_nao_util: "5 \<le> weekday d \<or> d \<in> feriados_ativos c \<Longrightarrow> janela_do_dia c d = None"
  by (auto simp: janela_do_dia_def dia_util_def)

lemma horas_do_dia_None: "horas_do_dia di df d ct None tot = tot"
  by (simp add: horas_do_dia_def)

lemma calcular_horas_uteis_sum:
  assumes "cache_ok c" "date_of fim < MAXORDINAL" "inicio < fim"
  shows "fst (calcular_horas_uteis c inicio fim) =
           Inr (\<Sum>d = date_of inicio..date_of fim.
                  horas_do_dia inicio fim d (time_of inicio) (janela_do_dia c d) 0)"
  using calcular_horas_uteis_loop_sum [OF assms(1,2), of inicio "date_of inicio" "time_of inicio" 0] assms(3)
  by (simp add: calcular_horas_uteis_def)

lemma horas_uteis_sum:
  assumes "date_of fim < MAXORDINAL" "inicio < fim" "SLA_DATA_INICIO \<le> inicio"
  shows "horas_uteis (Some inicio) (Some fim) =
           Inr (py_round (\<Sum>d = date_of inicio..date_of fim. horas_dia inicio fim d 0) 4)"
  using assms by (simp add: horas_uteis_def horas_uteis_n_def horas_uteis_loop_sum)

text \<open>
  C5, as the code has it.  The total of an interval is the sum, over the dates of the
  interval that are Monday to Friday, of each day's hours: a Saturday or a Sunday adds
  nothing, in both accumulators.  The calculator (with caches that agree with the
  database) restricts the sum further to the dates that are not active holidays: it
  gives no window for such a date and the day leaves the total as it was.
  \<^verbatim>\<open>_horas_uteis\<close> of the metrics service has no holiday lookup: its sum ranges over all
  weekdays.
\<close>

theorem dias_nao_uteis_contam_zero:
  assumes "date_of fim < MAXORDINAL" "inicio < fim"
  shows "(\<forall>c. cache_ok c \<longrightarrow>
            fst (calcular_horas_uteis c inicio fim) =
              Inr (\<Sum>d\<in>{d \<in> {date_of inicio..date_of fim}. weekday d < 5 \<and> d \<notin> feriados_ativos c}.
                     horas_do_dia inicio fim d (time_of inicio) (janela_do_dia c d) 0)) \<and>
         (\<forall>c d ct tot. cache_ok c \<and> (5 \<le> weekday d \<or> d \<in> feriados_ativos c) \<longrightarrow>
            fst (obter_horario_comercial c d) = None \<and>
            horas_do_dia inicio fim d ct (fst (obter_horario_comercial c d)) tot = tot) \<and>
         (SLA_DATA_INICIO \<le> inicio \<longrightarrow>
            horas_uteis (Some inicio) (Some fim) =
              Inr (py_round (\<Sum>d\<in>{d \<in> {date_of inicio..date_of fim}. weekday d < 5}.
                               horas_dia inicio fim d 0) 4)) \<and>
         (\<forall>d tot. 5 \<le> weekday d \<longrightarrow> horas_dia inicio fim d tot = tot)"
proof (intro conjI allI impI)
  fix c assume c: "cache_ok c"
  have "(\<Sum>d = date_of inicio..date_of fim.
           horas_do_dia inicio fim d (time_of inicio) (janela_do_dia c d) 0)
        = (\<Sum>d\<in>{d \<in> {date_of inicio..date_of fim}. weekday d < 5 \<and> d \<notin> feriados_ativos c}.
             horas_do_dia inicio fim d (time_of inicio) (janela_do_dia c d) 0)"
    by (rule sum_restrict) (auto simp: janela_nao_util horas_do_dia_None)
  with calcular_horas_uteis_sum [OF c assms]
  show "fst (calcular_horas_uteis c inicio fim) =
              Inr (\<Sum>d\<in>{d \<in> {date_of inicio..date_of fim}. weekday d < 5 \<and> d \<notin> feriados_ativos c}.
                     horas_do_dia inicio fim d (time_of inicio) (janela_do_dia c d) 0)"
    by simp
next
  fix c d ct tot assume h: "cache_ok c \<and> (5 \<le> weekday d \<or> d \<in> feriados_ativos c)"
  then show n: "fst (obter_horario_comercial c d) = None"
    by (simp add: obter_horario_comercial_ok janela_nao_util)
  show "horas_do_dia inicio fim d ct (fst (obter_horario_comercial c d)) tot = tot"
    by (simp add: n horas_do_dia_None)
next
  assume s: "SLA_DATA_INICIO \<le> inicio"
  have "(\<Sum>d = date_of inicio..date_of fim. horas_dia inicio fim d 0)
        = (\<Sum>d\<in>{d \<in> {date_of inicio..date_of fim}. weekday d < 5}. horas_dia inicio fim d 0)"
    by (rule sum_restrict) (simp add: horas_dia_fim_de_semana)
  with horas_uteis_sum [OF assms s]
  show "horas_uteis (Some inicio) (Some fim) =
              Inr (py_round (\<Sum>d\<in>{d \<in> {date_of inicio..date_of fim}. weekday d < 5}.
                               horas_dia inicio fim d 0) 4)"
    by simp
next
  fix d tot assume "5 \<le> weekday d"
  then show "horas_dia inicio fim d tot = tot" by (rule horas_dia_fim_de_semana)
qed

lemma cache_ok_novo: "cache_ok (novo_calculador fs hs)"
  by (simp add: cache_ok_def novo_calculador_def)

text \<open>
  Friday 2026-03-06 17:00 to Monday 2026-03-09 09:00.  The metrics accumulator counts
  Friday's last hour and Monday's first, nothing for the weekend.  The calculator, with
  that Monday an active holiday, counts Friday's hour only; it gives no window for the
  Saturday nor for the holiday.
\<close>

theorem dias_nao_uteis_contam_zero_witness:
  "date_of (mk_datetime 2026 3 9 9 0 0) < MAXORDINAL \<and>
   mk_datetime 2026 3 6 17 0 0 < mk_datetime 2026 3 9 9 0 0 \<and>
   SLA_DATA_INICIO \<le> mk_datetime 2026 3 6 17 0 0 \<and>
   cache_ok calc_feriado_segunda \<and>
   5 \<le> weekday (ymd2ord 2026 3 7) \<and>
   ymd2ord 2026 3 9 \<in> feriados_ativos calc_feriado_segunda \<and>
   fst (obter_horario_comercial calc_feriado_segunda (ymd2ord 2026 3 7)) = None \<and>
   fst (obter_horario_comercial calc_feriado_segunda (ymd2ord 2026 3 9)) = None \<and>
   horas_dia (mk_datetime 2026 3 6 17 0 0) (mk_datetime 2026 3 9 9 0 0) (ymd2ord 2026 3 7) 0 = 0 \<and>
   fst (calcular_horas_uteis calc_feriado_segunda
          (mk_datetime 2026 3 6 17 0 0) (mk_datetime 2026 3 9 9 0 0)) = Inr 1 \<and>
   horas_uteis (Some (mk_datetime 2026 3 6 17 0 0)) (Some (mk_datetime 2026 3 9 9 0 0)) = Inr 2"
proof -
  have a: "date_of (mk_datetime 2026 3 9 9 0 0) < MAXORDINAL"
    by (simp add: time_eval)
  have b: "mk_datetime 2026 3 6 17 0 0 < mk_datetime 2026 3 9 9 0 0"
    by (simp add: time_eval)
  have c: "SLA_DATA_INICIO \<le> mk_datetime 2026 3 6 17 0 0"
    by (simp add: time_eval)
  have d: "cache_ok calc_feriado_segunda"
    by (simp add: calc_feriado_segunda_def cache_ok_novo)
  have e: "5 \<le> weekday (ymd2ord 2026 3 7)"
    by (simp add: time_eval)
  have f: "ymd2ord 2026 3 9 \<in> feriados_ativos calc_feriado_segunda"
    by (simp add: feriados_ativos_def calc_feriado_segunda_def novo_calculador_def)
  have g: "fst (calcular_horas_uteis calc_feriado_segunda
             (mk_datetime 2026 3 6 17 0 0) (mk_datetime 2026 3 9 9 0 0)) = Inr 1"
    by (simp add: calc_feriado_segunda_def calc_eval time_eval Let_def)
  have h: "horas_uteis (Some (mk_datetime 2026 3 6 17 0 0)) (Some (mk_datetime 2026 3 9 9 0 0)) = Inr 2"
    by (simp add: metrics_eval time_eval)
  note t = dias_nao_uteis_contam_zero [OF a b]
  from t d e have "fst (obter_horario_comercial calc_feriado_segunda (ymd2ord 2026 3 7)) = None"
    by blast
  moreover from t d f have "fst (obter_horario_comercial calc_feriado_segunda (ymd2ord 2026 3 9)) = None"
    by blast
  moreover from t e
  have "horas_dia (mk_datetime 2026 3 6 17 0 0) (mk_datetime 2026 3 9 9 0 0) (ymd2ord 2026 3 7) 0 = 0"
    by blast
  ultimately show ?thesis using a b c d e f g h by simp
qed

text \<open>
  The claim as written (a date of the active holiday set contributes nothing, to every
  accumulator) fails on \<^verbatim>\<open>_horas_uteis\<close>: on Tuesday 2026-04-21, an active holiday, the
  hour from 09:00 to 10:00 counts in full there, while the calculator counts nothing.
\<close>

theorem dias_nao_uteis_contam_zero_counterexample:
  "weekday (ymd2ord 2026 4 21) = 1 \<and>
   ymd2ord 2026 4 21 \<in> feriados_ativos calc_tiradentes \<and>
   fst (calcular_horas_uteis calc_tiradentes
          (mk_datetime 2026 4 21 9 0 0) (mk_datetime 2026 4 21 10 0 0)) = Inr 0 \<and>
   horas_uteis (Some (mk_datetime 2026 4 21 9 0 0)) (Some (mk_datetime 2026 4 21 10 0 0)) = Inr 1"
proof -
  have "weekday (ymd2ord 2026 4 21) = 1"
    by (simp add: time_eval)
  moreover have "ymd2ord 2026 4 21 \<in> feriados_ativos calc_tiradentes"
    by (simp add: feriados_ativos_def calc_tiradentes_def novo_calculador_def)
  moreover have "fst (calcular_horas_uteis calc_tiradentes
          (mk_datetime 2026 4 21 9 0 0) (mk_datetime 2026 4 21 10 0 0)) = Inr 0"
    by (simp add: calc_tiradentes_def calc_eval time_eval Let_def)
  moreover have "horas_uteis (Some (mk_datetime 2026 4 21 9 0 0))
                   (Some (mk_datetime 2026 4 21 10 0 0)) = Inr 1"
    by (simp add: metrics_eval time_eval)
  ultimately show ?thesis by simp
qed

section \<open>Inside one business day\<close>

text \<open>
  C4, as the code has it.  For two instants of one date, in this order, on a business
  day and inside its window: the calculator returns exactly the hours between them;
  \<^verbatim>\<open>_horas_uteis\<close> returns those hours rounded to four decimals, so within 0.00005 of
  them, provided the start is not before the cutover epoch.  The date is not the last
  one \<^verbatim>\<open>date\<close> can hold, where the day loop's increment raises.
\<close>

theorem dentro_de_um_dia:
  assumes "inicio < fim" "date_of inicio = d" "date_of fim = d" "d < MAXORDINAL"
  shows "(SLA_DATA_INICIO \<le> inicio \<and> eh_dia_util_metrics d \<and>
          HORA_INICIO \<le> time_of inicio \<and> time_of fim \<le> HORA_FIM \<longrightarrow>
            horas_uteis (Some inicio) (Some fim) = Inr (py_round (total_hours (fim - inicio)) 4) \<and>
            \<bar>py_round (total_hours (fim - inicio)) 4 - total_hours (fim - inicio)\<bar> \<le> 1 / 20000) \<and>
         (\<forall>c hi hf. cache_ok c \<and> janela_do_dia c d = Some (hi, hf) \<and>
                     hi \<le> time_of inicio \<and> time_of fim \<le> hf \<longrightarrow>
            fst (calcular_horas_uteis c inicio fim) = Inr (total_hours (fim - inicio)))"
proof (intro conjI allI impI)
  assume h: "SLA_DATA_INICIO \<le> inicio \<and> eh_dia_util_metrics d \<and>
          HORA_INICIO \<le> time_of inicio \<and> time_of fim \<le> HORA_FIM"
  have i: "combine d (time_of inicio) = inicio" and f: "combine d (time_of fim) = fim"
    using combine_date_time [of inicio] combine_date_time [of fim] assms by simp_all
  have a: "combine d HORA_INICIO \<le> inicio"
    using h by (subst i [symmetric]) (simp add: combine_def)
  have b: "fim \<le> combine d HORA_FIM"
    using h by (subst f [symmetric]) (simp add: combine_def)
  have "horas_dia inicio fim d 0 = total_hours (fim - inicio)"
    using h a b assms(1) by (simp add: horas_dia_def Let_def max_def min_def)
  with horas_uteis_sum [of fim inicio] assms h
  show "horas_uteis (Some inicio) (Some fim) = Inr (py_round (total_hours (fim - inicio)) 4)"
    by simp
  show "\<bar>py_round (total_hours (fim - inicio)) 4 - total_hours (fim - inicio)\<bar> \<le> 1 / 20000"
    using py_round_close [of "total_hours (fim - inicio)" 4] by simp
next
  fix c hi hf
  assume h: "cache_ok c \<and> janela_do_dia c d = Some (hi, hf) \<and>
                     hi \<le> time_of inicio \<and> time_of fim \<le> hf"
  have i: "combine d (time_of inicio) = inicio" and f: "combine d (time_of fim) = fim"
    using combine_date_time [of inicio] combine_date_time [of fim] assms by simp_all
  have lt: "time_of inicio < time_of fim"
    using assms(1) i f by (simp add: combine_def)
  have "horas_do_dia inicio fim d (time_of inicio) (janela_do_dia c d) 0 = total_hours (fim - inicio)"
    using h lt assms
    by (auto simp: horas_do_dia_def Let_def max_def min_def i f combine_date_time)
  with calcular_horas_uteis_sum [of c fim inicio] assms h
  show "fst (calcular_horas_uteis c inicio fim) = Inr (total_hours (fim - inicio))"
    by simp
qed

text \<open>
  Monday 2026-03-02, 09:00 to 10:30, inside the window 08:00 to 18:00: an hour and a
  half from both accumulators.
\<close>

theorem dentro_de_um_dia_witness:
  "mk_datetime 2026 3 2 9 0 0 < mk_datetime 2026 3 2 10 30 0 \<and>
   date_of (mk_datetime 2026 3 2 9 0 0) = ymd2ord 2026 3 2 \<and>
   date_of (mk_datetime 2026 3 2 10 30 0) = ymd2ord 2026 3 2 \<and>
   ymd2ord 2026 3 2 < MAXORDINAL \<and>
   SLA_DATA_INICIO \<le> mk_datetime 2026 3 2 9 0 0 \<and>
   eh_dia_util_metrics (ymd2ord 2026 3 2) \<and>
   HORA_INICIO \<le> time_of (mk_datetime 2026 3 2 9 0 0) \<and>
   time_of (mk_datetime 2026 3 2 10 30 0) \<le> HORA_FIM \<and>
   horas_uteis (Some (mk_datetime 2026 3 2 9 0 0)) (Some (mk_datetime 2026 3 2 10 30 0)) = Inr (3 / 2) \<and>
   cache_ok (novo_calculador [] []) \<and>
   janela_do_dia (novo_calculador [] []) (ymd2ord 2026 3 2) = Some (mk_time 8 0, mk_time 18 0) \<and>
   fst (calcular_horas_uteis (novo_calculador [] [])
          (mk_datetime 2026 3 2 9 0 0) (mk_datetime 2026 3 2 10 30 0)) = Inr (3 / 2)"
proof -
  have a: "mk_datetime 2026 3 2 9 0 0 < mk_datetime 2026 3 2 10 30 0"
    "date_of (mk_datetime 2026 3 2 9 0 0) = ymd2ord 2026 3 2"
    "date_of (mk_datetime 2026 3 2 10 30 0) = ymd2ord 2026 3 2"
    "ymd2ord 2026 3 2 < MAXORDINAL"
    by (simp_all add: time_eval)
  have b: "SLA_DATA_INICIO \<le> mk_datetime 2026 3 2 9 0 0"
    "eh_dia_util_metrics (ymd2ord 2026 3 2)"
    "HORA_INICIO \<le> time_of (mk_datetime 2026 3 2 9 0 0)"
    "time_of (mk_datetime 2026 3 2 10 30 0) \<le> HORA_FIM"
    by (simp_all add: time_eval eh_dia_util_metrics_def HORA_INICIO_def HORA_FIM_def)
  have c: "cache_ok (novo_calculador [] [])"
    by (rule cache_ok_novo)
  have d: "janela_do_dia (novo_calculador [] []) (ymd2ord 2026 3 2) = Some (mk_time 8 0, mk_time 18 0)"
    by (simp add: janela_do_dia_def dia_util_def feriados_ativos_def novo_calculador_def
          query_horarios_def janela_padrao_def time_eval)
  have e: "mk_time 8 0 \<le> time_of (mk_datetime 2026 3 2 9 0 0)"
    "time_of (mk_datetime 2026 3 2 10 30 0) \<le> mk_time 18 0"
    by (simp_all add: time_eval)
  have v: "total_hours (mk_datetime 2026 3 2 10 30 0 - mk_datetime 2026 3 2 9 0 0) = 3 / 2"
    "py_round (3 / 2) 4 = 3 / 2"
    by (simp_all add: time_eval)
  note t = dentro_de_um_dia [OF a]
  from t b v have "horas_uteis (Some (mk_datetime 2026 3 2 9 0 0))
                     (Some (mk_datetime 2026 3 2 10 30 0)) = Inr (3 / 2)"
    by simp
  moreover from t c d e v
  have "fst (calcular_horas_uteis (novo_calculador [] [])
          (mk_datetime 2026 3 2 9 0 0) (mk_datetime 2026 3 2 10 30 0)) = Inr (3 / 2)"
    by (metis (no_types, lifting))
  ultimately show ?thesis using a b c d by simp
qed

text \<open>
  The claim as written fails on \<^verbatim>\<open>_horas_uteis\<close> in two ways.  Friday 2026-02-13 is a
  business day and 09:00 to 10:00 lies inside its window, one hour apart, yet the
  result is 0: the start is moved to the epoch.  And one second inside Monday
  2026-03-02 is 1/3600 of an hour, reported as 0.0003.
\<close>

theorem dentro_de_um_dia_counterexample:
  "date_of (mk_datetime 2026 2 13 9 0 0) = date_of (mk_datetime 2026 2 13 10 0 0) \<and>
   eh_dia_util_metrics (date_of (mk_datetime 2026 2 13 9 0 0)) \<and>
   HORA_INICIO \<le> time_of (mk_datetime 2026 2 13 9 0 0) \<and>
   time_of (mk_datetime 2026 2 13 10 0 0) \<le> HORA_FIM \<and>
   total_hours (mk_datetime 2026 2 13 10 0 0 - mk_datetime 2026 2 13 9 0 0) = 1 \<and>
   horas_uteis (Some (mk_datetime 2026 2 13 9 0 0)) (Some (mk_datetime 2026 2 13 10 0 0)) = Inr 0 \<and>
   total_hours (mk_datetime 2026 3 2 9 0 1 - mk_datetime 2026 3 2 9 0 0) = 1 / 3600 \<and>
   horas_uteis (Some (mk_datetime 2026 3 2 9 0 0)) (Some (mk_datetime 2026 3 2 9 0 1))
     = Inr (3 / 10000)"
proof -
  have "date_of (mk_datetime 2026 2 13 9 0 0) = date_of (mk_datetime 2026 2 13 10 0 0)"
    "eh_dia_util_metrics (date_of (mk_datetime 2026 2 13 9 0 0))"
    "HORA_INICIO \<le> time_of (mk_datetime 2026 2 13 9 0 0)"
    "time_of (mk_datetime 2026 2 13 10 0 0) \<le> HORA_FIM"
    "total_hours (mk_datetime 2026 2 13 10 0 0 - mk_datetime 2026 2 13 9 0 0) = 1"
    "total_hours (mk_datetime 2026 3 2 9 0 1 - mk_datetime 2026 3 2 9 0 0) = 1 / 3600"
    by (simp_all add: time_eval eh_dia_util_metrics_def HORA_INICIO_def HORA_FIM_def)
  moreover have "horas_uteis (Some (mk_datetime 2026 2 13 9 0 0))
                   (Some (mk_datetime 2026 2 13 10 0 0)) = Inr 0"
    by (simp add: metrics_eval time_eval)
  moreover have "horas_uteis (Some (mk_datetime 2026 3 2 9 0 0))
                   (Some (mk_datetime 2026 3 2 9 0 1)) = Inr (3 / 10000)"
    by (simp add: metrics_eval time_eval)
  ultimately show ?thesis by simp
qed

section \<open>Pause accounting\<close>

lemma round_half_even_of_int: "round_half_even (real_of_int k) = k"
  by (simp add: round_half_even_def)

lemma py_round_multiplo4: "multiplo4 x \<Longrightarrow> py_round x 4 = x"
  unfolding multiplo4_def py_round_def
  by (auto simp: round_half_even_of_int)

lemma multiplo4_py_round: "multiplo4 (py_round x 4)"
  unfolding multiplo4_def py_round_def by blast

lemma multiplo4_0: "multiplo4 0"
  unfolding multiplo4_def by (rule exI [of _ 0]) simp

lemma multiplo4_add: "multiplo4 x \<Longrightarrow> multiplo4 y \<Longrightarrow> multiplo4 (x + y)"
  unfolding multiplo4_def
  by (metis add_divide_distrib of_int_add)

lemma multiplo4_diff: "multiplo4 x \<Longrightarrow> multiplo4 y \<Longrightarrow> multiplo4 (x - y)"
  unfolding multiplo4_def
  by (metis diff_divide_distrib of_int_diff)

lemma multiplo4_max0: "multiplo4 x \<Longrightarrow> multiplo4 (max 0 x)"
  by (simp add: max_def multiplo4_0)

lemma date_of_mono: "a \<le> b \<Longrightarrow> date_of a \<le> date_of b"
  by (simp add: date_of_def US_PER_DAY_def zdiv_mono1)

lemma horas_uteis_loop_Inr:
  "date_of fim < MAXORDINAL \<Longrightarrow> \<exists>h. horas_uteis_loop inicio fim current tot = Inr h"
proof (induction inicio fim current tot rule: horas_uteis_loop.induct)
  case (1 inicio fim current tot)
  show ?case
  proof (cases "current \<le> date_of fim")
    case True
    with "1.prems" have le: "\<not> current + 1 > MAXORDINAL" by simp
    from "1.IH" [OF True le "1.prems"] True le show ?thesis
      by (subst horas_uteis_loop.simps) simp
  next
    case False
    then show ?thesis by (subst horas_uteis_loop.simps) simp
  qed
qed

lemma horas_uteis_total:
  assumes "date_of f < MAXORDINAL"
  shows "\<exists>h. horas_uteis (Some i) (Some f) = Inr h \<and> multiplo4 h"
proof -
  let ?i = "if i < SLA_DATA_INICIO then SLA_DATA_INICIO else i"
  obtain t where t: "horas_uteis_loop ?i f (date_of ?i) 0 = Inr t"
    using horas_uteis_loop_Inr [OF assms] by blast
  show ?thesis
    by (cases "f \<le> ?i")
       (auto simp: horas_uteis_def horas_uteis_n_def t multiplo4_0 multiplo4_py_round Let_def)
qed

lemma horas_valor_eq:
  "date_of f < MAXORDINAL \<Longrightarrow> horas_uteis (Some i) (Some f) = Inr (horas_valor i f) \<and> multiplo4 (horas_valor i f)"
  using horas_uteis_total [of f i] by (auto simp: horas_valor_def)

lemma pausas_loop_total:
  assumes "date_of fim < MAXORDINAL"
  shows "pausas_loop now inicio fim ps acc = Inr (acc + (\<Sum>p\<leftarrow>ps. pausa_horas now inicio fim p))"
proof (induction ps arbitrary: acc)
  case Nil
  show ?case by simp
next
  case (Cons p ps)
  obtain p_ini p_fim where p: "p = (p_ini, p_fim)" by (cases p)
  let ?f2 = "min (case p_fim of Some t \<Rightarrow> t | None \<Rightarrow> now) fim"
  have "date_of ?f2 \<le> date_of fim" by (rule date_of_mono) simp
  with assms have "date_of ?f2 < MAXORDINAL" by simp
  from horas_valor_eq [OF this, of "max p_ini inicio"]
  show ?case
    by (simp add: p Cons.IH pausa_horas_def Let_def add.assoc)
qed

lemma multiplo4_pausa_horas:
  assumes "date_of fim < MAXORDINAL"
  shows "multiplo4 (pausa_horas now inicio fim p)"
proof -
  let ?f2 = "min (case snd p of Some t \<Rightarrow> t | None \<Rightarrow> now) fim"
  have "date_of ?f2 \<le> date_of fim" by (rule date_of_mono) simp
  with assms have "date_of ?f2 < MAXORDINAL" by simp
  from horas_valor_eq [OF this, of "max (fst p) inicio"]
  show ?thesis by (simp add: pausa_horas_def Let_def multiplo4_0)
qed

lemma multiplo4_sum_list: "(\<And>x. x \<in> set xs \<Longrightarrow> multiplo4 (g x)) \<Longrightarrow> multiplo4 (\<Sum>x\<leftarrow>xs. g x)"
  by (induction xs) (simp_all add: multiplo4_0 multiplo4_add)

lemma janela_data: "t \<in> janela d \<Longrightarrow> date_of t = d"
proof -
  assume "t \<in> janela d"
  then have b: "(d - 1) * 86400000000 + 28800000000 \<le> t" "t < (d - 1) * 86400000000 + 64800000000"
    by (simp_all add: janela_def combine_def HORA_INICIO_def HORA_FIM_def mk_time_def US_PER_DAY_def
          split: if_splits)
  have "t div 86400000000 = d - 1"
    by (rule int_div_pos_eq [where r = "t - (d - 1) * 86400000000"]) (use b in simp_all)
  then show ?thesis by (simp add: date_of_def US_PER_DAY_def)
qed

lemma trecho_fora: "d \<notin> {date_of a..date_of b} \<Longrightarrow> {a..<b} \<inter> janela d = {}"
proof (rule ccontr)
  assume d: "d \<notin> {date_of a..date_of b}" and "{a..<b} \<inter> janela d \<noteq> {}"
  then obtain t where t: "a \<le> t" "t < b" "t \<in> janela d" by auto
  from t(3) have "date_of t = d" by (rule janela_data)
  moreover have "date_of a \<le> date_of t" using t(1) by (rule date_of_mono)
  moreover have "date_of t \<le> date_of b" using t(2) by (intro date_of_mono) simp
  ultimately show False using d by simp
qed

lemma card_intervalo:
  fixes a b :: int
  shows "real (card {a..<b}) = (if a < b then real_of_int (b - a) else 0)"
  by simp

lemma horas_dia_card: "horas_dia i f d 0 = real (card ({i..<f} \<inter> janela d)) / 3600000000"
proof (cases "eh_dia_util_metrics d")
  case False
  then show ?thesis by (simp add: horas_dia_def janela_def)
next
  case True
  define a where "a = max (combine d HORA_INICIO) i"
  define b where "b = min (combine d HORA_FIM) f"
  have s: "{i..<f} \<inter> janela d = {a..<b}"
    using True by (auto simp: janela_def a_def b_def)
  have h: "horas_dia i f d 0 = (if a < b then total_hours (b - a) else 0)"
    using True unfolding horas_dia_def Let_def a_def b_def by simp
  show ?thesis
    unfolding s h card_intervalo by (simp add: total_hours_def)
qed

lemma soma_dias_medida:
  assumes "finite D" "{date_of i..date_of f} \<subseteq> D"
  shows "(\<Sum>d = date_of i..date_of f. horas_dia i f d 0) = real (medida D {i..<f}) / 3600000000"
proof -
  have "medida D {i..<f} = (\<Sum>d = date_of i..date_of f. card ({i..<f} \<inter> janela d))"
    unfolding medida_def
    by (rule sum.mono_neutral_right [OF assms]) (simp add: trecho_fora)
  then show ?thesis
    by (simp add: horas_dia_card sum_divide_distrib)
qed

lemma medida_vazio: "medida D {} = 0"
  by (simp add: medida_def)

lemma horas_uteis_clamp:
  "horas_uteis (Some i) (Some f) =
     (if f \<le> max i SLA_DATA_INICIO then Inr 0
      else (case horas_uteis_loop (max i SLA_DATA_INICIO) f (date_of (max i SLA_DATA_INICIO)) 0 of
              Inl e \<Rightarrow> Inl e
            | Inr tot \<Rightarrow> Inr (py_round tot 4)))"
proof -
  have m: "(if i < SLA_DATA_INICIO then SLA_DATA_INICIO else i) = max i SLA_DATA_INICIO"
    by (simp add: max_def)
  show ?thesis
    unfolding horas_uteis_def horas_uteis_n_def option.case Let_def m ..
qed

lemma horas_valor_medida:
  assumes "date_of f < MAXORDINAL" "finite D"
    "max i SLA_DATA_INICIO < f \<Longrightarrow> {date_of (max i SLA_DATA_INICIO)..date_of f} \<subseteq> D"
  shows "horas_valor i f = py_round (real (medida D {max i SLA_DATA_INICIO..<f}) / 3600000000) 4"
proof -
  define i' where "i' = max i SLA_DATA_INICIO"
  note c = horas_uteis_clamp [of i f, folded i'_def]
  show ?thesis
  proof (cases "i' < f")
    case True
    then have n: "\<not> f \<le> i'" by simp
    from assms(3) True have sub: "{date_of i'..date_of f} \<subseteq> D" by (simp add: i'_def)
    have "horas_uteis (Some i) (Some f) =
            Inr (py_round (\<Sum>d = date_of i'..date_of f. horas_dia i' f d 0) 4)"
      unfolding c using n by (simp add: horas_uteis_loop_sum [OF assms(1)])
    then show ?thesis
      unfolding i'_def [symmetric]
      by (simp add: horas_valor_def soma_dias_medida [OF assms(2) sub])
  next
    case False
    then have le: "f \<le> i'" by simp
    then have e: "{i'..<f} = {}" by (rule atLeastLessThan_empty)
    have "horas_uteis (Some i) (Some f) = Inr 0"
      unfolding c using le by simp
    then show ?thesis
      unfolding i'_def [symmetric] e
      by (simp add: horas_valor_def medida_vazio py_round_zero)
  qed
qed

lemma pausa_horas_medida:
  assumes "date_of fim < MAXORDINAL" "finite D"
    "{date_of (max inicio SLA_DATA_INICIO)..date_of fim} \<subseteq> D"
  shows "pausa_horas now inicio fim p =
           py_round (real (medida D (trecho now inicio fim p)) / 3600000000) 4"
proof -
  define i2 where "i2 = max (fst p) inicio"
  define f2 where "f2 = min (fim_real now p) fim"
  have t: "trecho now inicio fim p = {max i2 SLA_DATA_INICIO..<f2}"
    by (simp add: trecho_def i2_def f2_def)
  have ph: "pausa_horas now inicio fim p = (if i2 < f2 then horas_valor i2 f2 else 0)"
    by (simp add: pausa_horas_def fim_real_def Let_def i2_def f2_def)
  have i2: "inicio \<le> i2" and f2: "f2 \<le> fim" by (simp_all add: i2_def f2_def)
  show ?thesis
  proof (cases "i2 < f2")
    case True
    have df: "date_of f2 \<le> date_of fim" using f2 by (rule date_of_mono)
    with assms(1) have f: "date_of f2 < MAXORDINAL" by simp
    have "max inicio SLA_DATA_INICIO \<le> max i2 SLA_DATA_INICIO"
      using i2 by (rule max.mono) simp
    then have "date_of (max inicio SLA_DATA_INICIO) \<le> date_of (max i2 SLA_DATA_INICIO)"
      by (rule date_of_mono)
    with df have s: "{date_of (max i2 SLA_DATA_INICIO)..date_of f2} \<subseteq> D"
      using assms(3) by auto
    show ?thesis
      unfolding t ph using True horas_valor_medida [OF f assms(2) s] by simp
  next
    case False
    then have "f2 \<le> i2" by simp
    also have "i2 \<le> max i2 SLA_DATA_INICIO" by simp
    finally have "{max i2 SLA_DATA_INICIO..<f2} = {}" by (rule atLeastLessThan_empty)
    with False show ?thesis
      unfolding t ph by (simp add: medida_vazio py_round_zero)
  qed
qed

lemma disjuntas_trecho:
  "disjuntas now p q \<Longrightarrow> trecho now inicio fim p \<inter> trecho now inicio fim q = {}"
  by (auto simp: disjuntas_def trecho_def)

lemma card_trechos:
  "sem_sobreposicao now ps \<Longrightarrow>
     (\<Sum>p\<leftarrow>ps. card (trecho now inicio fim p \<inter> W))
       = card ((\<Union>p\<in>set ps. trecho now inicio fim p) \<inter> W)"
proof (induction ps)
  case Nil
  show ?case by simp
next
  case (Cons p ps)
  let ?U = "\<Union>q\<in>set ps. trecho now inicio fim q"
  have fin: "finite (trecho now inicio fim p \<inter> W)" "finite (?U \<inter> W)"
    by (simp_all add: trecho_def)
  from Cons.prems have "\<forall>q\<in>set ps. disjuntas now p q"
    by (simp add: list_all_iff)
  then have "trecho now inicio fim p \<inter> ?U = {}"
    using disjuntas_trecho [of now p _ inicio fim] by blast
  then have dj: "(trecho now inicio fim p \<inter> W) \<inter> (?U \<inter> W) = {}" by blast
  have "(\<Union>q\<in>set (p # ps). trecho now inicio fim q) \<inter> W
        = (trecho now inicio fim p \<inter> W) \<union> (?U \<inter> W)" by auto
  then have "card ((\<Union>q\<in>set (p # ps). trecho now inicio fim q) \<inter> W)
             = card (trecho now inicio fim p \<inter> W) + card (?U \<inter> W)"
    using card_Un_disjoint [OF fin dj] by simp
  with Cons show ?case by simp
qed

lemma card_trechos_le:
  assumes "sem_sobreposicao now ps"
  shows "(\<Sum>p\<leftarrow>ps. card (trecho now inicio fim p \<inter> W))
           \<le> card ({max inicio SLA_DATA_INICIO..<fim} \<inter> W)"
proof -
  have "(\<Union>p\<in>set ps. trecho now inicio fim p) \<subseteq> {max inicio SLA_DATA_INICIO..<fim}"
    by (auto simp: trecho_def)
  then have "card ((\<Union>p\<in>set ps. trecho now inicio fim p) \<inter> W)
             \<le> card ({max inicio SLA_DATA_INICIO..<fim} \<inter> W)"
    by (intro card_mono) auto
  with card_trechos [OF assms] show ?thesis by simp
qed

lemma sum_list_sum_troca:
  fixes g :: "'a \<Rightarrow> 'b \<Rightarrow> nat"
  shows "(\<Sum>p\<leftarrow>ps. \<Sum>d\<in>D. g p d) = (\<Sum>d\<in>D. \<Sum>p\<leftarrow>ps. g p d)"
  by (induction ps) (simp_all add: sum.distrib)

lemma medida_pausas:
  assumes "sem_sobreposicao now ps"
  shows "(\<Sum>p\<leftarrow>ps. medida D (trecho now inicio fim p))
           \<le> medida D {max inicio SLA_DATA_INICIO..<fim}"
  unfolding medida_def sum_list_sum_troca
  by (intro sum_mono card_trechos_le [OF assms])

lemma py_round_4_perto: "\<bar>py_round x 4 - x\<bar> \<le> 1 / 20000"
  using py_round_close [of x 4] by simp

lemma sum_list_py_round:
  "(\<Sum>x\<leftarrow>xs. py_round (g x) 4) \<le> (\<Sum>x\<leftarrow>xs. g x) + real (length xs) / 20000"
proof (induction xs)
  case Nil
  show ?case by simp
next
  case (Cons x xs)
  from py_round_4_perto [of "g x"] have "py_round (g x) 4 \<le> g x + 1 / 20000"
    by linarith
  with Cons show ?case by (simp add: add_divide_distrib)
qed

lemma real_sum_list: "real (\<Sum>x\<leftarrow>xs. (h x :: nat)) = (\<Sum>x\<leftarrow>xs. real (h x))"
  by (induction xs) simp_all

lemma sum_list_divide: "(\<Sum>x\<leftarrow>xs. (h x :: real) / c) = (\<Sum>x\<leftarrow>xs. h x) / c"
  by (induction xs) (simp_all add: add_divide_distrib)

lemma pausas_tolerancia:
  assumes "date_of fim < MAXORDINAL" "sem_sobreposicao now ps"
  shows "(\<Sum>p\<leftarrow>ps. pausa_horas now inicio fim p)
           \<le> horas_valor inicio fim + (real (length ps) + 1) / 20000"
proof -
  define D where "D = {date_of (max inicio SLA_DATA_INICIO)..date_of fim}"
  have fin: "finite D" and sub: "{date_of (max inicio SLA_DATA_INICIO)..date_of fim} \<subseteq> D"
    by (simp_all add: D_def)
  let ?B = "{max inicio SLA_DATA_INICIO..<fim}"
  let ?E = "\<lambda>p. real (medida D (trecho now inicio fim p)) / 3600000000"
  have "(\<Sum>p\<leftarrow>ps. pausa_horas now inicio fim p) = (\<Sum>p\<leftarrow>ps. py_round (?E p) 4)"
    by (simp add: pausa_horas_medida [OF assms(1) fin sub])
  also have "\<dots> \<le> (\<Sum>p\<leftarrow>ps. ?E p) + real (length ps) / 20000"
    by (rule sum_list_py_round)
  also have "(\<Sum>p\<leftarrow>ps. ?E p) = real (\<Sum>p\<leftarrow>ps. medida D (trecho now inicio fim p)) / 3600000000"
    by (simp add: sum_list_divide real_sum_list)
  also have "\<dots> \<le> real (medida D ?B) / 3600000000"
    using medida_pausas [OF assms(2), of D inicio fim] by (simp add: divide_right_mono)
  also have "\<dots> \<le> horas_valor inicio fim + 1 / 20000"
  proof -
    define E where "E = real (medida D ?B) / 3600000000"
    have "horas_valor inicio fim = py_round E 4"
      unfolding E_def by (rule horas_valor_medida [OF assms(1) fin]) (rule sub)
    with py_round_4_perto [of E] show ?thesis
      unfolding E_def [symmetric] by linarith
  qed
  finally show ?thesis by (simp add: add_divide_distrib)
qed


lemma bloco_resolucao_pausado:
  assumes "bloco_resolucao calc config tabela c data_ref final = (Inr b, calc')"
  shows "\<exists>abertura. data_abertura c = Some abertura \<and>
           fst (calcular_horas_uteis calc abertura data_ref) = Inr (b_decorrido b) \<and>
           b_pausado b = calcular_tempo_pausado tabela (ch_id c) \<and>
           b_percentual b =
             percentual_bruto (max 0 (b_decorrido b - b_pausado b)) (tempo_resolucao_horas config)"
proof (cases "data_abertura c")
  case None
  with assms show ?thesis by (simp add: bloco_resolucao_def)
next
  case (Some abertura)
  obtain r c1 where k: "calcular_horas_uteis calc abertura data_ref = (r, c1)"
    by (cases "calcular_horas_uteis calc abertura data_ref")
  show ?thesis
  proof (cases r)
    case (Inl e)
    with assms Some k show ?thesis by (simp add: bloco_resolucao_def)
  next
    case (Inr decorrido)
    with assms Some k show ?thesis
      unfolding bloco_resolucao_def Let_def
      by (auto split: if_splits option.splits)
  qed
qed

lemma calcular_sla_pausado:
  assumes "calcular_sla calc configs tabela now c = (Inr r, calc')"
    and "obter_configuracao_sla configs (ch_prioridade c) = Some config"
  shows "\<exists>abertura data_ref calc1 decorrido.
           data_abertura c = Some abertura \<and>
           fst (calcular_horas_uteis calc1 abertura data_ref) = Inr decorrido \<and>
           tempo_resolucao_decorrido_horas r = py_round decorrido 2 \<and>
           tempo_resolucao_pausado_horas r = py_round (calcular_tempo_pausado tabela (ch_id c)) 2 \<and>
           c_percentual_resolucao r =
             py_round (percentual_bruto (max 0 (decorrido - calcular_tempo_pausado tabela (ch_id c)))
                         (tempo_resolucao_horas config)) 2"
proof -
  define final where "final = status_em (ch_status c) STATUS_FINAL"
  define data_ref where "data_ref =
    (if final
     then (case data_conclusao c of
             Some t \<Rightarrow> t
           | None \<Rightarrow> (case cancelado_em c of Some t \<Rightarrow> t | None \<Rightarrow> now))
     else now)"
  obtain r1 c1 where k1: "bloco_resposta calc config tabela c data_ref = (r1, c1)"
    by (cases "bloco_resposta calc config tabela c data_ref")
  obtain r2 c2 where k2: "bloco_resolucao c1 config tabela c data_ref final = (r2, c2)"
    by (cases "bloco_resolucao c1 config tabela c data_ref final")
  from assms k1 k2 obtain resp res where b: "r1 = Inr resp" "r2 = Inr res"
    "tempo_resolucao_decorrido_horas r = py_round (b_decorrido res) 2"
    "tempo_resolucao_pausado_horas r = py_round (b_pausado res) 2"
    "c_percentual_resolucao r = py_round (b_percentual res) 2"
    unfolding calcular_sla_def Let_def final_def [symmetric] data_ref_def [symmetric]
    by (auto split: sum.splits)
  from bloco_resolucao_pausado [OF k2 [unfolded b(2)]] obtain abertura where a:
    "data_abertura c = Some abertura"
    "fst (calcular_horas_uteis c1 abertura data_ref) = Inr (b_decorrido res)"
    "b_pausado res = calcular_tempo_pausado tabela (ch_id c)"
    "b_percentual res =
       percentual_bruto (max 0 (b_decorrido res - b_pausado res)) (tempo_resolucao_horas config)"
    by blast
  show ?thesis
    using a b(3,4,5)
    by (intro exI [of _ abertura] exI [of _ data_ref] exI [of _ c1] exI [of _ "b_decorrido res"])
       simp
qed

lemma horas_uteis_com_pausas_valor:
  assumes "date_of fim < MAXORDINAL"
  shows "horas_uteis_com_pausas now inicio fim pausas =
           Inr (max 0 (horas_valor inicio fim - (\<Sum>p\<leftarrow>pausas. pausa_horas now inicio fim p)),
                \<Sum>p\<leftarrow>pausas. pausa_horas now inicio fim p)"
proof -
  let ?paus = "\<Sum>p\<leftarrow>pausas. pausa_horas now inicio fim p"
  let ?bruto = "horas_valor inicio fim"
  have b: "horas_uteis (Some inicio) (Some fim) = Inr ?bruto" "multiplo4 ?bruto"
    using horas_valor_eq [OF assms, of inicio] by simp_all
  have mp: "multiplo4 ?paus"
    by (rule multiplo4_sum_list) (rule multiplo4_pausa_horas [OF assms])
  have l: "pausas_loop now inicio fim pausas 0 = Inr ?paus"
    using pausas_loop_total [OF assms, of now inicio pausas 0] by simp
  have r1: "py_round (max 0 (?bruto - ?paus)) 4 = max 0 (?bruto - ?paus)"
    by (intro py_round_multiplo4 multiplo4_max0 multiplo4_diff b mp)
  have r2: "py_round ?paus 4 = ?paus"
    by (rule py_round_multiplo4 [OF mp])
  show ?thesis
    by (simp add: horas_uteis_com_pausas_def b l r1 r2)
qed

lemma contabilidade_metricas:
  assumes "date_of fim < MAXORDINAL"
  shows "\<exists>trab paus bruto.
           horas_uteis_com_pausas now inicio fim pausas = Inr (trab, paus) \<and>
           horas_uteis (Some inicio) (Some fim) = Inr bruto \<and>
           paus = py_round (\<Sum>p\<leftarrow>pausas. pausa_horas now inicio fim p) 4 \<and>
           trab = py_round (max 0 (bruto - (\<Sum>p\<leftarrow>pausas. pausa_horas now inicio fim p))) 4 \<and>
           bruto \<le> trab + paus \<and>
           (sem_sobreposicao now pausas \<longrightarrow>
              trab + paus \<le> bruto + (real (length pausas) + 1) / 20000)"
proof -
  let ?paus = "\<Sum>p\<leftarrow>pausas. pausa_horas now inicio fim p"
  let ?bruto = "horas_valor inicio fim"
  have b: "horas_uteis (Some inicio) (Some fim) = Inr ?bruto" "multiplo4 ?bruto"
    using horas_valor_eq [OF assms, of inicio] by simp_all
  have mp: "multiplo4 ?paus"
    by (rule multiplo4_sum_list) (rule multiplo4_pausa_horas [OF assms])
  have r1: "py_round (max 0 (?bruto - ?paus)) 4 = max 0 (?bruto - ?paus)"
    by (intro py_round_multiplo4 multiplo4_max0 multiplo4_diff b mp)
  have r2: "py_round ?paus 4 = ?paus"
    by (rule py_round_multiplo4 [OF mp])
  have t: "sem_sobreposicao now pausas \<longrightarrow>
             max 0 (?bruto - ?paus) + ?paus \<le> ?bruto + (real (length pausas) + 1) / 20000"
  proof
    assume "sem_sobreposicao now pausas"
    from pausas_tolerancia [OF assms this, of inicio]
    show "max 0 (?bruto - ?paus) + ?paus \<le> ?bruto + (real (length pausas) + 1) / 20000"
      by (simp add: max_def)
  qed
  have g: "?bruto \<le> max 0 (?bruto - ?paus) + ?paus" by (simp add: max_def)
  show ?thesis
    using horas_uteis_com_pausas_valor [OF assms, of now inicio pausas] b(1) r1 r2 t g
    by (intro exI [of _ "max 0 (?bruto - ?paus)"] exI [of _ ?paus] exI [of _ ?bruto]) simp
qed

text \<open>
  C1, as the code has it, evaluator by evaluator.

  \<^verbatim>\<open>_horas_uteis_com_pausas\<close>, for an end instant below the last date, where nothing
  raises, returns a pair.  With S the sum, over the pauses, of \<^verbatim>\<open>_horas_uteis\<close> of each
  pause's intersection with the interval (an open pause ends at the clock; each term is
  rounded to four decimals by \<^verbatim>\<open>_horas_uteis\<close>) and G the gross \<^verbatim>\<open>_horas_uteis\<close> of the
  interval, the paused hours are S rounded to four decimals and the worked hours are
  G - S floored at 0 and rounded to four decimals.  Worked plus paused is never below
  G.  When no two pauses overlap, it exceeds G by at most 0.00005 hours for each of
  the roundings involved, one per pause and one for G.

  \<^verbatim>\<open>calcular_sla\<close> returns no such pair.  When a configuration is found, the paused hours
  it reports on the resolution clock are the sum of the stored durations of the
  ticket's closed pauses, rounded to two decimals; they are not intersected with the
  interval and are not business hours.  The elapsed hours it reports are those of
  \<^verbatim>\<open>calcular_horas_uteis\<close> from the opening time to the reference instant, and the
  percentage is taken from the elapsed hours minus those paused hours, floored at 0.
\<close>

theorem contabilidade_de_pausas:
  "(date_of fim < MAXORDINAL \<longrightarrow>
      (\<exists>trab paus bruto.
         horas_uteis_com_pausas now inicio fim pausas = Inr (trab, paus) \<and>
         horas_uteis (Some inicio) (Some fim) = Inr bruto \<and>
         paus = py_round (\<Sum>p\<leftarrow>pausas. pausa_horas now inicio fim p) 4 \<and>
         trab = py_round (max 0 (bruto - (\<Sum>p\<leftarrow>pausas. pausa_horas now inicio fim p))) 4 \<and>
         bruto \<le> trab + paus \<and>
         (sem_sobreposicao now pausas \<longrightarrow>
            trab + paus \<le> bruto + (real (length pausas) + 1) / 20000))) \<and>
   (\<forall>calc configs tabela agora c config r calc'.
      calcular_sla calc configs tabela agora c = (Inr r, calc') \<and>
      obter_configuracao_sla configs (ch_prioridade c) = Some config \<longrightarrow>
        (\<exists>abertura data_ref calc1 decorrido.
           data_abertura c = Some abertura \<and>
           fst (calcular_horas_uteis calc1 abertura data_ref) = Inr decorrido \<and>
           tempo_resolucao_decorrido_horas r = py_round decorrido 2 \<and>
           tempo_resolucao_pausado_horas r = py_round (calcular_tempo_pausado tabela (ch_id c)) 2 \<and>
           c_percentual_resolucao r =
             py_round (percentual_bruto (max 0 (decorrido - calcular_tempo_pausado tabela (ch_id c)))
                         (tempo_resolucao_horas config)) 2))"
  apply (intro conjI)
   apply (intro impI, erule contabilidade_metricas)
  apply (intro allI impI, elim conjE, erule (1) calcular_sla_pausado)
  done

text \<open>
  Monday 2026-03-02, from 09:00:00 to 09:00:00.38, with two pauses of 0.19 seconds that
  abut.  The gross time is 0.0001 hours; each pause is 0.0001 hours once rounded, so
  0.0002 hours are paused and none worked: the sum is above the gross time, within the
  bound of 0.00015.  The calculator, for the open ticket of the examples with no pause
  stored, reports seven elapsed hours and none paused.
\<close>

theorem contabilidade_de_pausas_witness:
  "date_of (mk_datetime 2026 3 2 9 0 0 + 380000) < MAXORDINAL \<and>
   sem_sobreposicao (mk_datetime 2026 3 3 18 0 0)
     [(mk_datetime 2026 3 2 9 0 0, Some (mk_datetime 2026 3 2 9 0 0 + 190000)),
      (mk_datetime 2026 3 2 9 0 0 + 190000, Some (mk_datetime 2026 3 2 9 0 0 + 380000))] \<and>
   horas_uteis (Some (mk_datetime 2026 3 2 9 0 0)) (Some (mk_datetime 2026 3 2 9 0 0 + 380000))
     = Inr (1 / 10000) \<and>
   horas_uteis_com_pausas (mk_datetime 2026 3 3 18 0 0)
       (mk_datetime 2026 3 2 9 0 0) (mk_datetime 2026 3 2 9 0 0 + 380000)
       [(mk_datetime 2026 3 2 9 0 0, Some (mk_datetime 2026 3 2 9 0 0 + 190000)),
        (mk_datetime 2026 3 2 9 0 0 + 190000, Some (mk_datetime 2026 3 2 9 0 0 + 380000))]
     = Inr (0, 2 / 10000) \<and>
   (1 / 10000 :: real) \<le> 0 + 2 / 10000 \<and>
   (0 + 2 / 10000 :: real) \<le> 1 / 10000 + (real (length [0 :: nat, 0]) + 1) / 20000 \<and>
   fst (calcular_sla (novo_calculador [] []) [cfg_alta] [] (mk_datetime 2026 3 2 16 0 0)
          chamado_aberto) = Inr resultado_aberto_calc \<and>
   obter_configuracao_sla [cfg_alta] (ch_prioridade chamado_aberto) = Some cfg_alta \<and>
   tempo_resolucao_pausado_horas resultado_aberto_calc
     = py_round (calcular_tempo_pausado [] (ch_id chamado_aberto)) 2"
proof -
  let ?i = "mk_datetime 2026 3 2 9 0 0"
  let ?ps = "[(?i, Some (?i + 190000)), (?i + 190000, Some (?i + 380000))]"
  let ?now = "mk_datetime 2026 3 3 18 0 0"
  let ?k = "calcular_sla (novo_calculador [] []) [cfg_alta] [] (mk_datetime 2026 3 2 16 0 0)
              chamado_aberto"
  have a: "date_of (?i + 380000) < MAXORDINAL"
    by (simp add: time_eval)
  have s: "sem_sobreposicao ?now ?ps"
    by (simp add: disjuntas_def fim_real_def)
  have b: "horas_uteis (Some ?i) (Some (?i + 380000)) = Inr (1 / 10000)"
    by (simp add: metrics_eval time_eval)
  have c: "horas_uteis_com_pausas ?now ?i (?i + 380000) ?ps = Inr (0, 2 / 10000)"
    by (simp add: horas_uteis_com_pausas_def metrics_eval time_eval)
  have k: "?k = (Inr resultado_aberto_calc, snd ?k)"
    using calc_aberto by (metis prod.collapse)
  have g: "obter_configuracao_sla [cfg_alta] (ch_prioridade chamado_aberto) = Some cfg_alta"
    by (simp add: obter_configuracao_sla_def cfg_alta_def chamado_aberto_def)
  note t = contabilidade_de_pausas [where fim = "?i + 380000" and now = ?now and inicio = ?i
      and pausas = ?ps]
  from t [THEN conjunct1, rule_format, OF a] b c s
  have m: "(1 / 10000 :: real) \<le> 0 + 2 / 10000"
    "(0 + 2 / 10000 :: real) \<le> 1 / 10000 + (real (length [0 :: nat, 0]) + 1) / 20000"
    by auto
  from t [THEN conjunct2, rule_format, OF conjI [OF k g]]
  have z: "tempo_resolucao_pausado_horas resultado_aberto_calc
             = py_round (calcular_tempo_pausado [] (ch_id chamado_aberto)) 2"
    by auto
  show ?thesis using a s b c m z g calc_aberto by (intro conjI)
qed

text \<open>
  The claim as written fails in both evaluators.  In \<^verbatim>\<open>_horas_uteis_com_pausas\<close> pauses
  that overlap are counted once each: with the pauses 09:00 to 11:00 and 10:00 to 12:00
  inside the three hours from 09:00 to 12:00, four hours are paused, the worked hours
  are floored at 0, and the sum is four, not three.  In \<^verbatim>\<open>calcular_sla\<close> the ticket
  opened on Friday at 17:00 and evaluated on Monday at 09:00 has two business hours
  elapsed; its one pause, from Friday 17:30 to Monday 08:30, covers one of them, and is
  reported with the 63 hours of its stored duration.
\<close>

theorem contabilidade_de_pausas_counterexample:
  "horas_uteis (Some (mk_datetime 2026 3 2 9 0 0)) (Some (mk_datetime 2026 3 2 12 0 0)) = Inr 3 \<and>
   horas_uteis_com_pausas (mk_datetime 2026 3 3 18 0 0)
       (mk_datetime 2026 3 2 9 0 0) (mk_datetime 2026 3 2 12 0 0)
       [(mk_datetime 2026 3 2 9 0 0, Some (mk_datetime 2026 3 2 11 0 0)),
        (mk_datetime 2026 3 2 10 0 0, Some (mk_datetime 2026 3 2 12 0 0))] = Inr (0, 4) \<and>
   horas_uteis (Some (mk_datetime 2026 3 6 17 30 0)) (Some (mk_datetime 2026 3 9 8 30 0)) = Inr 1 \<and>
   fst (calcular_sla (novo_calculador [] []) [cfg_alta] [pausa_fim_de_semana]
          (mk_datetime 2026 3 9 9 0 0) chamado_sexta) =
     Inr \<lparr>tempo_resposta_limite_horas = 2, tempo_resposta_decorrido_horas = 2,
          tempo_resposta_pausado_horas = 63, c_percentual_resposta = 0,
          c_resposta_em_risco = False, c_resposta_vencida = False, c_resposta_em_dia = True,
          tempo_resolucao_limite_horas = 8, tempo_resolucao_decorrido_horas = 2,
          tempo_resolucao_pausado_horas = 63, c_percentual_resolucao = 0,
          c_resolucao_em_risco = False, c_resolucao_vencida = False, c_resolucao_em_dia = True,
          c_pausado = False, c_ativo = True\<rparr>"
proof -
  have "horas_uteis (Some (mk_datetime 2026 3 2 9 0 0)) (Some (mk_datetime 2026 3 2 12 0 0)) = Inr 3"
    by (simp add: metrics_eval time_eval)
  moreover have "horas_uteis_com_pausas (mk_datetime 2026 3 3 18 0 0)
       (mk_datetime 2026 3 2 9 0 0) (mk_datetime 2026 3 2 12 0 0)
       [(mk_datetime 2026 3 2 9 0 0, Some (mk_datetime 2026 3 2 11 0 0)),
        (mk_datetime 2026 3 2 10 0 0, Some (mk_datetime 2026 3 2 12 0 0))] = Inr (0, 4)"
    by (simp add: horas_uteis_com_pausas_def metrics_eval time_eval)
  moreover have "horas_uteis (Some (mk_datetime 2026 3 6 17 30 0))
                   (Some (mk_datetime 2026 3 9 8 30 0)) = Inr 1"
    by (simp add: metrics_eval time_eval)
  moreover have "fst (calcular_sla (novo_calculador [] []) [cfg_alta] [pausa_fim_de_semana]
          (mk_datetime 2026 3 9 9 0 0) chamado_sexta) =
     Inr \<lparr>tempo_resposta_limite_horas = 2, tempo_resposta_decorrido_horas = 2,
          tempo_resposta_pausado_horas = 63, c_percentual_resposta = 0,
          c_resposta_em_risco = False, c_resposta_vencida = False, c_resposta_em_dia = True,
          tempo_resolucao_limite_horas = 8, tempo_resolucao_decorrido_horas = 2,
          tempo_resolucao_pausado_horas = 63, c_percentual_resolucao = 0,
          c_resolucao_em_risco = False, c_resolucao_vencida = False, c_resolucao_em_dia = True,
          c_pausado = False, c_ativo = True\<rparr>"
    by (simp add: calc_sla_eval calc_eval cfg_alta_def chamado_sexta_def pausa_fim_de_semana_def
          time_eval string_eval Let_def)
  ultimately show ?thesis by (intro conjI)
qed

section \<open>The response clock of an answered ticket\<close>

lemma calcular_sla_chamado_respondido:
  assumes "calcular_sla_chamado lower db now c = Inr (Some r)" "data_primeira_resposta c = Some primeira"
  obtains abertura cfg where
    "data_abertura c = Some abertura"
    "config_do_chamado lower db c = Some cfg"
    "horas_uteis_com_pausas now abertura primeira (pausas_of db (ch_id c))
       = Inr (resposta_trabalhado_horas r, resposta_pausado_horas r)"
    "resposta_limite_horas r = resposta cfg"
    "percentual_resposta r = percentual (resposta_trabalhado_horas r) (resposta cfg)"
    "resposta_vencida r = (resposta cfg < resposta_trabalhado_horas r)"
    "resposta_em_risco r = False"
    "resposta_em_dia r = (\<not> resposta_vencida r)"
  using assms
  unfolding calcular_sla_chamado_def config_do_chamado_def Let_def
  by (auto split: option.splits sum.splits prod.splits if_splits)

lemma pausas_loop_depois:
  "list_all (\<lambda>q. fr \<le> fst q) qs \<Longrightarrow> pausas_loop now inicio fr qs acc = Inr acc"
proof (induction qs)
  case Nil
  show ?case by simp
next
  case (Cons q qs)
  obtain q_ini q_fim where q: "q = (q_ini, q_fim)" by (cases q)
  from Cons.prems have "fr \<le> q_ini" by (simp add: q)
  then have "\<not> max q_ini inicio < min (case q_fim of Some t \<Rightarrow> t | None \<Rightarrow> now) fr"
    by simp
  with Cons show ?case by (simp add: q Let_def)
qed

lemma pausas_loop_evolui:
  "evolui fr ps qs \<Longrightarrow> fr \<le> now1 \<Longrightarrow> fr \<le> now2 \<Longrightarrow>
     pausas_loop now1 inicio fr ps acc = pausas_loop now2 inicio fr qs acc"
proof (induction fr ps qs arbitrary: acc rule: evolui.induct)
  case (1 fr qs)
  then show ?case by (simp add: pausas_loop_depois)
next
  case (2 fr p ps)
  then show ?case by simp
next
  case (3 fr p ps q qs)
  obtain p_ini p_fim where p: "p = (p_ini, p_fim)" by (cases p)
  obtain q_ini q_fim where q: "q = (q_ini, q_fim)" by (cases q)
  from "3.prems" have e: "q_ini = p_ini" "evolui fr ps qs"
    and d: "q_fim = p_fim \<or> (p_fim = None \<and> (case q_fim of Some t \<Rightarrow> fr \<le> t | None \<Rightarrow> False))"
    by (simp_all add: p q)
  have m: "min (case q_fim of Some t \<Rightarrow> t | None \<Rightarrow> now2) fr
           = min (case p_fim of Some t \<Rightarrow> t | None \<Rightarrow> now1) fr"
    using d "3.prems"(2,3) by (auto simp: min_def split: option.splits)
  note ih = "3.IH" [OF e(2) "3.prems"(2,3)]
  show ?case
    unfolding p q e(1) pausas_loop.simps Let_def m ih ..
qed

lemma horas_uteis_com_pausas_evolui:
  assumes "fr \<le> now1" "fr \<le> now2" "evolui fr ps qs"
  shows "horas_uteis_com_pausas now1 inicio fr ps = horas_uteis_com_pausas now2 inicio fr qs"
  unfolding horas_uteis_com_pausas_def pausas_loop_evolui [OF assms(3,1,2)] ..

lemma calcular_sla_respondido:
  assumes "data_primeira_resposta c \<noteq> None"
    and "calcular_sla calc configs tabela now c = (Inr r, calc')"
  shows "tempo_resposta_decorrido_horas r = 0 \<and> tempo_resposta_pausado_horas r = 0 \<and>
         c_percentual_resposta r = 0 \<and> \<not> c_resposta_vencida r \<and> \<not> c_resposta_em_risco r \<and>
         c_resposta_em_dia r"
proof (cases "obter_configuracao_sla configs (ch_prioridade c)")
  case None
  with assms(2) have "r = criar_resultado_vazio" by (simp add: calcular_sla_def)
  then show ?thesis by (simp add: criar_resultado_vazio_def)
next
  case (Some config)
  with assms show ?thesis
    unfolding calcular_sla_def bloco_resposta_def Let_def
    by (auto simp: py_round_zero split: sum.splits prod.splits)
qed

lemma relogio_metricas:
  assumes "data_primeira_resposta c1 = Some primeira" "data_primeira_resposta c2 = Some primeira"
    "ch_id c2 = ch_id c1" "data_abertura c2 = data_abertura c1"
    "config_do_chamado lower db2 c2 = config_do_chamado lower db1 c1"
    "evolui primeira (pausas_of db1 (ch_id c1)) (pausas_of db2 (ch_id c2))"
    "primeira \<le> now1" "primeira \<le> now2"
    "calcular_sla_chamado lower db1 now1 c1 = Inr (Some r1)"
    "calcular_sla_chamado lower db2 now2 c2 = Inr (Some r2)"
  shows "(\<exists>abertura. data_abertura c1 = Some abertura \<and>
            horas_uteis_com_pausas now1 abertura primeira (pausas_of db1 (ch_id c1))
              = Inr (resposta_trabalhado_horas r1, resposta_pausado_horas r1)) \<and>
         resposta_vencida r1 = (resposta_limite_horas r1 < resposta_trabalhado_horas r1) \<and>
         \<not> resposta_em_risco r1 \<and>
         resposta_trabalhado_horas r2 = resposta_trabalhado_horas r1 \<and>
         resposta_pausado_horas r2 = resposta_pausado_horas r1 \<and>
         resposta_limite_horas r2 = resposta_limite_horas r1 \<and>
         percentual_resposta r2 = percentual_resposta r1 \<and>
         resposta_vencida r2 = resposta_vencida r1 \<and>
         resposta_em_risco r2 = resposta_em_risco r1 \<and>
         resposta_em_dia r2 = resposta_em_dia r1"
proof -
  from assms(9,1) obtain a1 cfg1 where f1:
    "data_abertura c1 = Some a1" "config_do_chamado lower db1 c1 = Some cfg1"
    "horas_uteis_com_pausas now1 a1 primeira (pausas_of db1 (ch_id c1))
       = Inr (resposta_trabalhado_horas r1, resposta_pausado_horas r1)"
    "resposta_limite_horas r1 = resposta cfg1"
    "percentual_resposta r1 = percentual (resposta_trabalhado_horas r1) (resposta cfg1)"
    "resposta_vencida r1 = (resposta cfg1 < resposta_trabalhado_horas r1)"
    "resposta_em_risco r1 = False"
    "resposta_em_dia r1 = (\<not> resposta_vencida r1)"
    by (rule calcular_sla_chamado_respondido)
  from assms(10,2) obtain a2 cfg2 where f2:
    "data_abertura c2 = Some a2" "config_do_chamado lower db2 c2 = Some cfg2"
    "horas_uteis_com_pausas now2 a2 primeira (pausas_of db2 (ch_id c2))
       = Inr (resposta_trabalhado_horas r2, resposta_pausado_horas r2)"
    "resposta_limite_horas r2 = resposta cfg2"
    "percentual_resposta r2 = percentual (resposta_trabalhado_horas r2) (resposta cfg2)"
    "resposta_vencida r2 = (resposta cfg2 < resposta_trabalhado_horas r2)"
    "resposta_em_risco r2 = False"
    "resposta_em_dia r2 = (\<not> resposta_vencida r2)"
    by (rule calcular_sla_chamado_respondido)
  have e: "a2 = a1" "cfg2 = cfg1" using f1(1,2) f2(1,2) assms(4,5) by simp_all
  have "horas_uteis_com_pausas now1 a1 primeira (pausas_of db1 (ch_id c1))
        = horas_uteis_com_pausas now2 a1 primeira (pausas_of db2 (ch_id c2))"
    by (rule horas_uteis_com_pausas_evolui [OF assms(7,8,6)])
  with f1(3) f2(3) e have t: "resposta_trabalhado_horas r2 = resposta_trabalhado_horas r1"
    "resposta_pausado_horas r2 = resposta_pausado_horas r1" by simp_all
  show ?thesis
    using f1 f2 e t by auto
qed


text \<open>
  C6, as the code has it, evaluator by evaluator.

  In \<^verbatim>\<open>calcular_sla_chamado\<close> the response clock of a ticket with a first response is
  \<^verbatim>\<open>_horas_uteis_com_pausas\<close> from the opening time to the first response; it is breached
  when the worked hours exceed the limit and it is never at risk.  Take two evaluations
  of the ticket at instants not before the first response, with the same opening time,
  first response and configuration, the pauses of the second being those of the first
  where open pauses may have been closed at or after the first response and pauses
  starting at or after it may have been added.  Both report the same response hours,
  paused hours, limit, percentage and flags, whatever the status of the ticket has
  become: a response clock that was not breached is not breached at the later
  evaluation.

  In the legacy \<^verbatim>\<open>calcular_sla\<close> the response clock of a ticket with a first response is
  not measured: every evaluation reports zero hours, zero percent and on time.
\<close>

theorem relogio_de_resposta_congelado:
  "(data_primeira_resposta c1 = Some primeira \<and> data_primeira_resposta c2 = Some primeira \<and>
    ch_id c2 = ch_id c1 \<and> data_abertura c2 = data_abertura c1 \<and>
    config_do_chamado lower db2 c2 = config_do_chamado lower db1 c1 \<and>
    evolui primeira (pausas_of db1 (ch_id c1)) (pausas_of db2 (ch_id c2)) \<and>
    primeira \<le> now1 \<and> primeira \<le> now2 \<and>
    calcular_sla_chamado lower db1 now1 c1 = Inr (Some r1) \<and>
    calcular_sla_chamado lower db2 now2 c2 = Inr (Some r2) \<longrightarrow>
      (\<exists>abertura. data_abertura c1 = Some abertura \<and>
         horas_uteis_com_pausas now1 abertura primeira (pausas_of db1 (ch_id c1))
           = Inr (resposta_trabalhado_horas r1, resposta_pausado_horas r1)) \<and>
      resposta_vencida r1 = (resposta_limite_horas r1 < resposta_trabalhado_horas r1) \<and>
      \<not> resposta_em_risco r1 \<and>
      resposta_trabalhado_horas r2 = resposta_trabalhado_horas r1 \<and>
      resposta_pausado_horas r2 = resposta_pausado_horas r1 \<and>
      resposta_limite_horas r2 = resposta_limite_horas r1 \<and>
      percentual_resposta r2 = percentual_resposta r1 \<and>
      resposta_vencida r2 = resposta_vencida r1 \<and>
      resposta_em_risco r2 = resposta_em_risco r1 \<and>
      resposta_em_dia r2 = resposta_em_dia r1) \<and>
   (\<forall>calc configs tabela now r' calc'.
      data_primeira_resposta c1 \<noteq> None \<and>
      calcular_sla calc configs tabela now c1 = (Inr r', calc') \<longrightarrow>
        tempo_resposta_decorrido_horas r' = 0 \<and> tempo_resposta_pausado_horas r' = 0 \<and>
        c_percentual_resposta r' = 0 \<and> \<not> c_resposta_vencida r' \<and> \<not> c_resposta_em_risco r' \<and>
        c_resposta_em_dia r')"
  apply (intro conjI)
   apply (intro impI, elim conjE, rule relogio_metricas; assumption)
  apply (intro allI impI, elim conjE, erule (1) calcular_sla_respondido)
  done

text \<open>
  The ticket answered at 10:30 with a pause open since 10:00.  It is evaluated on
  Monday at 12:00, and again on Tuesday at 17:00 after that pause was closed on Tuesday
  at 09:00 and a new one opened at 10:00.  The resolution clock moves from one worked
  hour and two paused to two worked hours and sixteen paused; the response clock stays
  at one hour worked and half an hour paused, on time.  The calculator reports a
  response clock of zero for it.
\<close>

theorem relogio_de_resposta_congelado_witness:
  "data_primeira_resposta chamado_respondido = Some (mk_datetime 2026 3 2 10 30 0) \<and>
   evolui (mk_datetime 2026 3 2 10 30 0) (pausas_of banco_respondido 4)
     (pausas_of banco_respondido_depois 4) \<and>
   mk_datetime 2026 3 2 10 30 0 \<le> mk_datetime 2026 3 2 12 0 0 \<and>
   mk_datetime 2026 3 2 10 30 0 \<le> mk_datetime 2026 3 3 17 0 0 \<and>
   calcular_sla_chamado ascii_lower banco_respondido (mk_datetime 2026 3 2 12 0 0)
     chamado_respondido = Inr (Some (resultado_respondido 1 2 (25 / 2))) \<and>
   calcular_sla_chamado ascii_lower banco_respondido_depois (mk_datetime 2026 3 3 17 0 0)
     chamado_respondido = Inr (Some (resultado_respondido 2 16 25)) \<and>
   resposta_trabalhado_horas (resultado_respondido 2 16 25)
     = resposta_trabalhado_horas (resultado_respondido 1 2 (25 / 2)) \<and>
   resposta_pausado_horas (resultado_respondido 2 16 25)
     = resposta_pausado_horas (resultado_respondido 1 2 (25 / 2)) \<and>
   percentual_resposta (resultado_respondido 2 16 25)
     = percentual_resposta (resultado_respondido 1 2 (25 / 2)) \<and>
   resposta_vencida (resultado_respondido 2 16 25)
     = resposta_vencida (resultado_respondido 1 2 (25 / 2)) \<and>
   resposta_em_dia (resultado_respondido 2 16 25)
     = resposta_em_dia (resultado_respondido 1 2 (25 / 2)) \<and>
   horas_uteis_com_pausas (mk_datetime 2026 3 2 12 0 0) (mk_datetime 2026 3 2 9 0 0)
       (mk_datetime 2026 3 2 10 30 0) (pausas_of banco_respondido 4) = Inr (1, 1 / 2) \<and>
   fst (calcular_sla (novo_calculador [] []) [cfg_alta] [pausa_do_respondido]
          (mk_datetime 2026 3 2 12 0 0) chamado_respondido) = Inr resultado_respondido_calc \<and>
   tempo_resposta_decorrido_horas resultado_respondido_calc = 0 \<and>
   c_percentual_resposta resultado_respondido_calc = 0 \<and>
   c_resposta_em_dia resultado_respondido_calc"
proof -
  let ?fr = "mk_datetime 2026 3 2 10 30 0"
  let ?n1 = "mk_datetime 2026 3 2 12 0 0"
  let ?n2 = "mk_datetime 2026 3 3 17 0 0"
  let ?k = "calcular_sla (novo_calculador [] []) [cfg_alta] [pausa_do_respondido] ?n1
              chamado_respondido"
  have a: "data_primeira_resposta chamado_respondido = Some ?fr"
    by (simp add: chamado_respondido_def)
  have b: "?fr \<le> ?n1" "?fr \<le> ?n2"
    by (simp_all add: time_eval)
  have p: "pausas_of banco_respondido 4 = [(mk_datetime 2026 3 2 10 0 0, None)]"
    "pausas_of banco_respondido_depois 4 =
       [(mk_datetime 2026 3 2 10 0 0, Some (mk_datetime 2026 3 3 9 0 0)),
        (mk_datetime 2026 3 3 10 0 0, None)]"
    by (simp_all add: pausas_of_def banco_respondido_def banco_respondido_depois_def
          pausa_do_respondido_def)
  have ev: "evolui ?fr (pausas_of banco_respondido 4) (pausas_of banco_respondido_depois 4)"
    unfolding p by (simp add: time_eval)
  have c: "calcular_sla_chamado ascii_lower banco_respondido ?n1 chamado_respondido
             = Inr (Some (resultado_respondido 1 2 (25 / 2)))"
    by (simp add: sla_eval banco_respondido_def chamado_respondido_def pausa_do_respondido_def
          cfg_alta_def resultado_respondido_def metrics_eval time_eval string_eval)
  have d: "calcular_sla_chamado ascii_lower banco_respondido_depois ?n2 chamado_respondido
             = Inr (Some (resultado_respondido 2 16 25))"
    by (simp add: sla_eval banco_respondido_depois_def chamado_respondido_def
          pausa_do_respondido_def cfg_alta_def resultado_respondido_def metrics_eval time_eval
          string_eval)
  have g: "config_do_chamado ascii_lower banco_respondido_depois chamado_respondido
           = config_do_chamado ascii_lower banco_respondido chamado_respondido"
    by (simp add: config_do_chamado_def configs_of_def banco_respondido_def
          banco_respondido_depois_def)
  have e: "data_abertura chamado_respondido = Some (mk_datetime 2026 3 2 9 0 0)"
    "ch_id chamado_respondido = 4"
    "resposta_trabalhado_horas (resultado_respondido 1 2 (25 / 2)) = 1"
    "resposta_pausado_horas (resultado_respondido 1 2 (25 / 2)) = 1 / 2"
    by (simp_all add: chamado_respondido_def resultado_respondido_def)
  have k: "fst ?k = Inr resultado_respondido_calc"
    by (simp add: calc_sla_eval calc_eval cfg_alta_def chamado_respondido_def
          pausa_do_respondido_def resultado_respondido_calc_def time_eval string_eval Let_def)
  then have k': "?k = (Inr resultado_respondido_calc, snd ?k)" by (metis prod.collapse)
  note t = relogio_de_resposta_congelado [where lower = ascii_lower and ?c1.0 = chamado_respondido
      and ?c2.0 = chamado_respondido and ?db1.0 = banco_respondido
      and ?db2.0 = banco_respondido_depois and ?now1.0 = ?n1 and ?now2.0 = ?n2
      and primeira = ?fr and ?r1.0 = "resultado_respondido 1 2 (25 / 2)"
      and ?r2.0 = "resultado_respondido 2 16 25"]
  from t a b c d g ev e
  have m: "horas_uteis_com_pausas ?n1 (mk_datetime 2026 3 2 9 0 0) ?fr (pausas_of banco_respondido 4)
             = Inr (1, 1 / 2)"
    "resposta_trabalhado_horas (resultado_respondido 2 16 25)
       = resposta_trabalhado_horas (resultado_respondido 1 2 (25 / 2))"
    "resposta_pausado_horas (resultado_respondido 2 16 25)
       = resposta_pausado_horas (resultado_respondido 1 2 (25 / 2))"
    "percentual_resposta (resultado_respondido 2 16 25)
       = percentual_resposta (resultado_respondido 1 2 (25 / 2))"
    "resposta_vencida (resultado_respondido 2 16 25)
       = resposta_vencida (resultado_respondido 1 2 (25 / 2))"
    "resposta_em_dia (resultado_respondido 2 16 25)
       = resposta_em_dia (resultado_respondido 1 2 (25 / 2))"
    by auto
  from t [THEN conjunct2, rule_format, OF conjI [OF _ k']] a
  have z: "tempo_resposta_decorrido_horas resultado_respondido_calc = 0"
    "c_percentual_resposta resultado_respondido_calc = 0"
    "c_resposta_em_dia resultado_respondido_calc" by simp_all
  show ?thesis using a b c d ev m z k by simp
qed

text \<open>
  The claim as written (the response clock of every answered ticket is measured from
  the opening time to the first response) fails on the calculator.  The ticket opened
  at 09:00 and answered at 13:00 has four business hours on its response clock, twice
  the limit, and the metrics service reports them; \<^verbatim>\<open>calcular_sla\<close> reports zero hours,
  zero percent, on time.
\<close>

theorem relogio_de_resposta_congelado_counterexample:
  "data_primeira_resposta chamado_concluido = Some (mk_datetime 2026 3 2 13 0 0) \<and>
   horas_uteis_com_pausas (mk_datetime 2026 3 3 10 0 0) (mk_datetime 2026 3 2 9 0 0)
       (mk_datetime 2026 3 2 13 0 0) [] = Inr (4, 0) \<and>
   fst (calcular_sla (novo_calculador [] []) [cfg_alta] [] (mk_datetime 2026 3 3 10 0 0)
          chamado_concluido) =
     Inr \<lparr>tempo_resposta_limite_horas = 2, tempo_resposta_decorrido_horas = 0,
          tempo_resposta_pausado_horas = 0, c_percentual_resposta = 0,
          c_resposta_em_risco = False, c_resposta_vencida = False, c_resposta_em_dia = True,
          tempo_resolucao_limite_horas = 8, tempo_resolucao_decorrido_horas = 6,
          tempo_resolucao_pausado_horas = 0, c_percentual_resolucao = 75,
          c_resolucao_em_risco = False, c_resolucao_vencida = False, c_resolucao_em_dia = True,
          c_pausado = False, c_ativo = False\<rparr>"
proof -
  have "data_primeira_resposta chamado_concluido = Some (mk_datetime 2026 3 2 13 0 0)"
    by (simp add: chamado_concluido_def)
  moreover have "horas_uteis_com_pausas (mk_datetime 2026 3 3 10 0 0) (mk_datetime 2026 3 2 9 0 0)
       (mk_datetime 2026 3 2 13 0 0) [] = Inr (4, 0)"
    by (simp add: horas_uteis_com_pausas_def metrics_eval time_eval)
  moreover have "fst (calcular_sla (novo_calculador [] []) [cfg_alta] [] (mk_datetime 2026 3 3 10 0 0)
          chamado_concluido) =
     Inr \<lparr>tempo_resposta_limite_horas = 2, tempo_resposta_decorrido_horas = 0,
          tempo_resposta_pausado_horas = 0, c_percentual_resposta = 0,
          c_resposta_em_risco = False, c_resposta_vencida = False, c_resposta_em_dia = True,
          tempo_resolucao_limite_horas = 8, tempo_resolucao_decorrido_horas = 6,
          tempo_resolucao_pausado_horas = 0, c_percentual_resolucao = 75,
          c_resolucao_em_risco = False, c_resolucao_vencida = False, c_resolucao_em_dia = True,
          c_pausado = False, c_ativo = False\<rparr>"
    by (simp add: calc_sla_eval calc_eval cfg_alta_def chamado_concluido_def
          time_eval string_eval Let_def)
  ultimately show ?thesis by (intro conjI)
qed

section \<open>Buckets of the dashboard\<close>

lemma baldes_ok_inicial: "baldes_ok acumulador_inicial"
  by (simp add: baldes_ok_def acumulador_inicial_def)

lemma listas_somar_resposta:
  "l_pausados (somar_resposta c s acc) = l_pausados acc \<and>
   l_vencidos (somar_resposta c s acc) = l_vencidos acc \<and>
   l_em_risco (somar_resposta c s acc) = l_em_risco acc \<and>
   l_processados (somar_resposta c s acc) = l_processados acc"
  by (simp add: somar_resposta_def Let_def split: option.split)

lemma listas_somar_resolucao:
  "l_pausados (somar_resolucao c s acc) = l_pausados acc \<and>
   l_vencidos (somar_resolucao c s acc) = l_vencidos acc \<and>
   l_em_risco (somar_resolucao c s acc) = l_em_risco acc \<and>
   l_processados (somar_resolucao c s acc) = l_processados acc"
  by (simp add: somar_resolucao_def Let_def split: option.split prod.split)

lemma baldes_ok_acumular: "baldes_ok acc \<Longrightarrow> baldes_ok (acumular c s acc)"
  by (simp add: baldes_ok_def acumular_def listas_somar_resposta listas_somar_resolucao
        classificar_def)

lemma baldes_ok_loop:
  "baldes_ok acc \<Longrightarrow> dashboard_loop lower db now cs acc = Inr acc' \<Longrightarrow> baldes_ok acc'"
proof (induction cs arbitrary: acc)
  case Nil
  then show ?case by simp
next
  case (Cons c cs)
  then show ?case
    by (auto split: sum.splits option.splits intro: baldes_ok_acumular)
qed

lemma length_quatro_baldes:
  "length xs = length (filter P xs) + length (filter (\<lambda>s. \<not> P s \<and> Q s) xs)
     + length (filter (\<lambda>s. \<not> P s \<and> \<not> Q s \<and> R s) xs)
     + length (filter (\<lambda>s. \<not> P s \<and> \<not> Q s \<and> \<not> R s) xs)"
  by (induction xs) auto

lemmas dash_eval = obter_metricas_dashboard_def selecionar_chamados_def acumulador_inicial_def
  acumular_def classificar_def somar_resposta_def somar_resolucao_def montar_dashboard_def
  pct_de_def formatar_def prio_contar_def

lemma prio_somar_Nil: "prio_somar [] p v = v"
  by (simp add: prio_somar_def contar_def)

lemma prio_somar_Cons_eq:
  "prioridade_de s = p \<Longrightarrow> prio_somar (s # ss) p v = prio_somar ss p (prio_contar s v)"
  by (simp add: prio_somar_def contar_def prio_contar_def Let_def)

lemma prio_somar_Cons_neq:
  "prioridade_de s \<noteq> p \<Longrightarrow> prio_somar (s # ss) p v = prio_somar ss p v"
  by (simp add: prio_somar_def contar_def)

lemma prio_loop_geral:
  "prio_loop xs m =
     map (\<lambda>(k, v). (k, prio_somar xs k v)) m @
     map (\<lambda>p. (p, prio_somar xs p (prio_zero p)))
       (filter (\<lambda>p. p \<notin> fst ` set m) (primeiras (map prioridade_de xs)))"
proof (induction xs arbitrary: m)
  case Nil
  show ?case by (simp add: prio_somar_Nil)
next
  case (Cons s ss)
  define p where "p = prioridade_de s"
  let ?upd = "\<lambda>(k, v). if k = p then (k, prio_contar s v) else (k, v)"
  have keys: "\<And>m'. fst ` set (map ?upd m') = fst ` set m'"
    by (force simp: image_iff split: if_splits)
  have first: "\<And>m'. map (\<lambda>(k, v). (k, prio_somar ss k v)) (map ?upd m')
                 = map (\<lambda>(k, v). (k, prio_somar (s # ss) k v)) m'"
    by (auto simp: p_def prio_somar_Cons_eq prio_somar_Cons_neq)
  show ?case
  proof (cases "p \<in> fst ` set m")
    case True
    have step: "prio_loop (s # ss) m = prio_loop ss (map ?upd m)"
      using True by (simp add: p_def [symmetric] prioridade_de_def [symmetric] Let_def)
    have f: "filter (\<lambda>q. q \<notin> fst ` set m) (primeiras (map prioridade_de (s # ss)))
             = filter (\<lambda>q. q \<notin> fst ` set m) (primeiras (map prioridade_de ss))"
      using True by (auto simp: p_def [symmetric] intro!: filter_cong)
    have g: "map (\<lambda>q. (q, prio_somar ss q (prio_zero q)))
               (filter (\<lambda>q. q \<notin> fst ` set m) (primeiras (map prioridade_de ss)))
             = map (\<lambda>q. (q, prio_somar (s # ss) q (prio_zero q)))
               (filter (\<lambda>q. q \<notin> fst ` set m) (primeiras (map prioridade_de ss)))"
    proof (rule map_cong [OF refl])
      fix q assume "q \<in> set (filter (\<lambda>q. q \<notin> fst ` set m) (primeiras (map prioridade_de ss)))"
      with True have "prioridade_de s \<noteq> q" by (auto simp: p_def)
      then show "(q, prio_somar ss q (prio_zero q)) = (q, prio_somar (s # ss) q (prio_zero q))"
        by (simp add: prio_somar_Cons_neq)
    qed
    show ?thesis
      unfolding step Cons.IH keys first f g ..
  next
    case False
    let ?m1 = "m @ [(p, prio_zero p)]"
    have step: "prio_loop (s # ss) m = prio_loop ss (map ?upd ?m1)"
      using False
      by (simp add: p_def [symmetric] prioridade_de_def [symmetric] Let_def prio_zero_def)
    have k1: "fst ` set ?m1 = insert p (fst ` set m)" by auto
    have f: "filter (\<lambda>q. q \<notin> fst ` set m) (primeiras (map prioridade_de (s # ss)))
             = p # filter (\<lambda>q. q \<notin> insert p (fst ` set m)) (primeiras (map prioridade_de ss))"
      using False by (auto simp: p_def [symmetric] intro!: filter_cong)
    have g: "map (\<lambda>q. (q, prio_somar ss q (prio_zero q)))
               (filter (\<lambda>q. q \<notin> insert p (fst ` set m)) (primeiras (map prioridade_de ss)))
             = map (\<lambda>q. (q, prio_somar (s # ss) q (prio_zero q)))
               (filter (\<lambda>q. q \<notin> insert p (fst ` set m)) (primeiras (map prioridade_de ss)))"
    proof (rule map_cong [OF refl])
      fix q
      assume "q \<in> set (filter (\<lambda>q. q \<notin> insert p (fst ` set m)) (primeiras (map prioridade_de ss)))"
      then have "prioridade_de s \<noteq> q" by (auto simp: p_def)
      then show "(q, prio_somar ss q (prio_zero q)) = (q, prio_somar (s # ss) q (prio_zero q))"
        by (simp add: prio_somar_Cons_neq)
    qed
    have h: "prio_somar (s # ss) p (prio_zero p) = prio_somar ss p (prio_contar s (prio_zero p))"
      by (simp add: p_def prio_somar_Cons_eq)
    show ?thesis
      unfolding step Cons.IH keys first k1 f g
      by (simp add: h first [symmetric] del: map_map)
  qed
qed

lemma prio_loop_vazio:
  "prio_loop xs [] =
     map (\<lambda>p. (p, ps_stats (prio_esperado xs p))) (primeiras (map prioridade_de xs))"
  unfolding prio_loop_geral [of xs "[]"]
  by (simp add: prio_somar_def prio_zero_def prio_esperado_def)

lemma por_prioridade_montar:
  "por_prioridade (montar_dashboard now di df cs acc) =
     map (prio_esperado (l_processados acc)) (primeiras (map prioridade_de (l_processados acc)))"
  by (simp add: montar_dashboard_def Let_def prio_loop_vazio prio_esperado_def o_def)


lemma processados_acumular: "l_processados (acumular c s acc) = l_processados acc @ [s]"
  by (simp add: acumular_def listas_somar_resposta listas_somar_resolucao classificar_def)

lemma processados_loop:
  "dashboard_loop lower db now cs acc = Inr acc' \<Longrightarrow>
     l_processados acc' = l_processados acc @ resultados lower db now cs"
proof (induction cs arbitrary: acc)
  case Nil
  then show ?case by (simp add: resultados_def List.map_filter_simps)
next
  case (Cons c cs)
  show ?case
  proof (cases "calcular_sla_chamado lower db now c")
    case (Inl e)
    with Cons.prems show ?thesis by simp
  next
    case (Inr r)
    show ?thesis
    proof (cases r)
      case None
      with Inr Cons show ?thesis by (simp add: resultados_def List.map_filter_simps)
    next
      case (Some s)
      with Inr Cons.prems have "dashboard_loop lower db now cs (acumular c s acc) = Inr acc'"
        by simp
      from Cons.IH [OF this] Inr Some show ?thesis
        by (simp add: resultados_def List.map_filter_simps processados_acumular)
    qed
  qed
qed

text \<open>
  C9, as the code has it.  The loop over the selected tickets processes the results of
  the tickets that have one.  The paused list holds the processed results that are
  paused, the breached list those that are not paused and resolution-breached, the
  at-risk list those that are neither and resolution-at-risk: one list per result at
  most, decided in this order, and the results in no list are the on-time ones.  The
  dashboard's counts are the lengths of these lists.  Its compliance percentage is
  computed from the total minus the at-risk and breached counts, so paused results
  are part of it.  The per-priority breakdown has one entry per priority, in the order
  of first occurrence, and each entry counts the results of its priority that are
  paused, those that are resolution-at-risk and those that are resolution-breached
  independently of one another.
\<close>

theorem baldes_do_dashboard:
  assumes "dashboard_loop lower db now cs acumulador_inicial = Inr acc"
    and "d = montar_dashboard now di df cs acc"
  shows "l_processados acc = resultados lower db now cs \<and>
         total_chamados d = int (length (l_processados acc)) \<and>
         chamados_pausados d = int (length (filter pausado (l_processados acc))) \<and>
         chamados_vencidos d =
           int (length (filter (\<lambda>s. \<not> pausado s \<and> resolucao_vencida s) (l_processados acc))) \<and>
         chamados_em_risco d =
           int (length (filter (\<lambda>s. \<not> pausado s \<and> \<not> resolucao_vencida s \<and> resolucao_em_risco s)
                          (l_processados acc))) \<and>
         total_chamados d = chamados_pausados d + chamados_vencidos d + chamados_em_risco d +
           int (length (filter (\<lambda>s. \<not> pausado s \<and> \<not> resolucao_vencida s \<and> \<not> resolucao_em_risco s)
                          (l_processados acc))) \<and>
         lista_pausados d = take 50 (filter pausado (l_processados acc)) \<and>
         lista_vencidos d =
           take 50 (filter (\<lambda>s. \<not> pausado s \<and> resolucao_vencida s) (l_processados acc)) \<and>
         lista_em_risco d =
           take 50 (filter (\<lambda>s. \<not> pausado s \<and> \<not> resolucao_vencida s \<and> resolucao_em_risco s)
                      (l_processados acc)) \<and>
         percentual_cumprimento d =
           pct_de (total_chamados d - chamados_em_risco d - chamados_vencidos d) (total_chamados d) \<and>
         percentual_em_risco d = pct_de (chamados_em_risco d) (total_chamados d) \<and>
         percentual_vencidos d = pct_de (chamados_vencidos d) (total_chamados d) \<and>
         por_prioridade d =
           map (prio_esperado (l_processados acc)) (primeiras (map prioridade_de (l_processados acc)))"
proof -
  have ok: "baldes_ok acc"
    using baldes_ok_loop [OF baldes_ok_inicial assms(1)] .
  have r: "l_processados acc = resultados lower db now cs"
    using processados_loop [OF assms(1)] by (simp add: acumulador_inicial_def)
  have c: "total_chamados d = int (length (l_processados acc))"
    "chamados_pausados d = int (length (l_pausados acc))"
    "chamados_vencidos d = int (length (l_vencidos acc))"
    "chamados_em_risco d = int (length (l_em_risco acc))"
    "lista_pausados d = take 50 (l_pausados acc)"
    "lista_vencidos d = take 50 (l_vencidos acc)"
    "lista_em_risco d = take 50 (l_em_risco acc)"
    "percentual_cumprimento d =
       pct_de (total_chamados d - chamados_em_risco d - chamados_vencidos d) (total_chamados d)"
    "percentual_em_risco d = pct_de (chamados_em_risco d) (total_chamados d)"
    "percentual_vencidos d = pct_de (chamados_vencidos d) (total_chamados d)"
    by (simp_all add: assms(2) montar_dashboard_def Let_def)
  have p: "por_prioridade d =
           map (prio_esperado (l_processados acc)) (primeiras (map prioridade_de (l_processados acc)))"
    unfolding assms(2) by (rule por_prioridade_montar)
  have q: "int (length (l_processados acc)) =
       int (length (filter pausado (l_processados acc)))
     + int (length (filter (\<lambda>s. \<not> pausado s \<and> resolucao_vencida s) (l_processados acc)))
     + int (length (filter (\<lambda>s. \<not> pausado s \<and> \<not> resolucao_vencida s \<and> resolucao_em_risco s)
                          (l_processados acc)))
     + int (length (filter (\<lambda>s. \<not> pausado s \<and> \<not> resolucao_vencida s \<and> \<not> resolucao_em_risco s)
                          (l_processados acc)))"
    using length_quatro_baldes [of "l_processados acc" pausado resolucao_vencida resolucao_em_risco]
    by simp
  from ok have l: "l_pausados acc = filter pausado (l_processados acc)"
    "l_vencidos acc = filter (\<lambda>s. \<not> pausado s \<and> resolucao_vencida s) (l_processados acc)"
    "l_em_risco acc =
        filter (\<lambda>s. \<not> pausado s \<and> \<not> resolucao_vencida s \<and> resolucao_em_risco s) (l_processados acc)"
    by (simp_all add: baldes_ok_def)
  show ?thesis
    unfolding c(8,9,10) p
    using c(1-7) l q r by simp
qed

text \<open>
  One ticket in status Aguardando whose twenty worked hours exceed the resolution limit
  of eight: the loop puts it in the paused list only, and the dashboard counts one
  paused ticket, none breached, none at risk; the entry of its priority counts it
  once as paused and once as breached.
\<close>

theorem baldes_do_dashboard_witness:
  "dashboard_loop ascii_lower banco_aguardando (mk_datetime 2026 3 3 18 0 0) [chamado_aguardando]
      acumulador_inicial = Inr acumulador_aguardando \<and>
   resultados ascii_lower banco_aguardando (mk_datetime 2026 3 3 18 0 0) [chamado_aguardando]
     = [resultado_aguardando] \<and>
   total_chamados (montar_dashboard (mk_datetime 2026 3 3 18 0 0) SLA_DATA_INICIO
      (mk_datetime 2026 3 3 18 0 0) [chamado_aguardando] acumulador_aguardando) = 1 \<and>
   chamados_pausados (montar_dashboard (mk_datetime 2026 3 3 18 0 0) SLA_DATA_INICIO
      (mk_datetime 2026 3 3 18 0 0) [chamado_aguardando] acumulador_aguardando) = 1 \<and>
   chamados_vencidos (montar_dashboard (mk_datetime 2026 3 3 18 0 0) SLA_DATA_INICIO
      (mk_datetime 2026 3 3 18 0 0) [chamado_aguardando] acumulador_aguardando) = 0 \<and>
   chamados_em_risco (montar_dashboard (mk_datetime 2026 3 3 18 0 0) SLA_DATA_INICIO
      (mk_datetime 2026 3 3 18 0 0) [chamado_aguardando] acumulador_aguardando) = 0 \<and>
   lista_pausados (montar_dashboard (mk_datetime 2026 3 3 18 0 0) SLA_DATA_INICIO
      (mk_datetime 2026 3 3 18 0 0) [chamado_aguardando] acumulador_aguardando)
     = [resultado_aguardando] \<and>
   por_prioridade (montar_dashboard (mk_datetime 2026 3 3 18 0 0) SLA_DATA_INICIO
      (mk_datetime 2026 3 3 18 0 0) [chamado_aguardando] acumulador_aguardando)
     = [\<lparr>ps_stats = \<lparr>pp_prioridade = ''Alta'', pp_total = 1, pp_em_risco = 0,
                     pp_vencidos = 1, pp_pausados = 1\<rparr>,
         ps_percentual_em_risco = 0, ps_percentual_vencidos = 100\<rparr>]"
proof -
  have h: "dashboard_loop ascii_lower banco_aguardando (mk_datetime 2026 3 3 18 0 0) [chamado_aguardando]
             acumulador_inicial = Inr acumulador_aguardando"
    by (simp add: dash_eval sla_eval banco_aguardando_def chamado_aguardando_def cfg_alta_def
          acumulador_aguardando_def resultado_aguardando_def metrics_eval time_eval string_eval
          Let_def)
  have f: "l_processados acumulador_aguardando = [resultado_aguardando]"
    "pausado resultado_aguardando" "resolucao_vencida resultado_aguardando"
    "\<not> resolucao_em_risco resultado_aguardando"
    "prioridade_de resultado_aguardando = ''Alta''"
    by (simp_all add: acumulador_aguardando_def resultado_aguardando_def prioridade_de_def str_or_def)
  have g: "prio_esperado [resultado_aguardando] ''Alta''
     = \<lparr>ps_stats = \<lparr>pp_prioridade = ''Alta'', pp_total = 1, pp_em_risco = 0,
                     pp_vencidos = 1, pp_pausados = 1\<rparr>,
        ps_percentual_em_risco = 0, ps_percentual_vencidos = 100\<rparr>"
    by (simp add: prio_esperado_def contar_def f pct_de_def time_eval)
  from baldes_do_dashboard [OF h refl, where di = SLA_DATA_INICIO
      and df = "mk_datetime 2026 3 3 18 0 0"] h f g
  show ?thesis by simp
qed

text \<open>
  The claim as written (one bucket per ticket, also in the per-priority breakdown and
  in the percentages) fails on that ticket: the dashboard reports it paused and not
  breached, counts it as compliant (\<^verbatim>\<open>percentual_cumprimento\<close> is 100), and the
  breakdown of priority "Alta" counts it both in \<^verbatim>\<open>pausados\<close> and in \<^verbatim>\<open>vencidos\<close>.
\<close>

theorem baldes_do_dashboard_counterexample:
  "obter_metricas_dashboard ascii_lower banco_aguardando (mk_datetime 2026 3 3 18 0 0) None None =
   Inr \<lparr>total_chamados = 1, chamados_abertos = 1, chamados_em_risco = 0,
        chamados_vencidos = 0, chamados_pausados = 1,
        percentual_cumprimento = 100, percentual_em_risco = 0,
        percentual_vencidos = 0, tempo_medio_resposta_horas = 0,
        tempo_medio_resolucao_horas = 0,
        tempo_medio_resposta_formatado = Traco,
        tempo_medio_resolucao_formatado = Traco,
        por_prioridade =
          [\<lparr>ps_stats =
              \<lparr>pp_prioridade = ''Alta'', pp_total = 1, pp_em_risco = 0,
                 pp_vencidos = 1, pp_pausados = 1\<rparr>,
              ps_percentual_em_risco = 0, ps_percentual_vencidos = 100\<rparr>],
        lista_em_risco = [], lista_vencidos = [],
        lista_pausados = [resultado_aguardando],
        periodo_inicio = SLA_DATA_INICIO, periodo_fim = mk_datetime 2026 3 3 18 0 0,
        sla_data_inicio = SLA_DATA_INICIO,
        ultima_atualizacao = mk_datetime 2026 3 3 18 0 0\<rparr>"
  by (simp add: dash_eval sla_eval banco_aguardando_def chamado_aguardando_def cfg_alta_def
        resultado_aguardando_def metrics_eval time_eval string_eval Let_def)

end
